theory Spec2Isabelle
  imports Main "HOL-Library.Sublist"
begin

text \<open>
  A shallow embedding of the tool-hire assistant: the route
  \<^verbatim>\<open>app/api/tool-recommendation/route.js\<close> with its two phases (information gathering,
  tool recommendation), in streaming and non-streaming form, and the client component
  \<^verbatim>\<open>ToolHireChatbot\<close> in its revision with the watchdog timer, which talks to the
  route \<open>_p1\<close>. The repository holds three revisions of the route, and every revision is
  embedded under its own suffix:
  \<^item> \<open>_p0\<close>: the first revision, which keeps the conversation as one context string and
    reaches the gateway through \<^verbatim>\<open>fetch\<close>;
  \<^item> \<open>_p2\<close>: the SDK revision in which a recommendation can be continued from a partial
    response object \<^verbatim>\<open>{ text, phase }\<close> and a new conversation is opened by sending the
    system prompt as a message;
  \<^item> \<open>_p1\<close>: the SDK revision with \<^verbatim>\<open>continuationMode\<close> and the partial text as a string,
    for both phases.
  Handlers are functions of the outside world (file reads and gateway answers), and
  return, next to their result, the list of effects they performed, in order.
\<close>

section \<open>Strings of the JavaScript runtime\<close>

text \<open>
  A JavaScript string is modelled as a \<^typ>\<open>string\<close>. The empty string is the only falsy
  string, so a test \<^verbatim>\<open>if (s)\<close> on a string is \<open>s \<noteq> []\<close> and \<^verbatim>\<open>a || b\<close> on strings
  picks \<open>b\<close> exactly when \<open>a = []\<close>.
\<close>

text \<open>\<^verbatim>\<open>String.prototype.js_includes\<close>: the search string occurs as a contiguous run.\<close>

fun js_includes :: "string \<Rightarrow> string \<Rightarrow> bool" where
  "js_includes [] t = (t = [])"
| "js_includes (c # s) t = (prefix t (c # s) \<or> js_includes s t)"

text \<open>
  \<^verbatim>\<open>String.prototype.replace\<close> with a string pattern: only the first occurrence is
  replaced, and the replacement text is expanded (\<^verbatim>\<open>$$\<close>, \<^verbatim>\<open>$&\<close>, the text before and
  the text after the match) before it is spliced in.
\<close>

fun split_first :: "string \<Rightarrow> string \<Rightarrow> (string \<times> string) option" where
  "split_first pat [] = (if pat = [] then Some ([], []) else None)"
| "split_first pat (c # s) =
     (if prefix pat (c # s) then Some ([], drop (length pat) (c # s))
      else map_option (\<lambda>(before, after). (c # before, after)) (split_first pat s))"

fun getSubstitution :: "string \<Rightarrow> string \<Rightarrow> string \<Rightarrow> string \<Rightarrow> string" where
  "getSubstitution matched before after [] = []"
| "getSubstitution matched before after [c] = [c]"
| "getSubstitution matched before after (c # d # r) =
     (if c = CHR ''$'' \<and> d = CHR ''$'' then CHR ''$'' # getSubstitution matched before after r
      else if c = CHR ''$'' \<and> d = CHR ''&'' then matched @ getSubstitution matched before after r
      else if c = CHR ''$'' \<and> d = CHR 0x60 then before @ getSubstitution matched before after r
      else if c = CHR ''$'' \<and> d = CHR 0x27 then after @ getSubstitution matched before after r
      else c # getSubstitution matched before after (d # r))"

definition js_replace :: "string \<Rightarrow> string \<Rightarrow> string \<Rightarrow> string" where
  "js_replace s pat replacement =
     (case split_first pat s of
        None \<Rightarrow> s
      | Some (before, after) \<Rightarrow> before @ getSubstitution pat before after replacement @ after)"

section \<open>Conversation turns, wire records and the outside world\<close>

text \<open>
  A turn of the conversation history is \<^verbatim>\<open>{ role, parts: [{ text }, ...] }\<close>; the parts are
  kept as the list of their texts.
\<close>

record Turn =
  role :: string
  parts :: "string list"

text \<open>
  Every JSON object the server sends (a newline-delimited stream record or a response
  body) is one record whose fields are all optional: \<open>None\<close> is an absent key.
\<close>

record response =
  r_chunk :: "string option"
  r_done :: "bool option"
  r_error :: "bool option"
  r_text :: "string option"
  r_conversationHistory :: "Turn list option"
  r_conversationContext :: "string option"
  r_isComplete :: "bool option"
  r_projectInformation :: "string option"
  r_continuation :: "bool option"
  r_fullResponse :: "string option"
  r_partialText :: "string option"

definition blank :: response where
  "blank = \<lparr>r_chunk = None, r_done = None, r_error = None, r_text = None,
     r_conversationHistory = None, r_conversationContext = None, r_isComplete = None,
     r_projectInformation = None, r_continuation = None, r_fullResponse = None,
     r_partialText = None\<rparr>"

text \<open>
  What a handler returns to the transport: a streamed body (the records in the order
  they were enqueued) or a JSON body with its HTTP status.
\<close>

datatype http = Stream "response list" | Json nat response

text \<open>
  The calls that leave the process. The completion gateway is reached through the SDK
  (\<^verbatim>\<open>chat.sendMessage\<close>, \<^verbatim>\<open>chat.sendMessageStream\<close> with the chat's history,
  \<^verbatim>\<open>model.generateContent\<close>, \<^verbatim>\<open>model.generateContentStream\<close>) or, in the first revision
  of the route, through \<^verbatim>\<open>fetch\<close>.
\<close>

datatype call =
    SendMessage "Turn list" string
  | SendMessageStream "Turn list" string
  | GenerateContent string
  | GenerateContentStream string
  | Fetch string

datatype effect = ReadFile string | Gateway call

text \<open>
  What \<^verbatim>\<open>fetch\<close> of the first revision can come back with: the call itself rejects, or
  an HTTP response with its \<^verbatim>\<open>ok\<close> flag, status and body. The body either is not JSON, or
  is an object whose \<^verbatim>\<open>candidates\<close> key is absent or a list; of each candidate only what
  \<^verbatim>\<open>content.parts[0].text\<close> gives matters: the access throws, yields \<^verbatim>\<open>undefined\<close>, or
  yields a string.
\<close>

datatype candidate = Malformed | NoText | Text string

datatype payload = NotJson | Data "candidate list option"

datatype fetched = Rejected string | Http bool nat payload

text \<open>
  The outside world as the handlers see it. A file read yields the content or throws
  (\<open>None\<close>); a blocking generation yields the text or throws with a message (\<open>Inl\<close>); a
  streaming generation yields its fragments in order and then either ends or throws
  with a message.
\<close>

record env =
  fs_readFile :: "string \<Rightarrow> string option"
  generate :: "call \<Rightarrow> string + string"
  generateStream :: "call \<Rightarrow> string list \<times> string option"
  fetch :: "string \<Rightarrow> fetched"

definition readFromFile :: "env \<Rightarrow> string \<Rightarrow> string option" where
  "readFromFile env filename = fs_readFile env (''public/'' @ filename)"

text \<open>
  The two catalog reads of the recommendation handlers, in the order of the source; the
  second file is not touched when the first read throws.
\<close>

definition readCatalog :: "env \<Rightarrow> effect list \<times> (string \<times> string) option" where
  "readCatalog env =
     (case readFromFile env ''tool_information.txt'' of
        None \<Rightarrow> ([ReadFile ''tool_information.txt''], None)
      | Some toolInformation \<Rightarrow>
          (case readFromFile env ''product_urls.txt'' of
             None \<Rightarrow> ([ReadFile ''tool_information.txt'', ReadFile ''product_urls.txt''], None)
           | Some productUrls \<Rightarrow>
               ([ReadFile ''tool_information.txt'', ReadFile ''product_urls.txt''],
                Some (toolInformation, productUrls))))"

text \<open>
  \<^verbatim>\<open>formatChatHistory\<close> keeps the role and the first part of every turn; reading
  \<^verbatim>\<open>msg.parts[0].text\<close> of a turn without parts throws a \<^verbatim>\<open>TypeError\<close>.
\<close>

definition TypeError_text :: string where
  "TypeError_text = ''Cannot read properties of undefined (reading 'text')''"

fun formatChatHistory :: "Turn list \<Rightarrow> string + Turn list" where
  "formatChatHistory [] = Inr []"
| "formatChatHistory (msg # history) =
     (case parts msg of
        [] \<Rightarrow> Inl TypeError_text
      | t # _ \<Rightarrow>
          (case formatChatHistory history of
             Inl e \<Rightarrow> Inl e
           | Inr formatted \<Rightarrow> Inr (\<lparr>role = role msg, parts = [t]\<rparr> # formatted)))"

text \<open>
  The \<^verbatim>\<open>for await\<close> loop over the fragments of a streaming generation: every fragment is
  appended to the running text and enqueued as one record.
\<close>

fun pump :: "(string \<Rightarrow> response) \<Rightarrow> string list \<Rightarrow> string \<times> response list \<Rightarrow> string \<times> response list" where
  "pump mk [] st = st"
| "pump mk (chunkText # rest) (responseText, sent) =
     pump mk rest (responseText @ chunkText, sent @ [mk chunkText])"

text \<open>The record the \<^verbatim>\<open>catch\<close> of a streaming handler enqueues before closing.\<close>

definition streamError :: "string \<Rightarrow> response" where
  "streamError message =
     blank\<lparr>r_error := Some True,
           r_text := Some (''Error in streaming response: '' @ message),
           r_done := Some True\<rparr>"

definition catalogError :: string where
  "catalogError =
     ''Error: Unable to access tool information or product URLs. Please try again later.''"


section \<open>Prompt texts of the route\<close>

definition IMPROVED_PROMPT_p0 :: string where
  \<open>IMPROVED_PROMPT_p0 =
     ''\<newline>''
     @ ''You are an expert consultant for a tool hire business. Your primary task is to:\<newline>''
     @ ''1. Ask the customer a set of specific questions about their project.\<newline>''
     @ ''2. Identify any unclear or incomplete answers, and ask follow-up questions (explaining why each clarification is needed).\<newline>''
     @ ''3. Once all necessary details are obtained, produce a comprehensive "Customer Project Information" summary. This summary will be used to determine tool hire recommendations (tool type and hire duration).\<newline>''
     @ ''\<newline>''
     @ ''## Available Tool Categories\<newline>''
     @ ''Our business offers tools in the following categories, which you should keep in mind when asking questions and seeking clarifications:\<newline>''
     @ ''\<newline>''
     @ ''### Breaking & Drilling\<newline>''
     @ ''- Electric Breakers\<newline>''
     @ ''- Hydraulic Breakers\<newline>''
     @ ''- Magnetic Drill\<newline>''
     @ ''\<newline>''
     @ ''### Access Equipment\<newline>''
     @ ''- Non-Mechanical: Scaffold Tower, Podium Steps\<newline>''
     @ ''- Powered Access: Cherry Pickers\<newline>''
     @ ''\<newline>''
     @ ''### Cleaning & Floorcare\<newline>''
     @ ''- Pressure Washers\<newline>''
     @ ''- Vacuum Cleaners\<newline>''
     @ ''\<newline>''
     @ ''### Concrete & Compaction\<newline>''
     @ ''- Compactor Plates\<newline>''
     @ ''- Concrete Finishing\<newline>''
     @ ''- Concrete Mixers\<newline>''
     @ ''- Concrete Poker Units\<newline>''
     @ ''- Trench Rammers\<newline>''
     @ ''- Vibrating Rollers\<newline>''
     @ ''\<newline>''
     @ ''### Drilling & Fixing\<newline>''
     @ ''- Hammer Drills\<newline>''
     @ ''- Electric Sanders\<newline>''
     @ ''- Nail Guns\<newline>''
     @ ''- Planers\<newline>''
     @ ''\<newline>''
     @ ''### Cutting & Grinding\<newline>''
     @ ''- Pipe Cutting\<newline>''
     @ ''- Cut-Off Saws\<newline>''
     @ ''- Floor Saws\<newline>''
     @ ''- Reciprocating Saws\<newline>''
     @ ''- Splitters\<newline>''
     @ ''- Wall Chasing Machine\<newline>''
     @ ''\<newline>''
     @ ''### Heating, Drying & Cooling\<newline>''
     @ ''- Drying Equipment\<newline>''
     @ ''- Gas Heaters\<newline>''
     @ ''\<newline>''
     @ ''### Gardening & Landscaping\<newline>''
     @ ''- Log Splitters\<newline>''
     @ ''- Blowers/Vacuums\<newline>''
     @ ''- Brush Cutters\<newline>''
     @ ''- Earth Augers\<newline>''
     @ ''- Garden Hand Tools\<newline>''
     @ ''- Ground Cultivation\<newline>''
     @ ''- Hedge Trimmers\<newline>''
     @ ''- Lawn Scarifiers\<newline>''
     @ ''- Post Pullers\<newline>''
     @ ''- Seeders\<newline>''
     @ ''- Shredders/Chippers\<newline>''
     @ ''- Stump Grinders\<newline>''
     @ ''- Turf Cutters\<newline>''
     @ ''\<newline>''
     @ ''### Building & Site Equipment\<newline>''
     @ ''- Supports\<newline>''
     @ ''- Tile Cutters\<newline>''
     @ ''- Excavator Attachments\<newline>''
     @ ''- Mini Excavators\<newline>''
     @ ''\<newline>''
     @ ''### Surveying Equipment\<newline>''
     @ ''- Cable Detection\<newline>''
     @ ''- Cable Reels\<newline>''
     @ ''- Laser Levels\<newline>''
     @ ''\<newline>''
     @ ''### Lift & Shift Equipment\<newline>''
     @ ''- Material Lifts\<newline>''
     @ ''- Site Dumpers\<newline>''
     @ ''\<newline>''
     @ ''### Lighting & Power\<newline>''
     @ ''- Petrol Generators\<newline>''
     @ ''- Transformers\<newline>''
     @ ''\<newline>''
     @ ''### Plumbing & Pumping\<newline>''
     @ ''- Submersible Pumps\<newline>''
     @ ''- Petrol Pumps\<newline>''
     @ ''\<newline>''
     @ ''## Instructions:\<newline>''
     @ ''1. Begin by asking the following questions (one at a time if needed) to gather information about the customer's project.\<newline>''
     @ ''2. If any responses are unclear or missing critical information, politely ask for clarification and explain why you need that detail.\<newline>''
     @ ''3. Once all necessary details are obtained, create a "Customer Project Information" summary in your own words.\<newline>''
     @ ''\<newline>''
     @ ''## Primary Questions to Ask:\<newline>''
     @ ''1. What project are you planning to work on? Please describe your project in detail and explain its main goal. For example, are you building a deck, remodeling a bathroom, or installing new kitchen cabinets?\<newline>''
     @ ''2. Have you completed a similar project before? If yes, what tools did you find most useful? If no, what is your experience level with similar work?\<newline>''
     @ ''3. How large is the project area (e.g., room dimensions, linear feet for a fence, square footage for flooring)?\<newline>''
     @ ''4. What types of materials will you be working with (e.g., wood, concrete, tile, metal, composite, drywall)?\<newline>''
     @ ''5. Are there any space limitations (e.g., narrow hallways, limited clearance, small workspaces) that might affect tool size or maneuverability?\<newline>''
     @ ''6. Is your project in a residential, commercial, or industrial setting? (Different settings may have regulations or power supply constraints.)\<newline>''
     @ ''7. Do you have a specific deadline or timeframe for completing the project?\<newline>''
     @ ''8. Are you working on the project full-time, or only on weekends/evenings?\<newline>''
     @ ''9. Is your project indoors, outdoors, or both? For outdoor projects, what is the terrain like and are there any access issues?\<newline>''
     @ ''10. Are there any additional considerations or details you want to share that might affect the tools or methods you need? (e.g., noise restrictions, power availability, environmental concerns)\<newline>''
     @ ''\<newline>''
     @ ''## Follow-up Questions by Category:\<newline>''
     @ ''Based on the customer's initial responses, ask targeted follow-up questions related to potentially relevant tool categories:\<newline>''
     @ ''\<newline>''
     @ ''### For Breaking & Drilling Projects:\<newline>''
     @ ''- What type of material needs to be broken or drilled (concrete, masonry, metal)?\<newline>''
     @ ''- How thick is the material you need to break or drill through?\<newline>''
     @ ''\<newline>''
     @ ''### For Access Equipment Projects:\<newline>''
     @ ''- What is the maximum height you need to reach?\<newline>''
     @ ''- Is the work area on level ground or uneven terrain?\<newline>''
     @ ''\<newline>''
     @ ''### For Concrete & Compaction Projects:\<newline>''
     @ ''- What volume of concrete will you be mixing/working with?\<newline>''
     @ ''- What is the depth and area of compaction required?\<newline>''
     @ ''\<newline>''
     @ ''### For Gardening & Landscaping Projects:\<newline>''
     @ ''- What is the size of the garden/landscape area?\<newline>''
     @ ''- Are there any existing trees, stumps, or heavy growth that needs removal?\<newline>''
     @ ''\<newline>''
     @ ''### For Cutting & Sawing Projects:\<newline>''
     @ ''- What is the thickness and type of material being cut?\<newline>''
     @ ''- Do you need precision cuts or rough cuts?\<newline>''
     @ ''\<newline>''
     @ ''## Remember:\<newline>''
     @ ''- If the customer's answers are incomplete, politely ask for more details and explain why you need them.\<newline>''
     @ ''- Use your knowledge of our tool categories to suggest appropriate equipment they might not have considered.\<newline>''
     @ ''- Only provide the final "Customer Project Information" summary when you have gathered enough information that can be used to recommend tools and hire durations.\<newline>''
     @ ''- Clearly mark the final summary with the prefix "## FINAL SUMMARY ##"\<newline>''\<close>

definition PROMPT_TEMPLATE_p0 :: string where
  \<open>PROMPT_TEMPLATE_p0 =
     ''You are an expert tool consultant for a tool hire business. Your main objective \<newline>''
     @ ''is to determine which tools a customer needs and how long they need them for, based on their project \<newline>''
     @ ''details. You have access to detailed project information and tool inventory details, provided at the \<newline>''
     @ ''end of this prompt.\<newline>''
     @ ''\<newline>''
     @ ''Your Tasks:\<newline>''
     @ ''1. Introduction\<newline>''
     @ ''   - Briefly restate the project as you understand it, based on the supplied project details.\<newline>''
     @ ''\<newline>''
     @ ''2. Tool Recommendations\<newline>''
     @ ''   - Recommend the specific tools that best fit the project requirements.\<newline>''
     @ ''   - Explain why each recommended tool is suitable (e.g., power requirements, capacity, safety features, efficiency).\<newline>''
     @ ''\<newline>''
     @ ''3. Recommended Hire Duration\<newline>''
     @ ''   - Provide an estimated timeframe for how long each recommended tool should be hired to complete the project.\<newline>''
     @ ''   - Justify your estimate (e.g., typical usage patterns, project scope, professional guidelines).\<newline>''
     @ ''\<newline>''
     @ ''4. Acknowledge Uncertainties\<newline>''
     @ ''   - If any information is insufficient or unclear, clearly state the uncertainty.\<newline>''
     @ ''   - Specify what additional details would be needed for a more accurate recommendation.\<newline>''
     @ ''\<newline>''
     @ ''5. Additional Notes\<newline>''
     @ ''   - Include any caveats, safety tips, or best practices relevant to the recommended tools.\<newline>''
     @ ''\<newline>''
     @ ''Important:\<newline>''
     @ ''- Use only the information provided in the project information and tool information sections below.\<newline>''
     @ ''- If the information is contradictory or incomplete, highlight the issue and explain how it affects your recommendation.\<newline>''
     @ ''- If you are unsure about any tool selection or hire duration, explicitly mention that and request further details.\<newline>''
     @ ''\<newline>''
     @ ''---\<newline>''
     @ ''Below are the two sources of information you have available:\<newline>''
     @ ''\<newline>''
     @ ''Project Information:\<newline>''
     @ ''{project_information}\<newline>''
     @ ''\<newline>''
     @ ''Tool Information:\<newline>''
     @ ''{tool_information}\<newline>''\<close>

definition PROMPT_TEMPLATE_p1 :: string where
  \<open>PROMPT_TEMPLATE_p1 =
     ''You are an expert tool consultant for a tool hire business. Your main objective \<newline>''
     @ ''is to determine which tools a customer needs and how long they need them for, based on their project \<newline>''
     @ ''details. You have access to detailed project information and tool inventory details, provided at the \<newline>''
     @ ''end of this prompt.\<newline>''
     @ ''\<newline>''
     @ ''Your Tasks:\<newline>''
     @ ''1. Introduction\<newline>''
     @ ''   - Briefly restate the project as you understand it, based on the supplied project details.\<newline>''
     @ ''2. Tool Recommendations\<newline>''
     @ ''   - Recommend the specific tools that best fit the project requirements.\<newline>''
     @ ''   - Explain why each recommended tool is suitable (e.g., power requirements, capacity, safety features, efficiency).\<newline>''
     @ ''   - If the customer already owns any of the recommended equipment, they can disregard that specific recommendation.\<newline>''
     @ ''   - If the experience level of the user is unclear, label each tool as either "Easy to use" or "Requires experience" to guide their selection.\<newline>''
     @ ''   - Include the URL for each recommended product by matching the product name with the corresponding URL in the product URLs file.\<newline>''
     @ ''3. Recommended Hire Duration\<newline>''
     @ ''   - Provide an estimated timeframe for how long each recommended tool should be hired to complete the project.\<newline>''
     @ ''   - Justify your estimate (e.g., typical usage patterns, project scope, professional guidelines).\<newline>''
     @ ''4. Acknowledge Uncertainties\<newline>''
     @ ''   - If any information is insufficient or unclear, clearly state the uncertainty.\<newline>''
     @ ''   - Specify what additional details would be needed for a more accurate recommendation.\<newline>''
     @ ''5. Additional Notes\<newline>''
     @ ''   - Include any caveats, safety tips, or best practices relevant to the recommended tools.\<newline>''
     @ ''   - Use direct language (e.g., "Be mindful of noise restrictions" rather than "Remind the customer to be mindful of noise restrictions").\<newline>''
     @ ''\<newline>''
     @ ''Important:\<newline>''
     @ ''- Use only the information provided in the project information, tool information, and product URL sections below.\<newline>''
     @ ''- If the information is contradictory or incomplete, highlight the issue and explain how it affects your recommendation.\<newline>''
     @ ''- If you are unsure about any tool selection or hire duration, explicitly mention that and request further details.\<newline>''
     @ ''\<newline>''
     @ ''---\<newline>''
     @ ''Below are the three sources of information you have available:\<newline>''
     @ ''Project Information:\<newline>''
     @ ''{project_information}\<newline>''
     @ ''\<newline>''
     @ ''Tool Information:\<newline>''
     @ ''{tool_information}\<newline>''
     @ ''\<newline>''
     @ ''Product URLs:\<newline>''
     @ ''{product_urls_file}\<newline>''\<close>

definition IMPROVED_PROMPT_p2 :: string where
  \<open>IMPROVED_PROMPT_p2 =
     ''\<newline>''
     @ ''You are an expert consultant for a tool hire business. Your primary task is to:\<newline>''
     @ ''1. Ask the customer a set of specific questions about their project.\<newline>''
     @ ''2. Identify any unclear or incomplete answers, and ask follow-up questions when necessary (explaining why each clarification is needed).\<newline>''
     @ ''3. Once all necessary details are obtained, produce a comprehensive "Customer Project Information" summary. This summary will be used to determine tool hire recommendations (tool type and hire duration).\<newline>''
     @ ''\<newline>''
     @ ''## Important Note to Customers\<newline>''
     @ ''- If you're unsure about any question or prefer not to answer, please feel free to say "I don't know" or "I'd prefer to skip this question." We understand that not all information may be available, and we'll work with whatever details you can provide.\<newline>''
     @ ''\<newline>''
     @ ''## Available Tool Categories\<newline>''
     @ ''Our business offers tools in the following categories, which you should keep in mind when asking questions and seeking clarifications:\<newline>''
     @ ''\<newline>''
     @ ''### Breaking & Drilling\<newline>''
     @ ''- Electric Breakers\<newline>''
     @ ''- Hydraulic Breakers\<newline>''
     @ ''- Magnetic Drill\<newline>''
     @ ''\<newline>''
     @ ''### Access Equipment\<newline>''
     @ ''- Non-Mechanical: Scaffold Tower, Podium Steps\<newline>''
     @ ''- Powered Access: Cherry Pickers\<newline>''
     @ ''\<newline>''
     @ ''### Cleaning & Floorcare\<newline>''
     @ ''- Pressure Washers\<newline>''
     @ ''- Vacuum Cleaners\<newline>''
     @ ''\<newline>''
     @ ''### Concrete & Compaction\<newline>''
     @ ''- Compactor Plates\<newline>''
     @ ''- Concrete Finishing\<newline>''
     @ ''- Concrete Mixers\<newline>''
     @ ''- Concrete Poker Units\<newline>''
     @ ''- Trench Rammers\<newline>''
     @ ''- Vibrating Rollers\<newline>''
     @ ''\<newline>''
     @ ''### Drilling & Fixing\<newline>''
     @ ''- Hammer Drills\<newline>''
     @ ''- Electric Sanders\<newline>''
     @ ''- Nail Guns\<newline>''
     @ ''- Planers\<newline>''
     @ ''\<newline>''
     @ ''### Cutting & Grinding\<newline>''
     @ ''- Pipe Cutting\<newline>''
     @ ''- Cut-Off Saws\<newline>''
     @ ''- Floor Saws\<newline>''
     @ ''- Reciprocating Saws\<newline>''
     @ ''- Splitters\<newline>''
     @ ''- Wall Chasing Machine\<newline>''
     @ ''\<newline>''
     @ ''### Heating, Drying & Cooling\<newline>''
     @ ''- Drying Equipment\<newline>''
     @ ''- Gas Heaters\<newline>''
     @ ''\<newline>''
     @ ''### Gardening & Landscaping\<newline>''
     @ ''- Log Splitters\<newline>''
     @ ''- Blowers/Vacuums\<newline>''
     @ ''- Brush Cutters\<newline>''
     @ ''- Earth Augers\<newline>''
     @ ''- Garden Hand Tools\<newline>''
     @ ''- Ground Cultivation\<newline>''
     @ ''- Hedge Trimmers\<newline>''
     @ ''- Lawn Scarifiers\<newline>''
     @ ''- Post Pullers\<newline>''
     @ ''- Seeders\<newline>''
     @ ''- Shredders/Chippers\<newline>''
     @ ''- Stump Grinders\<newline>''
     @ ''- Turf Cutters\<newline>''
     @ ''\<newline>''
     @ ''### Building & Site Equipment\<newline>''
     @ ''- Supports\<newline>''
     @ ''- Tile Cutters\<newline>''
     @ ''- Excavator Attachments\<newline>''
     @ ''- Mini Excavators\<newline>''
     @ ''\<newline>''
     @ ''### Surveying Equipment\<newline>''
     @ ''- Cable Detection\<newline>''
     @ ''- Cable Reels\<newline>''
     @ ''- Laser Levels\<newline>''
     @ ''\<newline>''
     @ ''### Lift & Shift Equipment\<newline>''
     @ ''- Material Lifts\<newline>''
     @ ''- Site Dumpers\<newline>''
     @ ''\<newline>''
     @ ''### Lighting & Power\<newline>''
     @ ''- Petrol Generators\<newline>''
     @ ''- Transformers\<newline>''
     @ ''\<newline>''
     @ ''### Plumbing & Pumping\<newline>''
     @ ''- Submersible Pumps\<newline>''
     @ ''- Petrol Pumps\<newline>''
     @ ''\<newline>''
     @ ''## Instructions:\<newline>''
     @ ''1. Begin by asking about the customer's project to gather key information.\<newline>''
     @ ''2. If any critical information is missing, ask for clarification once, explaining why this detail would be helpful.\<newline>''
     @ ''3. Once sufficient details are obtained, create a "Customer Project Information" summary in your own words.\<newline>''
     @ ''\<newline>''
     @ ''## Primary Questions to Ask:\<newline>''
     @ ''1. What project are you planning to work on? Please describe your project in detail and explain its main goal. For example, are you building a deck, remodeling a bathroom, or installing new kitchen cabinets?\<newline>''
     @ ''2. Have you completed a similar project before? If yes, what tools did you find most useful? If no, what is your experience level with similar work?\<newline>''
     @ ''3. How large is the project area (e.g., room dimensions, linear feet for a fence, square footage for flooring)?\<newline>''
     @ ''4. What types of materials will you be working with (e.g., wood, concrete, tile, metal, composite, drywall)?\<newline>''
     @ ''5. Are there any space limitations (e.g., narrow hallways, limited clearance, small workspaces) that might affect tool size or maneuverability?\<newline>''
     @ ''6. Is your project in a residential, commercial, or industrial setting? (Different settings may have regulations or power supply constraints.)\<newline>''
     @ ''7. Do you have a specific deadline or timeframe for completing the project?\<newline>''
     @ ''8. Are you working on the project full-time, or only on weekends/evenings?\<newline>''
     @ ''9. Is your project indoors, outdoors, or both? For outdoor projects, what is the terrain like and are there any access issues?\<newline>''
     @ ''10. Are there any additional considerations or details you want to share that might affect the tools or methods you need? (e.g., noise restrictions, power availability, environmental concerns)\<newline>''
     @ ''\<newline>''
     @ ''## Optional Follow-up Questions by Category:\<newline>''
     @ ''Depending on the project type, you might consider asking these additional questions if relevant:\<newline>''
     @ ''\<newline>''
     @ ''### For Breaking & Drilling Projects:\<newline>''
     @ ''- What type of material needs to be broken or drilled (concrete, masonry, metal)?\<newline>''
     @ ''- How thick is the material you need to break or drill through?\<newline>''
     @ ''\<newline>''
     @ ''### For Access Equipment Projects:\<newline>''
     @ ''- What is the maximum height you need to reach?\<newline>''
     @ ''- Is the work area on level ground or uneven terrain?\<newline>''
     @ ''\<newline>''
     @ ''### For Concrete & Compaction Projects:\<newline>''
     @ ''- What volume of concrete will you be mixing/working with?\<newline>''
     @ ''- What is the depth and area of compaction required?\<newline>''
     @ ''\<newline>''
     @ ''### For Gardening & Landscaping Projects:\<newline>''
     @ ''- What is the size of the garden/landscape area?\<newline>''
     @ ''- Are there any existing trees, stumps, or heavy growth that needs removal?\<newline>''
     @ ''\<newline>''
     @ ''### For Cutting & Sawing Projects:\<newline>''
     @ ''- What is the thickness and type of material being cut?\<newline>''
     @ ''- Do you need precision cuts or rough cuts?\<newline>''
     @ ''\<newline>''
     @ ''## Remember:\<newline>''
     @ ''- Work with whatever level of detail the customer is able or willing to provide.\<newline>''
     @ ''- Use your knowledge of our tool categories to suggest appropriate equipment they might not have considered.\<newline>''
     @ ''- Provide the final "Customer Project Information" summary when you have gathered sufficient information to make tool recommendations.\<newline>''
     @ ''- Clearly mark the final summary with the prefix "## FINAL SUMMARY ##"\<newline>''\<close>

definition PROMPT_TEMPLATE_p2 :: string where
  \<open>PROMPT_TEMPLATE_p2 =
     ''You are an expert tool consultant for a tool hire business. Your main objective \<newline>''
     @ ''is to determine which tools a customer needs and how long they need them for, based on their project \<newline>''
     @ ''details. You have access to detailed project information and tool inventory details, provided at the \<newline>''
     @ ''end of this prompt.\<newline>''
     @ ''\<newline>''
     @ ''Your Tasks:\<newline>''
     @ ''1. Introduction\<newline>''
     @ ''   - Briefly restate the project as you understand it, based on the supplied project details.\<newline>''
     @ ''2. Tool Recommendations\<newline>''
     @ ''   - Recommend the specific tools that best fit the project requirements.\<newline>''
     @ ''   - Explain why each recommended tool is suitable (e.g., power requirements, capacity, safety features, efficiency).\<newline>''
     @ ''   - If the customer already owns any of the recommended equipment, they can disregard that specific recommendation.\<newline>''
     @ ''   - If the experience level of the user is unclear, label each tool as either "Easy to use" or "Requires experience" to guide their selection.\<newline>''
     @ ''   - Include the URL for each recommended product by matching the product name with the corresponding URL in the product URLs file.\<newline>''
     @ ''3. Recommended Hire Duration\<newline>''
     @ ''   - Provide an estimated timeframe for how long each recommended tool should be hired to complete the project.\<newline>''
     @ ''   - Justify your estimate (e.g., typical usage patterns, project scope, professional guidelines).\<newline>''
     @ ''4. Acknowledge Uncertainties\<newline>''
     @ ''   - If any information is insufficient or unclear, clearly state the uncertainty.\<newline>''
     @ ''   - Specify what additional details would be needed for a more accurate recommendation.\<newline>''
     @ ''5. Additional Notes\<newline>''
     @ ''   - Include any caveats, safety tips, or best practices relevant to the recommended tools.\<newline>''
     @ ''   - Use direct language (e.g., "Be mindful of noise restrictions" rather than "Remind the customer to be mindful of noise restrictions").\<newline>''
     @ ''\<newline>''
     @ ''Important:\<newline>''
     @ ''- Use only the information provided in the project information, tool information, and product URL sections below.\<newline>''
     @ ''- If the information is contradictory or incomplete, highlight the issue and explain how it affects your recommendation.\<newline>''
     @ ''- If you are unsure about any tool selection or hire duration, explicitly mention that and request further details.\<newline>''
     @ ''\<newline>''
     @ ''---\<newline>''
     @ ''Below are the three sources of information you have available:\<newline>''
     @ ''Project Information:\<newline>''
     @ ''{project_information}\<newline>''
     @ ''\<newline>''
     @ ''Tool Information:\<newline>''
     @ ''{tool_information}\<newline>''
     @ ''\<newline>''
     @ ''Product URLs:\<newline>''
     @ ''{product_urls_file}\<newline>''
     @ ''MAKE SURE TO WRITE A 5000WORD RESPONSE\<newline>''\<close>


section \<open>The route with continuation mode (\<^verbatim>\<open>continuationMode\<close>, \<^verbatim>\<open>partialResponse\<close> as text)\<close>

text \<open>The two continuation prompts, built from the partial text the client sends back.\<close>

definition gatheringContinuation_p1 :: "string \<Rightarrow> string" where
  \<open>gatheringContinuation_p1 partialResponse =
     ''The previous response was cut off. Here was the partial response: "'' @ partialResponse
     @ ''". Please continue from where you left off.''\<close>

definition recommendationContinuation_p1 :: "string \<Rightarrow> string" where
  \<open>recommendationContinuation_p1 partialResponse =
     ''The previous response was cut off. Here was the partial response: "'' @ partialResponse
     @ ''". Please continue from where you left off without repeating any content.''\<close>

text \<open>
  The continuation branches drop the last turn of the history when it is a model turn
  (\<^verbatim>\<open>conversationHistory.pop()\<close> under its guard).
\<close>

definition popPartial :: "Turn list \<Rightarrow> Turn list" where
  "popPartial conversationHistory =
     (if conversationHistory \<noteq> [] \<and> role (last conversationHistory) = ''model''
      then butlast conversationHistory else conversationHistory)"

text \<open>
  The tail shared by the three branches of \<^verbatim>\<open>handleInformationGathering\<close>: the sentinel
  check on the output and the returned object.
\<close>

definition gatheringResult_p1 :: "string \<Rightarrow> Turn list \<Rightarrow> bool \<Rightarrow> response" where
  "gatheringResult_p1 aiOutput conversationHistory continuationMode =
     (let isComplete = js_includes aiOutput ''## FINAL SUMMARY ##'';
          projectInformation = (if isComplete then aiOutput else [])
      in blank\<lparr>r_text := Some aiOutput,
               r_conversationHistory := Some conversationHistory,
               r_isComplete := Some isComplete,
               r_projectInformation := Some projectInformation,
               r_continuation := Some continuationMode\<rparr>)"

text \<open>
  \<^verbatim>\<open>handleInformationGathering\<close> (non-streaming). \<open>Inl\<close> is an exception that leaves the
  handler, with its message.
\<close>

definition handleInformationGathering_p1 ::
  "env \<Rightarrow> string \<Rightarrow> Turn list \<Rightarrow> bool \<Rightarrow> string \<Rightarrow> effect list \<times> (string + response)" where
  \<open>handleInformationGathering_p1 env userInput conversationHistory continuationMode partialResponse =
     (if continuationMode \<and> partialResponse \<noteq> [] then
        (let continuationPrompt = gatheringContinuation_p1 partialResponse
         in case formatChatHistory conversationHistory of
              Inl e \<Rightarrow> ([], Inl e)
            | Inr history \<Rightarrow>
                (case generate env (SendMessage history continuationPrompt) of
                   Inl e \<Rightarrow> ([Gateway (SendMessage history continuationPrompt)], Inl e)
                 | Inr continuationOutput \<Rightarrow>
                     (let aiOutput = partialResponse @ continuationOutput;
                          kept = popPartial conversationHistory
                      in ([Gateway (SendMessage history continuationPrompt)],
                          Inr (gatheringResult_p1 aiOutput
                                 (kept @ [\<lparr>role = ''model'', parts = [aiOutput]\<rparr>])
                                 continuationMode)))))
      else if conversationHistory = [] then
        (case generate env (SendMessage [] userInput) of
           Inl e \<Rightarrow> ([Gateway (SendMessage [] userInput)], Inl e)
         | Inr aiOutput \<Rightarrow>
             ([Gateway (SendMessage [] userInput)],
              Inr (gatheringResult_p1 aiOutput
                     [\<lparr>role = ''user'', parts = [userInput]\<rparr>,
                      \<lparr>role = ''model'', parts = [aiOutput]\<rparr>]
                     continuationMode)))
      else
        (case formatChatHistory conversationHistory of
           Inl e \<Rightarrow> ([], Inl e)
         | Inr history \<Rightarrow>
             (case generate env (SendMessage history userInput) of
                Inl e \<Rightarrow> ([Gateway (SendMessage history userInput)], Inl e)
              | Inr aiOutput \<Rightarrow>
                  ([Gateway (SendMessage history userInput)],
                   Inr (gatheringResult_p1 aiOutput
                          (conversationHistory
                           @ [\<lparr>role = ''user'', parts = [userInput]\<rparr>,
                              \<lparr>role = ''model'', parts = [aiOutput]\<rparr>])
                          continuationMode)))))\<close>

text \<open>
  \<^verbatim>\<open>streamInformationGathering\<close>: the records enqueued on the stream, in order. An
  exception anywhere inside \<^verbatim>\<open>start\<close> is caught there and becomes the error record that
  follows whatever was enqueued before.
\<close>

definition streamInformationGathering_p1 ::
  "env \<Rightarrow> string \<Rightarrow> Turn list \<Rightarrow> bool \<Rightarrow> string \<Rightarrow> effect list \<times> response list" where
  \<open>streamInformationGathering_p1 env userInput conversationHistory continuationMode partialResponse =
     (if continuationMode \<and> partialResponse \<noteq> [] then
        (let continuationPrompt = gatheringContinuation_p1 partialResponse
         in case formatChatHistory conversationHistory of
              Inl e \<Rightarrow> ([], [streamError e])
            | Inr history \<Rightarrow>
                (let (fragments, failure) =
                       generateStream env (SendMessageStream history continuationPrompt);
                     (continuationResponseText, sent) =
                       pump (\<lambda>chunkText. blank\<lparr>r_chunk := Some chunkText, r_done := Some False,
                                                 r_continuation := Some True\<rparr>)
                         fragments ([], [])
                 in case failure of
                      Some e \<Rightarrow>
                        ([Gateway (SendMessageStream history continuationPrompt)],
                         sent @ [streamError e])
                    | None \<Rightarrow>
                        (let fullResponseText = partialResponse @ continuationResponseText;
                             isComplete = js_includes fullResponseText ''## FINAL SUMMARY ##'';
                             projectInformation = (if isComplete then fullResponseText else []);
                             kept = popPartial conversationHistory
                         in ([Gateway (SendMessageStream history continuationPrompt)],
                             sent @ [blank\<lparr>r_done := Some True,
                                       r_conversationHistory :=
                                         Some (kept @ [\<lparr>role = ''model'', parts = [fullResponseText]\<rparr>]),
                                       r_isComplete := Some isComplete,
                                       r_projectInformation := Some projectInformation,
                                       r_continuation := Some True,
                                       r_fullResponse := Some fullResponseText\<rparr>]))))
      else
        (case (if conversationHistory = [] then Inr [] else formatChatHistory conversationHistory) of
           Inl e \<Rightarrow> ([], [streamError e])
         | Inr history \<Rightarrow>
             (let (fragments, failure) = generateStream env (SendMessageStream history userInput);
                  (fullResponseText, sent) =
                    pump (\<lambda>chunkText. blank\<lparr>r_chunk := Some chunkText, r_done := Some False\<rparr>)
                      fragments ([], [])
              in case failure of
                   Some e \<Rightarrow>
                     ([Gateway (SendMessageStream history userInput)], sent @ [streamError e])
                 | None \<Rightarrow>
                     (let isComplete = js_includes fullResponseText ''## FINAL SUMMARY ##'';
                          projectInformation = (if isComplete then fullResponseText else [])
                      in ([Gateway (SendMessageStream history userInput)],
                          sent @ [blank\<lparr>r_done := Some True,
                                    r_conversationHistory :=
                                      Some (conversationHistory
                                            @ [\<lparr>role = ''user'', parts = [userInput]\<rparr>,
                                               \<lparr>role = ''model'', parts = [fullResponseText]\<rparr>]),
                                    r_isComplete := Some isComplete,
                                    r_projectInformation := Some projectInformation\<rparr>])))))\<close>

text \<open>The prompt of a fresh recommendation: the three placeholders replaced in turn.\<close>

definition recommendationPrompt_p1 :: "string \<Rightarrow> string \<Rightarrow> string \<Rightarrow> string" where
  "recommendationPrompt_p1 projectInformation toolInformation productUrls =
     js_replace
       (js_replace
          (js_replace PROMPT_TEMPLATE_p1 ''{project_information}'' projectInformation)
          ''{tool_information}'' toolInformation)
       ''{product_urls_file}'' productUrls"

definition streamToolRecommendation_p1 ::
  "env \<Rightarrow> string \<Rightarrow> bool \<Rightarrow> string \<Rightarrow> effect list \<times> response list" where
  \<open>streamToolRecommendation_p1 env projectInformation continuationMode partialResponse =
     (case readCatalog env of
        (reads, None) \<Rightarrow>
          (reads, [blank\<lparr>r_error := Some True, r_text := Some catalogError, r_done := Some True\<rparr>])
      | (reads, Some (toolInformation, productUrls)) \<Rightarrow>
          (let prompt =
                 (if continuationMode \<and> partialResponse \<noteq> [] then
                    recommendationContinuation_p1 partialResponse
                  else recommendationPrompt_p1 projectInformation toolInformation productUrls);
               (fragments, failure) = generateStream env (GenerateContentStream prompt);
               (responseText, sent) =
                 pump (\<lambda>chunkText. blank\<lparr>r_chunk := Some chunkText, r_done := Some False,
                                           r_continuation := Some continuationMode\<rparr>)
                   fragments (if continuationMode then partialResponse else [], [])
           in case failure of
                Some e \<Rightarrow> (reads @ [Gateway (GenerateContentStream prompt)], sent @ [streamError e])
              | None \<Rightarrow>
                  (reads @ [Gateway (GenerateContentStream prompt)],
                   sent @ [blank\<lparr>r_done := Some True, r_text := Some responseText,
                             r_continuation := Some continuationMode\<rparr>])))\<close>

definition handleToolRecommendation_p1 ::
  "env \<Rightarrow> string \<Rightarrow> bool \<Rightarrow> string \<Rightarrow> effect list \<times> (string + response)" where
  \<open>handleToolRecommendation_p1 env projectInformation continuationMode partialResponse =
     (case readCatalog env of
        (reads, None) \<Rightarrow> (reads, Inr (blank\<lparr>r_text := Some catalogError, r_error := Some True\<rparr>))
      | (reads, Some (toolInformation, productUrls)) \<Rightarrow>
          (if continuationMode \<and> partialResponse \<noteq> [] then
             (let continuationPrompt = recommendationContinuation_p1 partialResponse
              in case generate env (GenerateContent continuationPrompt) of
                   Inl e \<Rightarrow> (reads @ [Gateway (GenerateContent continuationPrompt)], Inl e)
                 | Inr continuationText \<Rightarrow>
                     (reads @ [Gateway (GenerateContent continuationPrompt)],
                      Inr (blank\<lparr>r_text := Some (partialResponse @ continuationText),
                                 r_error := Some False,
                                 r_continuation := Some continuationMode\<rparr>)))
           else
             (let prompt = recommendationPrompt_p1 projectInformation toolInformation productUrls
              in case generate env (GenerateContent prompt) of
                   Inl e \<Rightarrow> (reads @ [Gateway (GenerateContent prompt)], Inl e)
                 | Inr resultText \<Rightarrow>
                     (reads @ [Gateway (GenerateContent prompt)],
                      Inr (blank\<lparr>r_text := Some resultText, r_error := Some False,
                                 r_continuation := Some continuationMode\<rparr>)))))\<close>

text \<open>The request body, with the defaults of the destructuring already applied.\<close>

record body_p1 =
  b_phase :: string
  b_userInput :: string
  b_conversationHistory :: "Turn list"
  b_projectInformation :: string
  b_streaming :: bool
  b_continuationMode :: bool
  b_partialResponse :: string

text \<open>
  What \<^verbatim>\<open>POST\<close> does with an exception of a non-streaming handler: status 500 and the
  uniform error body.
\<close>

definition requestError :: "string \<Rightarrow> http" where
  "requestError message =
     Json 500 (blank\<lparr>r_error := Some True,
                     r_text := Some (''An error occurred while processing your request: '' @ message)\<rparr>)"

definition POST_p1 :: "env \<Rightarrow> body_p1 \<Rightarrow> effect list \<times> http" where
  "POST_p1 env body =
     (if b_streaming body then
        (if b_phase body = ''gathering'' then
           (case streamInformationGathering_p1 env (b_userInput body) (b_conversationHistory body)
                   (b_continuationMode body) (b_partialResponse body) of
              (effects, records) \<Rightarrow> (effects, Stream records))
         else if b_phase body = ''recommendation'' then
           (case streamToolRecommendation_p1 env (b_projectInformation body)
                   (b_continuationMode body) (b_partialResponse body) of
              (effects, records) \<Rightarrow> (effects, Stream records))
         else
           ([], Json 400 (blank\<lparr>r_error := Some True,
                   r_text := Some ''Invalid phase specified for streaming. Must be 'gathering' or 'recommendation'.''\<rparr>)))
      else
        (if b_phase body = ''gathering'' then
           (case handleInformationGathering_p1 env (b_userInput body) (b_conversationHistory body)
                   (b_continuationMode body) (b_partialResponse body) of
              (effects, Inl e) \<Rightarrow> (effects, requestError e)
            | (effects, Inr result) \<Rightarrow> (effects, Json 200 result))
         else if b_phase body = ''recommendation'' then
           (case handleToolRecommendation_p1 env (b_projectInformation body)
                   (b_continuationMode body) (b_partialResponse body) of
              (effects, Inl e) \<Rightarrow> (effects, requestError e)
            | (effects, Inr result) \<Rightarrow> (effects, Json 200 result))
         else
           ([], Json 400 (blank\<lparr>r_error := Some True,
                   r_text := Some ''Invalid phase specified. Must be 'gathering' or 'recommendation'.''\<rparr>))))"

section \<open>The route with a partial-response object (\<^verbatim>\<open>partialResponse = { text, phase }\<close>)\<close>

text \<open>
  The snapshot of an interrupted generation as the client sends it back; \<^verbatim>\<open>null\<close> is
  \<open>None\<close>. A missing \<^verbatim>\<open>text\<close> key reads as \<^verbatim>\<open>undefined\<close>.
\<close>

record PartialResponse =
  pr_text :: "string option"
  pr_phase :: string

definition previousOutput_of :: "PartialResponse \<Rightarrow> string" where
  "previousOutput_of partialResponse =
     (case pr_text partialResponse of None \<Rightarrow> [] | Some t \<Rightarrow> t)"

definition continuePrompt_p2 :: "string \<Rightarrow> string" where
  "continuePrompt_p2 previousOutput =
     ''\<newline>The following is a partially completed response that was cut off due to a timeout.\<newline>Please continue the response from where it was cut off, maintaining the same format and quality.\<newline>\<newline>Partial response:\<newline>''
     @ previousOutput
     @ ''\<newline>\<newline>Continue from where the response was cut off:''"

definition recommendationPrompt_p2 :: "string \<Rightarrow> string \<Rightarrow> string \<Rightarrow> string" where
  "recommendationPrompt_p2 projectInformation toolInformation productUrls =
     js_replace
       (js_replace
          (js_replace PROMPT_TEMPLATE_p2 ''{project_information}'' projectInformation)
          ''{tool_information}'' toolInformation)
       ''{product_urls_file}'' productUrls"

definition streamInformationGathering_p2 ::
  "env \<Rightarrow> string \<Rightarrow> Turn list \<Rightarrow> effect list \<times> response list" where
  "streamInformationGathering_p2 env userInput conversationHistory =
     (case (if conversationHistory = [] then
              (case generate env (SendMessage [] IMPROVED_PROMPT_p2) of
                 Inl e \<Rightarrow> ([Gateway (SendMessage [] IMPROVED_PROMPT_p2)], Inl e)
               | Inr _ \<Rightarrow>
                   ([Gateway (SendMessage [] IMPROVED_PROMPT_p2)],
                    Inr [\<lparr>role = ''user'', parts = [IMPROVED_PROMPT_p2]\<rparr>,
                         \<lparr>role = ''model'', parts = [''System initialization complete'']\<rparr>]))
            else
              (case formatChatHistory conversationHistory of
                 Inl e \<Rightarrow> ([], Inl e)
               | Inr _ \<Rightarrow> ([], Inr conversationHistory))) of
        (effects, Inl e) \<Rightarrow> (effects, [streamError e])
      | (effects, Inr conversationHistory') \<Rightarrow>
          (let (fragments, failure) = generateStream env (GenerateContentStream userInput);
               (fullResponseText, sent) =
                 pump (\<lambda>chunkText. blank\<lparr>r_chunk := Some chunkText, r_done := Some False\<rparr>)
                   fragments ([], [])
           in case failure of
                Some e \<Rightarrow>
                  (effects @ [Gateway (GenerateContentStream userInput)], sent @ [streamError e])
              | None \<Rightarrow>
                  (let isComplete = js_includes fullResponseText ''## FINAL SUMMARY ##'';
                       projectInformation = (if isComplete then fullResponseText else [])
                   in (effects @ [Gateway (GenerateContentStream userInput)],
                       sent @ [blank\<lparr>r_done := Some True,
                                 r_conversationHistory :=
                                   Some (conversationHistory'
                                         @ [\<lparr>role = ''user'', parts = [userInput]\<rparr>,
                                            \<lparr>role = ''model'', parts = [fullResponseText]\<rparr>]),
                                 r_isComplete := Some isComplete,
                                 r_projectInformation := Some projectInformation\<rparr>]))))"

definition streamToolRecommendation_p2 ::
  "env \<Rightarrow> string \<Rightarrow> PartialResponse option \<Rightarrow> effect list \<times> response list" where
  "streamToolRecommendation_p2 env projectInformation partialResponse =
     (case readCatalog env of
        (reads, None) \<Rightarrow>
          (reads, [blank\<lparr>r_error := Some True, r_text := Some catalogError, r_done := Some True\<rparr>])
      | (reads, Some (toolInformation, productUrls)) \<Rightarrow>
          (let previousOutput =
                 (case partialResponse of None \<Rightarrow> [] | Some pr \<Rightarrow> previousOutput_of pr);
               prompt =
                 (case partialResponse of
                    Some pr \<Rightarrow> continuePrompt_p2 previousOutput
                  | None \<Rightarrow> recommendationPrompt_p2 projectInformation toolInformation productUrls);
               (fragments, failure) = generateStream env (GenerateContentStream prompt);
               (newResponseText, sent) =
                 pump (\<lambda>chunkText. blank\<lparr>r_chunk := Some chunkText, r_done := Some False\<rparr>)
                   fragments ([], [])
           in case failure of
                Some e \<Rightarrow> (reads @ [Gateway (GenerateContentStream prompt)], sent @ [streamError e])
              | None \<Rightarrow>
                  (let fullResponseText =
                         (case partialResponse of
                            Some pr \<Rightarrow> previousOutput @ newResponseText
                          | None \<Rightarrow> newResponseText)
                   in (reads @ [Gateway (GenerateContentStream prompt)],
                       sent @ [blank\<lparr>r_done := Some True, r_text := Some fullResponseText,
                                 r_partialText := Some newResponseText\<rparr>]))))"

definition handleInformationGathering_p2 ::
  "env \<Rightarrow> string \<Rightarrow> Turn list \<Rightarrow> effect list \<times> (string + response)" where
  "handleInformationGathering_p2 env userInput conversationHistory =
     (case (if conversationHistory = [] then
              (case generate env (SendMessage [] IMPROVED_PROMPT_p2) of
                 Inl e \<Rightarrow> ([Gateway (SendMessage [] IMPROVED_PROMPT_p2)], Inl e)
               | Inr systemResponse \<Rightarrow>
                   (let initial = [\<lparr>role = ''user'', parts = [IMPROVED_PROMPT_p2]\<rparr>,
                                   \<lparr>role = ''model'', parts = [systemResponse]\<rparr>]
                    in ([Gateway (SendMessage [] IMPROVED_PROMPT_p2)], Inr (initial, initial))))
            else
              (case formatChatHistory conversationHistory of
                 Inl e \<Rightarrow> ([], Inl e)
               | Inr history \<Rightarrow> ([], Inr (history, conversationHistory)))) of
        (effects, Inl e) \<Rightarrow> (effects, Inl e)
      | (effects, Inr (chatHistory, conversationHistory')) \<Rightarrow>
          (case generate env (SendMessage chatHistory userInput) of
             Inl e \<Rightarrow> (effects @ [Gateway (SendMessage chatHistory userInput)], Inl e)
           | Inr aiOutput \<Rightarrow>
               (let isComplete = js_includes aiOutput ''## FINAL SUMMARY ##'';
                    projectInformation = (if isComplete then aiOutput else [])
                in (effects @ [Gateway (SendMessage chatHistory userInput)],
                    Inr (blank\<lparr>r_text := Some aiOutput,
                               r_conversationHistory :=
                                 Some (conversationHistory'
                                       @ [\<lparr>role = ''user'', parts = [userInput]\<rparr>,
                                          \<lparr>role = ''model'', parts = [aiOutput]\<rparr>]),
                               r_isComplete := Some isComplete,
                               r_projectInformation := Some projectInformation\<rparr>)))))"

definition handleToolRecommendation_p2 ::
  "env \<Rightarrow> string \<Rightarrow> PartialResponse option \<Rightarrow> effect list \<times> (string + response)" where
  "handleToolRecommendation_p2 env projectInformation partialResponse =
     (case readCatalog env of
        (reads, None) \<Rightarrow> (reads, Inr (blank\<lparr>r_text := Some catalogError, r_error := Some True\<rparr>))
      | (reads, Some (toolInformation, productUrls)) \<Rightarrow>
          (let previousOutput =
                 (case partialResponse of None \<Rightarrow> [] | Some pr \<Rightarrow> previousOutput_of pr);
               prompt =
                 (case partialResponse of
                    Some pr \<Rightarrow> continuePrompt_p2 previousOutput
                  | None \<Rightarrow> recommendationPrompt_p2 projectInformation toolInformation productUrls)
           in case generate env (GenerateContent prompt) of
                Inl e \<Rightarrow> (reads @ [Gateway (GenerateContent prompt)], Inl e)
              | Inr newResponseText \<Rightarrow>
                  (let fullResponseText =
                         (case partialResponse of
                            Some pr \<Rightarrow> previousOutput @ newResponseText
                          | None \<Rightarrow> newResponseText)
                   in (reads @ [Gateway (GenerateContent prompt)],
                       Inr (blank\<lparr>r_text := Some fullResponseText,
                                  r_partialText := Some newResponseText,
                                  r_error := Some False\<rparr>)))))"

record body_p2 =
  b2_phase :: string
  b2_userInput :: string
  b2_conversationHistory :: "Turn list"
  b2_projectInformation :: string
  b2_streaming :: bool
  b2_partialResponse :: "PartialResponse option"

definition POST_p2 :: "env \<Rightarrow> body_p2 \<Rightarrow> effect list \<times> http" where
  "POST_p2 env body =
     (if b2_streaming body then
        (if b2_phase body = ''gathering'' then
           (case streamInformationGathering_p2 env (b2_userInput body) (b2_conversationHistory body) of
              (effects, records) \<Rightarrow> (effects, Stream records))
         else if b2_phase body = ''recommendation'' then
           (case streamToolRecommendation_p2 env (b2_projectInformation body) (b2_partialResponse body) of
              (effects, records) \<Rightarrow> (effects, Stream records))
         else
           ([], Json 400 (blank\<lparr>r_error := Some True,
                   r_text := Some ''Invalid phase specified for streaming. Must be 'gathering' or 'recommendation'.''\<rparr>)))
      else
        (if b2_phase body = ''gathering'' then
           (case handleInformationGathering_p2 env (b2_userInput body) (b2_conversationHistory body) of
              (effects, Inl e) \<Rightarrow> (effects, requestError e)
            | (effects, Inr result) \<Rightarrow> (effects, Json 200 result))
         else if b2_phase body = ''recommendation'' then
           (case handleToolRecommendation_p2 env (b2_projectInformation body) (b2_partialResponse body) of
              (effects, Inl e) \<Rightarrow> (effects, requestError e)
            | (effects, Inr result) \<Rightarrow> (effects, Json 200 result))
         else
           ([], Json 400 (blank\<lparr>r_error := Some True,
                   r_text := Some ''Invalid phase specified. Must be 'gathering' or 'recommendation'.''\<rparr>))))"

section \<open>The first revision of the route (conversation context as one string, \<^verbatim>\<open>fetch\<close>)\<close>

text \<open>
  \<^verbatim>\<open>fetchGeminiResponse\<close>: every failure inside its \<^verbatim>\<open>try\<close> (the call rejects, a status
  that is not ok, a body that is not JSON, no candidates, a candidate whose text cannot
  be reached) ends in its own \<^verbatim>\<open>catch\<close>, which returns a fixed text. The result is the \<^verbatim>\<open>text\<close>
  of the returned object; \<open>None\<close> is \<^verbatim>\<open>undefined\<close>.
\<close>

definition fetchGeminiResponse :: "env \<Rightarrow> string \<Rightarrow> effect list \<times> string option" where
  "fetchGeminiResponse env content =
     ([Gateway (Fetch content)],
      (case fetch env content of
         Rejected _ \<Rightarrow> Some ''Error generating response. Please try again.''
       | Http ok status body \<Rightarrow>
           (if \<not> ok then Some ''Error generating response. Please try again.''
            else
              (case body of
                 NotJson \<Rightarrow> Some ''Error generating response. Please try again.''
               | Data None \<Rightarrow> Some ''Error generating response. Please try again.''
               | Data (Some []) \<Rightarrow> Some ''Error generating response. Please try again.''
               | Data (Some (Malformed # _)) \<Rightarrow> Some ''Error generating response. Please try again.''
               | Data (Some (NoText # _)) \<Rightarrow> None
               | Data (Some (Text t # _)) \<Rightarrow> Some t))))"

text \<open>
  The failures of the gateway in this revision: everything \<^verbatim>\<open>fetch\<close> can come back with
  except an ok status with a first candidate that has a text. The call rejects, the
  status is not ok, the body is not JSON, the candidates are absent or empty, the access
  to the first candidate's text throws, or it yields \<^verbatim>\<open>undefined\<close>. The last of these,
  under an ok status, is the one failure that \<^verbatim>\<open>fetchGeminiResponse\<close> does not catch:
  it returns an object without text.
\<close>

fun upstreamFailure :: "fetched \<Rightarrow> bool" where
  "upstreamFailure (Http True status (Data (Some (Text t # _)))) = False"
| "upstreamFailure _ = True"

fun textless :: "fetched \<Rightarrow> bool" where
  "textless (Http True status (Data (Some (NoText # _)))) = True"
| "textless _ = False"

definition handleInformationGathering_p0 ::
  "env \<Rightarrow> string \<Rightarrow> string \<Rightarrow> effect list \<times> (string + response)" where
  "handleInformationGathering_p0 env userInput conversationContext =
     (let context1 =
            (if conversationContext = [] then
               ''System:\<newline>'' @ IMPROVED_PROMPT_p0 @ ''\<newline>\<newline>''
               @ ''User: ''
               @ (if userInput = [] then ''Hello! I'd like to discuss my project.'' else userInput)
               @ ''\<newline>''
             else conversationContext @ ''\<newline>User: '' @ userInput @ ''\<newline>'')
      in case fetchGeminiResponse env context1 of
           (effects, None) \<Rightarrow>
             (effects, Inl ''Cannot read properties of undefined (reading 'includes')'')
         | (effects, Some aiOutput) \<Rightarrow>
             (let isComplete = js_includes aiOutput ''FINAL SUMMARY'';
                  projectInformation = (if isComplete then aiOutput else [])
              in (effects,
                  Inr (blank\<lparr>r_text := Some aiOutput,
                             r_conversationContext :=
                               Some (context1 @ ''\<newline>AI: '' @ aiOutput @ ''\<newline>''),
                             r_isComplete := Some isComplete,
                             r_projectInformation := Some projectInformation\<rparr>))))"

definition handleToolRecommendation_p0 :: "env \<Rightarrow> string \<Rightarrow> effect list \<times> (string + response)" where
  "handleToolRecommendation_p0 env projectInformation =
     (case readFromFile env ''tool_information.txt'' of
        None \<Rightarrow>
          ([ReadFile ''tool_information.txt''],
           Inr (blank\<lparr>r_text := Some ''Error: Unable to access tool information. Please try again later.'',
                      r_error := Some True\<rparr>))
      | Some toolInformation \<Rightarrow>
          (let prompt =
                 js_replace (js_replace PROMPT_TEMPLATE_p0 ''{project_information}'' projectInformation)
                   ''{tool_information}'' toolInformation
           in case fetchGeminiResponse env prompt of
                (effects, resultText) \<Rightarrow>
                  (ReadFile ''tool_information.txt'' # effects,
                   Inr (blank\<lparr>r_text := resultText, r_error := Some False\<rparr>))))"

record body_p0 =
  b0_phase :: string
  b0_userInput :: string
  b0_conversationContext :: string
  b0_projectInformation :: string

definition POST_p0 :: "env \<Rightarrow> body_p0 \<Rightarrow> effect list \<times> http" where
  "POST_p0 env body =
     (if b0_phase body = ''gathering'' then
        (case handleInformationGathering_p0 env (b0_userInput body) (b0_conversationContext body) of
           (effects, Inl e) \<Rightarrow>
             (effects, Json 500 (blank\<lparr>r_error := Some True,
                          r_text := Some ''An error occurred while processing your request.''\<rparr>))
         | (effects, Inr result) \<Rightarrow> (effects, Json 200 result))
      else if b0_phase body = ''recommendation'' then
        (case handleToolRecommendation_p0 env (b0_projectInformation body) of
           (effects, Inl e) \<Rightarrow>
             (effects, Json 500 (blank\<lparr>r_error := Some True,
                          r_text := Some ''An error occurred while processing your request.''\<rparr>))
         | (effects, Inr result) \<Rightarrow> (effects, Json 200 result))
      else
        ([], Json 400 (blank\<lparr>r_error := Some True,
                r_text := Some ''Invalid phase specified. Must be 'gathering' or 'recommendation'.''\<rparr>)))"

section \<open>Failures of the completion gateway in the SDK revisions\<close>

text \<open>
  A call through the SDK fails with the message \<open>e\<close>: a blocking call throws it, a
  streaming call throws it after the fragments it has yielded.
\<close>

fun gatewayFails :: "env \<Rightarrow> call \<Rightarrow> string \<Rightarrow> bool" where
  "gatewayFails env (SendMessage history message) e =
     (generate env (SendMessage history message) = Inl e)"
| "gatewayFails env (GenerateContent prompt) e = (generate env (GenerateContent prompt) = Inl e)"
| "gatewayFails env (SendMessageStream history message) e =
     (snd (generateStream env (SendMessageStream history message)) = Some e)"
| "gatewayFails env (GenerateContentStream prompt) e =
     (snd (generateStream env (GenerateContentStream prompt)) = Some e)"
| "gatewayFails env (Fetch content) e = False"

section \<open>The client component (\<^verbatim>\<open>ToolHireChatbot\<close>, streaming revision with the watchdog)\<close>

text \<open>
  The component is modelled as an event system. Its state holds the three React state
  variables that travel between requests (phase, conversation history, project
  information), the refs of the watchdog (\<^verbatim>\<open>timeoutRef\<close>, \<^verbatim>\<open>responseRef\<close>,
  \<^verbatim>\<open>isStreamingRef\<close>, \<^verbatim>\<open>currentRequestRef\<close>), the requests in flight with the local
  variables of the handler that reads each of them, and the recommendation runs that
  were scheduled with \<^verbatim>\<open>setTimeout\<close>. The rendered message list, the loading flag (which
  disables the input field while a request is loading), the effect that sends the opening
  message on mount and the reset button are left out.

  A handler does not see the current React state but the values of the render in which
  it was created: a \<^typ>\<open>string\<close> \<^verbatim>\<open>phase\<close> captured in its closure. The closure of a
  handler is therefore a value of the model, and so is the closure of the pending
  watchdog timer, whose callback calls \<^verbatim>\<open>handleTimeout\<close> of the render that armed it.
\<close>

record closure =
  k_phase :: string
  k_conversationHistory :: "Turn list"
  k_projectInformation :: "string option"

text \<open>The JSON body of a request the client posts (streaming is always requested).\<close>

record posted =
  p_phase :: string
  p_userInput :: "string option"
  p_conversationHistory :: "Turn list option"
  p_projectInformation :: "string option"
  p_continuationMode :: bool
  p_partialResponse :: "string option"

text \<open>The object kept in \<^verbatim>\<open>currentRequestRef\<close>.\<close>

record tracked =
  t_phase :: string
  t_userInput :: "string option"
  t_projectInformation :: "string option"

text \<open>
  A request in flight: which handler runs it, the closure of that handler, what was
  posted, how far it is (\<^verbatim>\<open>fetch\<close> not yet resolved, the body being read, over), and the
  handler's locals \<^verbatim>\<open>fullContent\<close> and \<^verbatim>\<open>completeData\<close> (for the recommendation handlers
  \<^verbatim>\<open>streamComplete\<close> is true exactly when a done record has been kept).
\<close>

datatype kind = Sending | ContinuingGathering | Recommending | ContinuingRecommendation

datatype stage = Awaiting | Reading | Over

record request =
  q_kind :: kind
  q_captured :: closure
  q_posted :: posted
  q_stage :: stage
  q_fullContent :: string
  q_completeData :: "response option"

record client =
  c_phase :: string
  c_conversationHistory :: "Turn list"
  c_projectInformation :: "string option"
  c_rendered :: closure
  c_stale :: bool
  c_timer :: "closure option"
  c_response :: string
  c_isStreaming :: bool
  c_currentRequest :: tracked
  c_requests :: "request list"
  c_scheduled :: "(string option \<times> closure) list"

text \<open>
  The component at rest in the gathering phase, once the opening exchange is over and
  has left the history \<open>h\<close>: nothing in flight, no timer pending.
\<close>

definition atRest :: "Turn list \<Rightarrow> client" where
  "atRest h =
     \<lparr>c_phase = ''gathering'', c_conversationHistory = h, c_projectInformation = Some [],
      c_rendered = \<lparr>k_phase = ''gathering'', k_conversationHistory = h,
                    k_projectInformation = Some []\<rparr>,
      c_stale = False, c_timer = None, c_response = [], c_isStreaming = False,
      c_currentRequest = \<lparr>t_phase = ''gathering'', t_userInput = Some [],
                          t_projectInformation = Some []\<rparr>,
      c_requests = [], c_scheduled = []\<rparr>"

text \<open>
  The state setters. \<open>c_stale\<close> records that a dependency of the memoised handlers and
  of the mount effect has changed since the last render: a history is always a new
  array, a phase or project information only when the value differs.
\<close>

definition setConversationHistory :: "Turn list \<Rightarrow> client \<Rightarrow> client" where
  "setConversationHistory h st = st\<lparr>c_conversationHistory := h, c_stale := True\<rparr>"

definition setProjectInformation :: "string option \<Rightarrow> client \<Rightarrow> client" where
  "setProjectInformation info st =
     st\<lparr>c_projectInformation := info,
        c_stale := (if c_projectInformation st = info then c_stale st else True)\<rparr>"

definition setPhase :: "string \<Rightarrow> client \<Rightarrow> client" where
  "setPhase ph st =
     st\<lparr>c_phase := ph, c_stale := (if c_phase st = ph then c_stale st else True)\<rparr>"

text \<open>
  The watchdog. A pending timer is \<open>Some k\<close>, with \<open>k\<close> the closure of the render whose
  \<^verbatim>\<open>resetTimeoutTimer\<close> armed it.
\<close>

definition clearTimeoutTimer :: "client \<Rightarrow> client" where
  "clearTimeoutTimer st = st\<lparr>c_timer := None\<rparr>"

definition resetTimeoutTimer :: "closure \<Rightarrow> client \<Rightarrow> client" where
  "resetTimeoutTimer k st =
     (if c_isStreaming (clearTimeoutTimer st) then (clearTimeoutTimer st)\<lparr>c_timer := Some k\<rparr>
      else clearTimeoutTimer st)"

definition startStreamTracking :: "closure \<Rightarrow> tracked \<Rightarrow> client \<Rightarrow> client" where
  "startStreamTracking k requestInfo st =
     resetTimeoutTimer k
       (st\<lparr>c_isStreaming := True, c_response := [], c_currentRequest := requestInfo\<rparr>)"

definition updateResponseContent :: "closure \<Rightarrow> string \<Rightarrow> client \<Rightarrow> client" where
  "updateResponseContent k chunk st =
     resetTimeoutTimer k (st\<lparr>c_response := c_response st @ chunk\<rparr>)"

definition finishStreamTracking :: "client \<Rightarrow> client" where
  "finishStreamTracking st = (clearTimeoutTimer st)\<lparr>c_isStreaming := False\<rparr>"

definition newRequest :: "kind \<Rightarrow> closure \<Rightarrow> posted \<Rightarrow> request" where
  "newRequest knd k body =
     \<lparr>q_kind = knd, q_captured = k, q_posted = body, q_stage = Awaiting,
      q_fullContent = [], q_completeData = None\<rparr>"

text \<open>
  The synchronous start of each handler, up to its \<^verbatim>\<open>fetch\<close>. \<^verbatim>\<open>handleSendMessage\<close> and
  \<^verbatim>\<open>handleRecommendationPhase\<close> start the tracking before they post; the two
  continuation handlers start it only when the response has arrived.
\<close>

text \<open>
  The characters \<^verbatim>\<open>trim\<close> removes, among those a \<^typ>\<open>char\<close> can hold: a message that
  is empty or consists of them only is not sent.
\<close>

definition isSpace :: "char \<Rightarrow> bool" where
  "isSpace c =
     (c = CHR '' '' \<or> c = CHR 0x09 \<or> c = CHR 0x0A \<or> c = CHR 0x0B \<or> c = CHR 0x0C
      \<or> c = CHR 0x0D \<or> c = CHR 0xA0)"

definition handleSendMessage :: "closure \<Rightarrow> string \<Rightarrow> client \<Rightarrow> client" where
  "handleSendMessage k messageToSend st =
     (if list_all isSpace messageToSend then st
      else
        (let st1 = startStreamTracking k
                     \<lparr>t_phase = k_phase k, t_userInput = Some messageToSend,
                      t_projectInformation = k_projectInformation k\<rparr> st
         in st1\<lparr>c_requests := c_requests st1 @
              [newRequest Sending k
                 \<lparr>p_phase = k_phase k, p_userInput = Some messageToSend,
                  p_conversationHistory = Some (k_conversationHistory k),
                  p_projectInformation = k_projectInformation k,
                  p_continuationMode = False, p_partialResponse = None\<rparr>]\<rparr>))"

definition handleRecommendationPhase :: "closure \<Rightarrow> string option \<Rightarrow> client \<Rightarrow> client" where
  "handleRecommendationPhase k projectInfo st =
     (let st1 = startStreamTracking k
                  \<lparr>t_phase = ''recommendation'', t_userInput = None,
                   t_projectInformation = projectInfo\<rparr> st
      in st1\<lparr>c_requests := c_requests st1 @
           [newRequest Recommending k
              \<lparr>p_phase = ''recommendation'', p_userInput = None,
               p_conversationHistory = None, p_projectInformation = projectInfo,
               p_continuationMode = False, p_partialResponse = None\<rparr>]\<rparr>)"

definition handleContinuationForGathering ::
  "closure \<Rightarrow> string option \<Rightarrow> string \<Rightarrow> client \<Rightarrow> client" where
  "handleContinuationForGathering k userInput partialResponse st =
     st\<lparr>c_requests := c_requests st @
          [newRequest ContinuingGathering k
             \<lparr>p_phase = ''gathering'', p_userInput = userInput,
              p_conversationHistory = Some (k_conversationHistory k),
              p_projectInformation = None,
              p_continuationMode = True, p_partialResponse = Some partialResponse\<rparr>]\<rparr>"

definition handleContinuationForRecommendation ::
  "closure \<Rightarrow> string option \<Rightarrow> string \<Rightarrow> client \<Rightarrow> client" where
  "handleContinuationForRecommendation k projectInfo partialResponse st =
     st\<lparr>c_requests := c_requests st @
          [newRequest ContinuingRecommendation k
             \<lparr>p_phase = ''recommendation'', p_userInput = None,
              p_conversationHistory = None, p_projectInformation = projectInfo,
              p_continuationMode = True, p_partialResponse = Some partialResponse\<rparr>]\<rparr>"

definition handleTimeout :: "closure \<Rightarrow> string \<Rightarrow> client \<Rightarrow> client" where
  "handleTimeout k partialResponse st =
     (if t_phase (c_currentRequest st) = ''gathering'' then
        handleContinuationForGathering k (t_userInput (c_currentRequest st)) partialResponse st
      else if t_phase (c_currentRequest st) = ''recommendation'' then
        handleContinuationForRecommendation k (t_projectInformation (c_currentRequest st))
          partialResponse st
      else st)"

text \<open>
  The pending timer goes off: its callback calls \<^verbatim>\<open>handleTimeout\<close> with the text
  tracked so far and then drops the streaming flag. The request that was being read is
  not aborted.
\<close>

definition watchdogFires :: "client \<Rightarrow> client" where
  "watchdogFires st =
     (case c_timer st of
        None \<Rightarrow> st
      | Some k \<Rightarrow> (handleTimeout k (c_response st) (st\<lparr>c_timer := None\<rparr>))\<lparr>c_isStreaming := False\<rparr>)"

text \<open>
  The response of a request has arrived with an ok status: a continuation handler starts
  its tracking now.
\<close>

definition responded :: "request \<Rightarrow> client \<Rightarrow> client" where
  "responded q st =
     (case q_kind q of
        ContinuingGathering \<Rightarrow>
          startStreamTracking (q_captured q)
            \<lparr>t_phase = ''gathering'', t_userInput = p_userInput (q_posted q),
             t_projectInformation = k_projectInformation (q_captured q)\<rparr> st
      | ContinuingRecommendation \<Rightarrow>
          startStreamTracking (q_captured q)
            \<lparr>t_phase = ''recommendation'', t_userInput = None,
             t_projectInformation = p_projectInformation (q_posted q)\<rparr> st
      | Sending \<Rightarrow> st
      | Recommending \<Rightarrow> st)"

text \<open>
  The \<^verbatim>\<open>for\<close> loop over the lines of one read, for the request \<open>q\<close>. A line that does not
  parse is logged and skipped; an error record leaves the loop (\<^verbatim>\<open>break\<close>); a record that
  is not done extends \<^verbatim>\<open>fullContent\<close> and the tracked text and re-arms the watchdog; a
  done record is kept (the recommendation handlers also take its text, when it has
  one, as the full content).
\<close>

fun forChunks :: "response option list \<Rightarrow> request \<times> client \<Rightarrow> request \<times> client" where
  "forChunks [] s = s"
| "forChunks (None # rest) s = forChunks rest s"
| "forChunks (Some data # rest) (q, st) =
     (if r_error data = Some True then (q, st)
      else if r_done data \<noteq> Some True then
        (let chunk = (case r_chunk data of None \<Rightarrow> ''undefined'' | Some c \<Rightarrow> c)
         in forChunks rest
              (q\<lparr>q_fullContent := q_fullContent q @ chunk\<rparr>,
               updateResponseContent (q_captured q) chunk st))
      else if q_kind q = Sending \<or> q_kind q = ContinuingGathering then
        forChunks rest (q\<lparr>q_completeData := Some data\<rparr>, st)
      else
        forChunks rest
          (q\<lparr>q_completeData := Some data,
             q_fullContent := (case r_text data of
                                 None \<Rightarrow> q_fullContent q
                               | Some t \<Rightarrow> if t = [] then q_fullContent q else t)\<rparr>,
           st))"

text \<open>
  The scheduled call \<^verbatim>\<open>setTimeout(() => handleRecommendationPhase(...), 1000)\<close>, made by
  the handler whose closure is \<open>k\<close>.
\<close>

definition schedule :: "closure \<Rightarrow> string option \<Rightarrow> client \<Rightarrow> client" where
  "schedule k projectInfo st = st\<lparr>c_scheduled := c_scheduled st @ [(projectInfo, k)]\<rparr>"

text \<open>
  The body has been read to its end. With a done record in hand a gathering handler
  stops the tracking, replaces the history when the record brings one, and, when the
  record says complete and the phase \<^emph>\<open>of its closure\<close> is gathering, runs the transition
  block: project information, phase, and the scheduled recommendation. A recommendation
  handler only stops the tracking.
\<close>

definition endOfStream :: "request \<Rightarrow> client \<Rightarrow> client" where
  "endOfStream q st =
     (case q_completeData q of
        None \<Rightarrow> st
      | Some completeData \<Rightarrow>
          (if q_kind q = Sending \<or> q_kind q = ContinuingGathering then
             (let st1 = finishStreamTracking st;
                  st2 = (case r_conversationHistory completeData of
                           None \<Rightarrow> st1
                         | Some h \<Rightarrow> setConversationHistory h st1)
              in if r_isComplete completeData = Some True
                    \<and> k_phase (q_captured q) = ''gathering'' then
                   schedule (q_captured q) (r_projectInformation completeData)
                     (setPhase ''recommendation''
                        (setProjectInformation (r_projectInformation completeData) st2))
                 else st2)
           else finishStreamTracking st))"

text \<open>
  A render: the handlers created from now on capture the current state, and when a
  dependency has changed the cleanup of the mount effect clears the timer.
\<close>

definition renders :: "client \<Rightarrow> client" where
  "renders st =
     st\<lparr>c_rendered := \<lparr>k_phase = c_phase st, k_conversationHistory = c_conversationHistory st,
                        k_projectInformation = c_projectInformation st\<rparr>,
        c_timer := (if c_stale st then None else c_timer st),
        c_stale := False\<rparr>"

text \<open>
  The events of the component. A request is named by its position in the list of
  requests. An event for a request that does not exist, or that is not in the stage the
  event needs, changes nothing.
\<close>

datatype event =
    UserSends string
  | Responded nat
  | Read nat "response option list"
  | Closed nat
  | Failed nat
  | WatchdogFires
  | RecommendationStarts
  | Renders

fun client_step :: "client \<Rightarrow> event \<Rightarrow> client" where
  "client_step st (UserSends messageToSend) = handleSendMessage (c_rendered st) messageToSend st"
| "client_step st (Responded n) =
     (if n < length (c_requests st) \<and> q_stage (c_requests st ! n) = Awaiting then
        (let st1 = responded (c_requests st ! n) st
         in st1\<lparr>c_requests := (c_requests st1)[n := (c_requests st1 ! n)\<lparr>q_stage := Reading\<rparr>]\<rparr>)
      else st)"
| "client_step st (Read n chunks) =
     (if n < length (c_requests st) \<and> q_stage (c_requests st ! n) = Reading then
        (case forChunks chunks (c_requests st ! n, st) of
           (q, st1) \<Rightarrow> st1\<lparr>c_requests := (c_requests st1)[n := q]\<rparr>)
      else st)"
| "client_step st (Closed n) =
     (if n < length (c_requests st) \<and> q_stage (c_requests st ! n) = Reading then
        (let st1 = endOfStream (c_requests st ! n) st
         in st1\<lparr>c_requests := (c_requests st1)[n := (c_requests st1 ! n)\<lparr>q_stage := Over\<rparr>]\<rparr>)
      else st)"
| "client_step st (Failed n) =
     (if n < length (c_requests st) \<and> q_stage (c_requests st ! n) \<noteq> Over then
        st\<lparr>c_requests := (c_requests st)[n := (c_requests st ! n)\<lparr>q_stage := Over\<rparr>]\<rparr>
      else st)"
| "client_step st WatchdogFires = watchdogFires st"
| "client_step st RecommendationStarts =
     (case c_scheduled st of
        [] \<Rightarrow> st
      | (projectInfo, k) # rest \<Rightarrow> handleRecommendationPhase k projectInfo (st\<lparr>c_scheduled := rest\<rparr>))"
| "client_step st Renders = renders st"

definition run :: "client \<Rightarrow> event list \<Rightarrow> client" where
  "run st events = foldl client_step st events"

section \<open>Scripted worlds for the concrete runs\<close>

definition world :: "string option \<Rightarrow> string + string \<Rightarrow> string list \<times> string option \<Rightarrow> fetched \<Rightarrow> env" where
  "world catalog answer streamed fetched =
     \<lparr>fs_readFile = (\<lambda>_. catalog), generate = (\<lambda>_. answer),
      generateStream = (\<lambda>_. streamed), fetch = (\<lambda>_. fetched)\<rparr>"

text \<open>
  A run of the client against the route with continuation mode. The opening exchange has
  left the history \<open>openingHistory\<close>. The user sends a message; the first fragment of the answer
  arrives and then nothing for the length of the watchdog's threshold, so the watchdog
  posts a continuation request; the first answer then arrives in full, and after it the
  answer to the continuation. \<open>twoAnswers\<close> is a gateway that completes the summary in
  both answers.
\<close>

definition openingHistory :: "Turn list" where
  "openingHistory = [\<lparr>role = ''user'', parts = [[]]\<rparr>,
              \<lparr>role = ''model'', parts = [''What are you planning?'']\<rparr>]"

definition twoAnswers :: env where
  "twoAnswers =
     \<lparr>fs_readFile = (\<lambda>_. None), generate = (\<lambda>_. Inl []),
      generateStream =
        (\<lambda>call. if call = SendMessageStream openingHistory ''a deck''
                then ([''## FINAL SUMMARY ##'', '' a deck''], None)
                else (['' a deck of 12 m2''], None)),
      fetch = (\<lambda>_. Rejected [])\<rparr>"

definition firstAnswer :: "response list" where
  "firstAnswer =
     [blank\<lparr>r_chunk := Some ''## FINAL SUMMARY ##'', r_done := Some False\<rparr>,
      blank\<lparr>r_chunk := Some '' a deck'', r_done := Some False\<rparr>,
      blank\<lparr>r_done := Some True,
            r_conversationHistory :=
              Some (openingHistory @ [\<lparr>role = ''user'', parts = [''a deck'']\<rparr>,
                               \<lparr>role = ''model'', parts = [''## FINAL SUMMARY ## a deck'']\<rparr>]),
            r_isComplete := Some True,
            r_projectInformation := Some ''## FINAL SUMMARY ## a deck''\<rparr>]"

definition secondAnswer :: "response list" where
  "secondAnswer =
     [blank\<lparr>r_chunk := Some '' a deck of 12 m2'', r_done := Some False,
            r_continuation := Some True\<rparr>,
      blank\<lparr>r_done := Some True,
            r_conversationHistory :=
              Some [\<lparr>role = ''user'', parts = [[]]\<rparr>,
                    \<lparr>role = ''model'', parts = [''## FINAL SUMMARY ## a deck of 12 m2'']\<rparr>],
            r_isComplete := Some True,
            r_projectInformation := Some ''## FINAL SUMMARY ## a deck of 12 m2'',
            r_continuation := Some True,
            r_fullResponse := Some ''## FINAL SUMMARY ## a deck of 12 m2''\<rparr>]"

definition overlap :: "event list" where
  "overlap =
     [UserSends ''a deck'', Responded 0, Read 0 (map Some (take 1 firstAnswer)), WatchdogFires,
      Read 0 (map Some (drop 1 firstAnswer)), Closed 0, Renders, RecommendationStarts,
      Responded 1, Read 1 (map Some secondAnswer)]"

section \<open>Shapes of a streamed response\<close>

text \<open>
  A record that carries a fragment and nothing of the final state (the continuation
  flag may accompany the fragment).
\<close>

definition chunkOnly :: "response \<Rightarrow> bool" where
  "chunkOnly r =
     (r_chunk r \<noteq> None \<and> r_done r = Some False \<and> r_error r = None \<and> r_text r = None
      \<and> r_conversationHistory r = None \<and> r_conversationContext r = None
      \<and> r_isComplete r = None \<and> r_projectInformation r = None
      \<and> r_fullResponse r = None \<and> r_partialText r = None)"

text \<open>
  Exactly one record is done, it is the last one, and all records before it carry
  fragments only.
\<close>

definition oneTerminal :: "response list \<Rightarrow> bool" where
  "oneTerminal records =
     (records \<noteq> [] \<and> r_done (last records) = Some True
      \<and> list_all chunkOnly (butlast records)
      \<and> length (filter (\<lambda>r. r_done r = Some True) records) = 1)"

text \<open>The text a stream has carried: its fragments in order.\<close>

definition streamedText :: "response list \<Rightarrow> string" where
  "streamedText records = concat (List.map_filter r_chunk records)"




section \<open>Streams of the recommendation handlers and stitching\<close>

lemma pump_eq:
  "pump mk fragments (responseText, sent) = (responseText @ concat fragments, sent @ map mk fragments)"
  by (induction fragments arbitrary: responseText sent) simp_all

lemma readCatalog_reads: "readCatalog env = (reads, catalog) \<Longrightarrow> Gateway call \<notin> set reads"
  by (auto simp: readCatalog_def split: option.splits)

lemma streamToolRecommendation_p1_ok:
  assumes "readCatalog env = (reads, Some (toolInformation, productUrls))"
    and "generateStream env (GenerateContentStream
           (if continuationMode \<and> partialResponse \<noteq> [] then recommendationContinuation_p1 partialResponse
            else recommendationPrompt_p1 projectInfo toolInformation productUrls)) = (fragments, failure)"
  shows "streamToolRecommendation_p1 env projectInfo continuationMode partialResponse =
           (reads @ [Gateway (GenerateContentStream
              (if continuationMode \<and> partialResponse \<noteq> [] then recommendationContinuation_p1 partialResponse
               else recommendationPrompt_p1 projectInfo toolInformation productUrls))],
            map (\<lambda>chunkText. blank\<lparr>r_chunk := Some chunkText, r_done := Some False,
                                     r_continuation := Some continuationMode\<rparr>) fragments
            @ [case failure of
                 Some e \<Rightarrow> streamError e
               | None \<Rightarrow> blank\<lparr>r_done := Some True,
                              r_text := Some ((if continuationMode then partialResponse else []) @ concat fragments),
                              r_continuation := Some continuationMode\<rparr>])"
  using assms
  by (simp add: streamToolRecommendation_p1_def Let_def pump_eq split: option.splits)

lemma streamToolRecommendation_p2_ok:
  assumes "readCatalog env = (reads, Some (toolInformation, productUrls))"
    and "generateStream env (GenerateContentStream
           (case partialResponse of
              Some pr \<Rightarrow> continuePrompt_p2 (previousOutput_of pr)
            | None \<Rightarrow> recommendationPrompt_p2 projectInfo toolInformation productUrls)) = (fragments, failure)"
  shows "streamToolRecommendation_p2 env projectInfo partialResponse =
           (reads @ [Gateway (GenerateContentStream
              (case partialResponse of
                 Some pr \<Rightarrow> continuePrompt_p2 (previousOutput_of pr)
               | None \<Rightarrow> recommendationPrompt_p2 projectInfo toolInformation productUrls))],
            map (\<lambda>chunkText. blank\<lparr>r_chunk := Some chunkText, r_done := Some False\<rparr>) fragments
            @ [case failure of
                 Some e \<Rightarrow> streamError e
               | None \<Rightarrow> blank\<lparr>r_done := Some True,
                              r_text := Some ((case partialResponse of Some pr \<Rightarrow> previousOutput_of pr | None \<Rightarrow> [])
                                              @ concat fragments),
                              r_partialText := Some (concat fragments)\<rparr>])"
  using assms
  by (cases partialResponse)
     (simp_all add: streamToolRecommendation_p2_def Let_def pump_eq split: option.splits)

lemma streamToolRecommendation_p1_unavailable:
  "readCatalog env = (reads, None) \<Longrightarrow>
   streamToolRecommendation_p1 env projectInfo continuationMode partialResponse =
     (reads, [blank\<lparr>r_error := Some True, r_text := Some catalogError, r_done := Some True\<rparr>])"
  by (simp add: streamToolRecommendation_p1_def)

lemma streamToolRecommendation_p2_unavailable:
  "readCatalog env = (reads, None) \<Longrightarrow>
   streamToolRecommendation_p2 env projectInfo partialResponse =
     (reads, [blank\<lparr>r_error := Some True, r_text := Some catalogError, r_done := Some True\<rparr>])"
  by (simp add: streamToolRecommendation_p2_def)

lemma stitch_p1:
  assumes run: "streamToolRecommendation_p1 env projectInfo True p = (effects, records)"
    and sent: "Gateway call \<in> set effects"
    and got: "generateStream env call = (cs, None)"
  shows "records =
           map (\<lambda>c. blank\<lparr>r_chunk := Some c, r_done := Some False, r_continuation := Some True\<rparr>) cs
           @ [blank\<lparr>r_done := Some True, r_text := Some (p @ concat cs), r_continuation := Some True\<rparr>]"
proof (cases "readCatalog env")
  case (Pair reads catalog)
  note no_call = readCatalog_reads [OF Pair, of call]
  show ?thesis
  proof (cases catalog)
    case None
    with Pair run sent no_call show ?thesis
      by (simp add: streamToolRecommendation_p1_unavailable)
  next
    case (Some c)
    obtain toolInformation productUrls where c: "c = (toolInformation, productUrls)"
      by (cases c)
    define prompt where "prompt =
      (if True \<and> p \<noteq> [] then recommendationContinuation_p1 p
       else recommendationPrompt_p1 projectInfo toolInformation productUrls)"
    obtain fragments failure
      where g: "generateStream env (GenerateContentStream prompt) = (fragments, failure)"
      by (cases "generateStream env (GenerateContentStream prompt)")
    note eq = streamToolRecommendation_p1_ok
      [OF Pair [unfolded Some c] g [unfolded prompt_def], folded prompt_def]
    from run eq have "effects = reads @ [Gateway (GenerateContentStream prompt)]"
      by simp
    with sent no_call have "call = GenerateContentStream prompt" by auto
    with got g have "fragments = cs" "failure = None" by auto
    with run eq show ?thesis by simp
  qed
qed

lemma stitch_p2:
  assumes run: "streamToolRecommendation_p2 env projectInfo (Some pr) = (effects, records)"
    and sent: "Gateway call \<in> set effects"
    and got: "generateStream env call = (cs, None)"
  shows "records =
           map (\<lambda>c. blank\<lparr>r_chunk := Some c, r_done := Some False\<rparr>) cs
           @ [blank\<lparr>r_done := Some True, r_text := Some (previousOutput_of pr @ concat cs),
                    r_partialText := Some (concat cs)\<rparr>]"
proof (cases "readCatalog env")
  case (Pair reads catalog)
  note no_call = readCatalog_reads [OF Pair, of call]
  show ?thesis
  proof (cases catalog)
    case None
    with Pair run sent no_call show ?thesis
      by (simp add: streamToolRecommendation_p2_unavailable)
  next
    case (Some c)
    obtain toolInformation productUrls where c: "c = (toolInformation, productUrls)"
      by (cases c)
    define prompt where "prompt = continuePrompt_p2 (previousOutput_of pr)"
    obtain fragments failure
      where g: "generateStream env (GenerateContentStream prompt) = (fragments, failure)"
      by (cases "generateStream env (GenerateContentStream prompt)")
    from g have g': "generateStream env (GenerateContentStream
           (case Some pr of
              Some pr \<Rightarrow> continuePrompt_p2 (previousOutput_of pr)
            | None \<Rightarrow> recommendationPrompt_p2 projectInfo toolInformation productUrls)) = (fragments, failure)"
      by (simp add: prompt_def)
    note eq = streamToolRecommendation_p2_ok [OF Pair [unfolded Some c] g']
    from run eq have "effects = reads @ [Gateway (GenerateContentStream prompt)]"
      by (simp add: prompt_def)
    with sent no_call have "call = GenerateContentStream prompt" by auto
    with got g have "fragments = cs" "failure = None" by auto
    with run eq show ?thesis by simp
  qed
qed

text \<open>
  C1 (stitch correctness). A continuation run of the streaming recommendation handler
  that received the partial text \<open>p\<close> and whose call to the gateway yielded the fragments
  \<open>cs\<close> in this order and then ended: the stream is one chunk record per fragment, in
  order, followed by the done record, and the text of the done record is \<open>p\<close> followed by
  the fragments, nothing added between or changed. It holds for both revisions of the
  handler (partial text sent as a string with \<^verbatim>\<open>continuationMode\<close>, or inside a partial
  response object).
\<close>

theorem stitch_correctness:
  "(streamToolRecommendation_p1 env info True p = (effects, records)
      \<and> Gateway call \<in> set effects \<and> generateStream env call = (cs, None)
    \<longrightarrow> records =
          map (\<lambda>c. blank\<lparr>r_chunk := Some c, r_done := Some False, r_continuation := Some True\<rparr>) cs
          @ [blank\<lparr>r_done := Some True, r_text := Some (p @ concat cs),
                   r_continuation := Some True\<rparr>])
   \<and> (streamToolRecommendation_p2 env info (Some \<lparr>pr_text = Some p, pr_phase = ph\<rparr>) = (effects', records')
      \<and> Gateway call' \<in> set effects' \<and> generateStream env call' = (cs', None)
    \<longrightarrow> records' =
          map (\<lambda>c. blank\<lparr>r_chunk := Some c, r_done := Some False\<rparr>) cs'
          @ [blank\<lparr>r_done := Some True, r_text := Some (p @ concat cs'),
                   r_partialText := Some (concat cs')\<rparr>])"
proof (intro conjI impI)
  assume "streamToolRecommendation_p1 env info True p = (effects, records)
      \<and> Gateway call \<in> set effects \<and> generateStream env call = (cs, None)"
  then show "records =
          map (\<lambda>c. blank\<lparr>r_chunk := Some c, r_done := Some False, r_continuation := Some True\<rparr>) cs
          @ [blank\<lparr>r_done := Some True, r_text := Some (p @ concat cs),
                   r_continuation := Some True\<rparr>]"
    using stitch_p1 by blast
next
  assume "streamToolRecommendation_p2 env info (Some \<lparr>pr_text = Some p, pr_phase = ph\<rparr>) = (effects', records')
      \<and> Gateway call' \<in> set effects' \<and> generateStream env call' = (cs', None)"
  then have "records' =
          map (\<lambda>c. blank\<lparr>r_chunk := Some c, r_done := Some False\<rparr>) cs'
          @ [blank\<lparr>r_done := Some True,
                   r_text := Some (previousOutput_of \<lparr>pr_text = Some p, pr_phase = ph\<rparr> @ concat cs'),
                   r_partialText := Some (concat cs')\<rparr>]"
    using stitch_p2 by blast
  then show "records' =
          map (\<lambda>c. blank\<lparr>r_chunk := Some c, r_done := Some False\<rparr>) cs'
          @ [blank\<lparr>r_done := Some True, r_text := Some (p @ concat cs'),
                   r_partialText := Some (concat cs')\<rparr>]"
    by (simp add: previousOutput_of_def)
qed

theorem stitch_correctness_witness:
  "snd (streamToolRecommendation_p1 (world (Some ''catalog'') (Inr []) ([''cd'', ''ef''], None) (Rejected []))
          ''project'' True ''ab'') =
     [blank\<lparr>r_chunk := Some ''cd'', r_done := Some False, r_continuation := Some True\<rparr>,
      blank\<lparr>r_chunk := Some ''ef'', r_done := Some False, r_continuation := Some True\<rparr>,
      blank\<lparr>r_done := Some True, r_text := Some ''abcdef'', r_continuation := Some True\<rparr>]
   \<and> snd (streamToolRecommendation_p2 (world (Some ''catalog'') (Inr []) ([''cd'', ''ef''], None) (Rejected []))
          ''project'' (Some \<lparr>pr_text = Some ''ab'', pr_phase = ''recommendation''\<rparr>)) =
     [blank\<lparr>r_chunk := Some ''cd'', r_done := Some False\<rparr>,
      blank\<lparr>r_chunk := Some ''ef'', r_done := Some False\<rparr>,
      blank\<lparr>r_done := Some True, r_text := Some ''abcdef'', r_partialText := Some ''cdef''\<rparr>]"
proof -
  let ?env = "world (Some ''catalog'') (Inr []) ([''cd'', ''ef''], None) (Rejected [])"
  let ?c1 = "GenerateContentStream (recommendationContinuation_p1 ''ab'')"
  let ?c2 = "GenerateContentStream (continuePrompt_p2 ''ab'')"
  let ?r1 = "streamToolRecommendation_p1 ?env ''project'' True ''ab''"
  let ?r2 = "streamToolRecommendation_p2 ?env ''project'' (Some \<lparr>pr_text = Some ''ab'', pr_phase = ''recommendation''\<rparr>)"
  have g: "\<And>call. generateStream ?env call = ([''cd'', ''ef''], None)"
    by (simp add: world_def)
  have rc: "readCatalog ?env =
      ([ReadFile ''tool_information.txt'', ReadFile ''product_urls.txt''], Some (''catalog'', ''catalog''))"
    by (simp add: readCatalog_def readFromFile_def world_def)
  have e1: "Gateway ?c1 \<in> set (fst ?r1)"
    by (simp add: streamToolRecommendation_p1_ok [OF rc g])
  have e2: "Gateway ?c2 \<in> set (fst ?r2)"
    by (simp add: streamToolRecommendation_p2_ok [OF rc g] previousOutput_of_def)
  from stitch_correctness [of ?env "''project''" "''ab''" "fst ?r1" "snd ?r1" ?c1 "[''cd'', ''ef'']"
      "''recommendation''" "fst ?r2" "snd ?r2" ?c2 "[''cd'', ''ef'']"] e1 e2 g
  show ?thesis by simp
qed


section \<open>The sentinel test and the gathering handlers\<close>

lemma js_includes_iff: "js_includes s t \<longleftrightarrow> (\<exists>pre post. s = pre @ t @ post)"
proof (induction s)
  case Nil
  then show ?case by auto
next
  case (Cons c s)
  show ?case
  proof
    assume "js_includes (c # s) t"
    then consider "prefix t (c # s)" | "js_includes s t" by auto
    then show "\<exists>pre post. c # s = pre @ t @ post"
    proof cases
      case 1
      then obtain post where "c # s = t @ post" by (auto simp: prefix_def)
      then have "c # s = [] @ t @ post" by simp
      then show ?thesis by blast
    next
      case 2
      with Cons.IH obtain pre post where "s = pre @ t @ post" by blast
      then have "c # s = (c # pre) @ t @ post" by simp
      then show ?thesis by blast
    qed
  next
    assume "\<exists>pre post. c # s = pre @ t @ post"
    then obtain pre post where eq: "c # s = pre @ t @ post" by blast
    show "js_includes (c # s) t"
    proof (cases pre)
      case Nil
      with eq have "prefix t (c # s)" by (simp add: prefix_def)
      then show ?thesis by simp
    next
      case (Cons d pre')
      with eq have "s = pre' @ t @ post" by simp
      with Cons.IH have "js_includes s t" by blast
      then show ?thesis by simp
    qed
  qed
qed

lemma streamInformationGathering_p1_done:
  assumes run: "streamInformationGathering_p1 env u h cm p = (effects, records)"
    and sent: "Gateway call \<in> set effects"
    and got: "generateStream env call = (cs, None)"
  shows "records =
     (if cm \<and> p \<noteq> [] then
        map (\<lambda>c. blank\<lparr>r_chunk := Some c, r_done := Some False, r_continuation := Some True\<rparr>) cs
        @ [blank\<lparr>r_done := Some True,
                 r_conversationHistory :=
                   Some (popPartial h @ [\<lparr>role = ''model'', parts = [p @ concat cs]\<rparr>]),
                 r_isComplete := Some (js_includes (p @ concat cs) ''## FINAL SUMMARY ##''),
                 r_projectInformation :=
                   Some (if js_includes (p @ concat cs) ''## FINAL SUMMARY ##'' then p @ concat cs else []),
                 r_continuation := Some True,
                 r_fullResponse := Some (p @ concat cs)\<rparr>]
      else
        map (\<lambda>c. blank\<lparr>r_chunk := Some c, r_done := Some False\<rparr>) cs
        @ [blank\<lparr>r_done := Some True,
                 r_conversationHistory :=
                   Some (h @ [\<lparr>role = ''user'', parts = [u]\<rparr>,
                              \<lparr>role = ''model'', parts = [concat cs]\<rparr>]),
                 r_isComplete := Some (js_includes (concat cs) ''## FINAL SUMMARY ##''),
                 r_projectInformation :=
                   Some (if js_includes (concat cs) ''## FINAL SUMMARY ##'' then concat cs else [])\<rparr>])"
  using assms
  by (auto simp: streamInformationGathering_p1_def Let_def pump_eq
           split: if_splits sum.splits prod.splits option.splits)

lemma handleInformationGathering_p1_done:
  assumes run: "handleInformationGathering_p1 env u h cm p = (effects, Inr result)"
    and sent: "Gateway call \<in> set effects"
    and got: "generate env call = Inr c"
  shows "result =
     (if cm \<and> p \<noteq> [] then
        gatheringResult_p1 (p @ c) (popPartial h @ [\<lparr>role = ''model'', parts = [p @ c]\<rparr>]) cm
      else
        gatheringResult_p1 c
          (h @ [\<lparr>role = ''user'', parts = [u]\<rparr>, \<lparr>role = ''model'', parts = [c]\<rparr>]) cm)"
  using assms
  by (auto simp: handleInformationGathering_p1_def Let_def
           split: if_splits sum.splits prod.splits option.splits)

text \<open>
  C2 (completion detection under continuation). For a gathering-phase request in
  continuation mode with partial text \<open>p\<close>, streaming (the gateway yields the fragments
  \<open>cs\<close> and ends) or not (the gateway answers \<open>c\<close>): the completion flag of the done
  record, or of the returned object, is the sentinel test on the stitched text, \<open>p\<close>
  followed by the continuation, and the project information is the stitched text when
  the test succeeds. The test succeeds exactly when the sentinel occurs somewhere in the
  stitched text, so also when it lies across the point of interruption.
\<close>

theorem completion_detection_under_continuation:
  "(streamInformationGathering_p1 env u h True p = (effects, records)
      \<and> Gateway call \<in> set effects \<and> generateStream env call = (cs, None)
    \<longrightarrow> r_done (last records) = Some True
        \<and> r_isComplete (last records) = Some (js_includes (p @ concat cs) ''## FINAL SUMMARY ##'')
        \<and> r_projectInformation (last records) =
              Some (if js_includes (p @ concat cs) ''## FINAL SUMMARY ##'' then p @ concat cs else []))
   \<and> (handleInformationGathering_p1 env u h True p = (effects', Inr result)
      \<and> Gateway call' \<in> set effects' \<and> generate env call' = Inr c
    \<longrightarrow> r_isComplete result = Some (js_includes (p @ c) ''## FINAL SUMMARY ##'')
        \<and> r_projectInformation result =
              Some (if js_includes (p @ c) ''## FINAL SUMMARY ##'' then p @ c else []))
   \<and> (js_includes (p @ c) ''## FINAL SUMMARY ##''
        \<longleftrightarrow> (\<exists>pre post. p @ c = pre @ ''## FINAL SUMMARY ##'' @ post))"
proof (intro conjI impI)
  assume a: "streamInformationGathering_p1 env u h True p = (effects, records)
      \<and> Gateway call \<in> set effects \<and> generateStream env call = (cs, None)"
  note eq = streamInformationGathering_p1_done [of env u h True p effects records call cs]
  from a eq show "r_done (last records) = Some True" by (simp split: if_splits)
  from a eq show "r_isComplete (last records) = Some (js_includes (p @ concat cs) ''## FINAL SUMMARY ##'')"
    by (simp split: if_splits)
  from a eq show "r_projectInformation (last records) =
      Some (if js_includes (p @ concat cs) ''## FINAL SUMMARY ##'' then p @ concat cs else [])"
    by (simp split: if_splits)
next
  assume a: "handleInformationGathering_p1 env u h True p = (effects', Inr result)
      \<and> Gateway call' \<in> set effects' \<and> generate env call' = Inr c"
  note eq = handleInformationGathering_p1_done [of env u h True p effects' result call' c]
  from a eq show "r_isComplete result = Some (js_includes (p @ c) ''## FINAL SUMMARY ##'')"
    by (simp add: gatheringResult_p1_def Let_def split: if_splits)
  from a eq show "r_projectInformation result =
      Some (if js_includes (p @ c) ''## FINAL SUMMARY ##'' then p @ c else [])"
    by (simp add: gatheringResult_p1_def Let_def split: if_splits)
next
  show "js_includes (p @ c) ''## FINAL SUMMARY ##''
        \<longleftrightarrow> (\<exists>pre post. p @ c = pre @ ''## FINAL SUMMARY ##'' @ post)"
    by (rule js_includes_iff)
qed

theorem completion_detection_under_continuation_witness:
  "r_isComplete (last (snd (streamInformationGathering_p1
       (world None (Inr ''SUMMARY ##'') ([''SUMM'', ''ARY ##''], None) (Rejected []))
       ''go on'' [] True ''## FINAL ''))) = Some True
   \<and> r_projectInformation (last (snd (streamInformationGathering_p1
       (world None (Inr ''SUMMARY ##'') ([''SUMM'', ''ARY ##''], None) (Rejected []))
       ''go on'' [] True ''## FINAL ''))) = Some ''## FINAL SUMMARY ##''
   \<and> snd (handleInformationGathering_p1
       (world None (Inr ''SUMMARY ##'') ([''SUMM'', ''ARY ##''], None) (Rejected []))
       ''go on'' [] True ''## FINAL '') =
       Inr (blank\<lparr>r_text := Some ''## FINAL SUMMARY ##'',
                  r_conversationHistory := Some [\<lparr>role = ''model'', parts = [''## FINAL SUMMARY ##'']\<rparr>],
                  r_isComplete := Some True,
                  r_projectInformation := Some ''## FINAL SUMMARY ##'',
                  r_continuation := Some True\<rparr>)
   \<and> \<not> js_includes ''SUMMARY ##'' ''## FINAL SUMMARY ##''
   \<and> \<not> js_includes ''## FINAL '' ''## FINAL SUMMARY ##''"
proof -
  let ?env = "world None (Inr ''SUMMARY ##'') ([''SUMM'', ''ARY ##''], None) (Rejected [])"
  let ?s = "streamInformationGathering_p1 ?env ''go on'' [] True ''## FINAL ''"
  let ?h = "handleInformationGathering_p1 ?env ''go on'' [] True ''## FINAL ''"
  let ?cs = "SendMessageStream [] (gatheringContinuation_p1 ''## FINAL '')"
  let ?ch = "SendMessage [] (gatheringContinuation_p1 ''## FINAL '')"
  have s: "?s = (fst ?s, snd ?s)" by simp
  have es: "Gateway ?cs \<in> set (fst ?s)"
    by (simp add: streamInformationGathering_p1_def world_def Let_def pump_eq)
  have gs: "generateStream ?env ?cs = ([''SUMM'', ''ARY ##''], None)"
    by (simp add: world_def)
  have h: "?h = ([Gateway ?ch], Inr (gatheringResult_p1 ''## FINAL SUMMARY ##''
             [\<lparr>role = ''model'', parts = [''## FINAL SUMMARY ##'']\<rparr>] True))"
    by (simp add: handleInformationGathering_p1_def world_def Let_def popPartial_def)
  have gh: "generate ?env ?ch = Inr ''SUMMARY ##''"
    by (simp add: world_def)
  note t = completion_detection_under_continuation
    [of ?env "''go on''" "[]" "''## FINAL ''" "fst ?s" "snd ?s" ?cs "[''SUMM'', ''ARY ##'']"
        "[Gateway ?ch]" "gatheringResult_p1 ''## FINAL SUMMARY ##''
             [\<lparr>role = ''model'', parts = [''## FINAL SUMMARY ##'']\<rparr>] True" ?ch "''SUMMARY ##''"]
  have inc: "js_includes ''## FINAL SUMMARY ##'' ''## FINAL SUMMARY ##''" by simp
  from t s es gs h gh inc show ?thesis
    by (simp add: gatheringResult_p1_def Let_def)
qed


section \<open>The project information invariant\<close>

lemma js_includes_nonempty: "js_includes s ''## FINAL SUMMARY ##'' \<Longrightarrow> s \<noteq> []"
  by (cases s) simp_all

lemma js_includes_concat:
  "js_includes (concat cs) ''## FINAL SUMMARY ##'' \<Longrightarrow> \<exists>xs\<in>set cs. xs \<noteq> []"
  using js_includes_nonempty [of "concat cs"] by simp

lemma js_includes_append_concat:
  "js_includes (p @ concat cs) ''## FINAL SUMMARY ##'' \<Longrightarrow> p = [] \<Longrightarrow> \<exists>xs\<in>set cs. xs \<noteq> []"
  using js_includes_nonempty [of "p @ concat cs"] by simp

lemma chunks_of_stream:
  "(\<And>c. r_chunk (mk c) = Some c) \<Longrightarrow>
   List.map_filter r_chunk (map mk cs @ [final]) =
     cs @ (case r_chunk final of None \<Rightarrow> [] | Some c \<Rightarrow> [c])"
  by (induction cs) (simp_all add: List.map_filter_simps split: option.splits)

lemma blank_fields [simp]:
  "r_chunk blank = None" "r_done blank = None" "r_error blank = None" "r_text blank = None"
  "r_conversationHistory blank = None" "r_conversationContext blank = None"
  "r_isComplete blank = None" "r_projectInformation blank = None" "r_continuation blank = None"
  "r_fullResponse blank = None" "r_partialText blank = None"
  by (simp_all add: blank_def)

lemma streamError_fields [simp]:
  "r_chunk (streamError e) = None" "r_done (streamError e) = Some True"
  "r_error (streamError e) = Some True"
  "r_text (streamError e) = Some (''Error in streaming response: '' @ e)"
  "r_conversationHistory (streamError e) = None"
  "r_isComplete (streamError e) = None" "r_projectInformation (streamError e) = None"
  by (simp_all add: streamError_def)

lemma invariant_stream_p1:
  assumes "streamInformationGathering_p1 env u h cm p = (effects, records)" and "r \<in> set records"
  shows "((\<exists>s. r_projectInformation r = Some s \<and> s \<noteq> []) \<longleftrightarrow> r_isComplete r = Some True)
     \<and> (r_isComplete r = Some True \<longrightarrow>
          r_projectInformation r =
            Some ((if cm then p else []) @ concat (List.map_filter r_chunk records)))"
  using assms
  by (auto simp: streamInformationGathering_p1_def Let_def pump_eq chunks_of_stream
             js_includes_nonempty
           simp del: concat_eq_Nil_conv append_is_Nil_conv
           split: if_splits sum.splits prod.splits option.splits)

lemma invariant_stream_p2:
  assumes "streamInformationGathering_p2 env u h = (effects, records)" and "r \<in> set records"
  shows "((\<exists>s. r_projectInformation r = Some s \<and> s \<noteq> []) \<longleftrightarrow> r_isComplete r = Some True)
     \<and> (r_isComplete r = Some True \<longrightarrow>
          r_projectInformation r = Some (concat (List.map_filter r_chunk records)))"
  using assms
  by (auto simp: streamInformationGathering_p2_def Let_def pump_eq chunks_of_stream
             js_includes_nonempty
           simp del: concat_eq_Nil_conv append_is_Nil_conv
           split: if_splits sum.splits prod.splits option.splits)

lemma gatheringResult_p1_invariant:
  "((\<exists>s. r_projectInformation (gatheringResult_p1 t hist cm) = Some s \<and> s \<noteq> [])
      \<longleftrightarrow> r_isComplete (gatheringResult_p1 t hist cm) = Some True)
   \<and> (r_isComplete (gatheringResult_p1 t hist cm) = Some True \<longrightarrow>
        r_projectInformation (gatheringResult_p1 t hist cm) = r_text (gatheringResult_p1 t hist cm))"
  by (auto simp: gatheringResult_p1_def Let_def js_includes_nonempty)

lemma handleInformationGathering_p1_result:
  "handleInformationGathering_p1 env u h cm p = (effects, Inr r) \<Longrightarrow>
   \<exists>t hist. r = gatheringResult_p1 t hist cm"
  by (auto simp: handleInformationGathering_p1_def Let_def
           split: if_splits sum.splits prod.splits option.splits)

lemma invariant_handle_p1:
  assumes "handleInformationGathering_p1 env u h cm p = (effects, Inr r)"
  shows "((\<exists>s. r_projectInformation r = Some s \<and> s \<noteq> []) \<longleftrightarrow> r_isComplete r = Some True)
     \<and> (r_isComplete r = Some True \<longrightarrow> r_projectInformation r = r_text r)"
  using handleInformationGathering_p1_result [OF assms] gatheringResult_p1_invariant
  by blast

lemma invariant_handle_p2:
  assumes "handleInformationGathering_p2 env u h = (effects, Inr r)"
  shows "((\<exists>s. r_projectInformation r = Some s \<and> s \<noteq> []) \<longleftrightarrow> r_isComplete r = Some True)
     \<and> (r_isComplete r = Some True \<longrightarrow> r_projectInformation r = r_text r)"
  using assms
  by (auto simp: handleInformationGathering_p2_def Let_def js_includes_nonempty
           split: if_splits sum.splits prod.splits option.splits)

text \<open>
  C4 (project information invariant). In every object a gathering handler returns, and in
  every record a gathering stream carries (either revision, continuation or not), the
  project information is a non-empty string exactly when the completion flag is true;
  and then it is the full output text: the \<^verbatim>\<open>text\<close> of the returned object, or for a
  stream the partial text of a continuation followed by all fragments the stream
  carried.
\<close>

theorem projectInformation_invariant:
  "(handleInformationGathering_p1 env u h cm p = (effects1, Inr r1) \<longrightarrow>
      ((\<exists>s. r_projectInformation r1 = Some s \<and> s \<noteq> []) \<longleftrightarrow> r_isComplete r1 = Some True)
      \<and> (r_isComplete r1 = Some True \<longrightarrow> r_projectInformation r1 = r_text r1))
   \<and> (handleInformationGathering_p2 env u h = (effects2, Inr r2) \<longrightarrow>
      ((\<exists>s. r_projectInformation r2 = Some s \<and> s \<noteq> []) \<longleftrightarrow> r_isComplete r2 = Some True)
      \<and> (r_isComplete r2 = Some True \<longrightarrow> r_projectInformation r2 = r_text r2))
   \<and> (streamInformationGathering_p1 env u h cm p = (effects3, records3) \<longrightarrow>
      (\<forall>r \<in> set records3.
         ((\<exists>s. r_projectInformation r = Some s \<and> s \<noteq> []) \<longleftrightarrow> r_isComplete r = Some True)
         \<and> (r_isComplete r = Some True \<longrightarrow>
              r_projectInformation r =
                Some ((if cm then p else []) @ concat (List.map_filter r_chunk records3)))))
   \<and> (streamInformationGathering_p2 env u h = (effects4, records4) \<longrightarrow>
      (\<forall>r \<in> set records4.
         ((\<exists>s. r_projectInformation r = Some s \<and> s \<noteq> []) \<longleftrightarrow> r_isComplete r = Some True)
         \<and> (r_isComplete r = Some True \<longrightarrow>
              r_projectInformation r = Some (concat (List.map_filter r_chunk records4)))))"
  using invariant_handle_p1 [of env u h cm p effects1 r1]
        invariant_handle_p2 [of env u h effects2 r2]
        invariant_stream_p1 [of env u h cm p effects3 records3]
        invariant_stream_p2 [of env u h effects4 records4]
  by blast

theorem projectInformation_invariant_witness:
  "snd (handleInformationGathering_p1
          (world None (Inr ''ok ## FINAL SUMMARY ## deck'') ([''ok ## FINAL'', '' SUMMARY ## deck''], None) (Rejected []))
          ''wood'' [\<lparr>role = ''user'', parts = [''hi'']\<rparr>] False []) =
     Inr (blank\<lparr>r_text := Some ''ok ## FINAL SUMMARY ## deck'',
                r_conversationHistory :=
                  Some [\<lparr>role = ''user'', parts = [''hi'']\<rparr>, \<lparr>role = ''user'', parts = [''wood'']\<rparr>,
                        \<lparr>role = ''model'', parts = [''ok ## FINAL SUMMARY ## deck'']\<rparr>],
                r_isComplete := Some True,
                r_projectInformation := Some ''ok ## FINAL SUMMARY ## deck'',
                r_continuation := Some False\<rparr>)
   \<and> snd (handleInformationGathering_p2
          (world None (Inr ''ok ## FINAL SUMMARY ## deck'') ([''ok ## FINAL'', '' SUMMARY ## deck''], None) (Rejected []))
          ''wood'' [\<lparr>role = ''user'', parts = [''hi'']\<rparr>]) =
     Inr (blank\<lparr>r_text := Some ''ok ## FINAL SUMMARY ## deck'',
                r_conversationHistory :=
                  Some [\<lparr>role = ''user'', parts = [''hi'']\<rparr>, \<lparr>role = ''user'', parts = [''wood'']\<rparr>,
                        \<lparr>role = ''model'', parts = [''ok ## FINAL SUMMARY ## deck'']\<rparr>],
                r_isComplete := Some True,
                r_projectInformation := Some ''ok ## FINAL SUMMARY ## deck''\<rparr>)
   \<and> r_isComplete (last (snd (streamInformationGathering_p1
          (world None (Inr ''ok ## FINAL SUMMARY ## deck'') ([''ok ## FINAL'', '' SUMMARY ## deck''], None) (Rejected []))
          ''wood'' [\<lparr>role = ''user'', parts = [''hi'']\<rparr>] False []))) = Some True
   \<and> r_projectInformation (last (snd (streamInformationGathering_p1
          (world None (Inr ''ok ## FINAL SUMMARY ## deck'') ([''ok ## FINAL'', '' SUMMARY ## deck''], None) (Rejected []))
          ''wood'' [\<lparr>role = ''user'', parts = [''hi'']\<rparr>] False []))) = Some ''ok ## FINAL SUMMARY ## deck''
   \<and> r_isComplete (last (snd (streamInformationGathering_p2
          (world None (Inr ''ok ## FINAL SUMMARY ## deck'') ([''ok ## FINAL'', '' SUMMARY ## deck''], None) (Rejected []))
          ''wood'' [\<lparr>role = ''user'', parts = [''hi'']\<rparr>]))) = Some True
   \<and> r_projectInformation (last (snd (streamInformationGathering_p2
          (world None (Inr ''ok ## FINAL SUMMARY ## deck'') ([''ok ## FINAL'', '' SUMMARY ## deck''], None) (Rejected []))
          ''wood'' [\<lparr>role = ''user'', parts = [''hi'']\<rparr>]))) = Some ''ok ## FINAL SUMMARY ## deck''"
proof -
  let ?env = "world None (Inr ''ok ## FINAL SUMMARY ## deck'') ([''ok ## FINAL'', '' SUMMARY ## deck''], None) (Rejected [])"
  let ?h = "[\<lparr>role = ''user'', parts = [''hi'']\<rparr>]"
  let ?h1 = "handleInformationGathering_p1 ?env ''wood'' ?h False []"
  let ?h2 = "handleInformationGathering_p2 ?env ''wood'' ?h"
  let ?s1 = "streamInformationGathering_p1 ?env ''wood'' ?h False []"
  let ?s2 = "streamInformationGathering_p2 ?env ''wood'' ?h"
  let ?R1 = "blank\<lparr>r_text := Some ''ok ## FINAL SUMMARY ## deck'',
                r_conversationHistory :=
                  Some [\<lparr>role = ''user'', parts = [''hi'']\<rparr>, \<lparr>role = ''user'', parts = [''wood'']\<rparr>,
                        \<lparr>role = ''model'', parts = [''ok ## FINAL SUMMARY ## deck'']\<rparr>],
                r_isComplete := Some True,
                r_projectInformation := Some ''ok ## FINAL SUMMARY ## deck'',
                r_continuation := Some False\<rparr>"
  let ?R2 = "blank\<lparr>r_text := Some ''ok ## FINAL SUMMARY ## deck'',
                r_conversationHistory :=
                  Some [\<lparr>role = ''user'', parts = [''hi'']\<rparr>, \<lparr>role = ''user'', parts = [''wood'']\<rparr>,
                        \<lparr>role = ''model'', parts = [''ok ## FINAL SUMMARY ## deck'']\<rparr>],
                r_isComplete := Some True,
                r_projectInformation := Some ''ok ## FINAL SUMMARY ## deck''\<rparr>"
  have inc: "js_includes ''ok ## FINAL SUMMARY ## deck'' ''## FINAL SUMMARY ##''" by simp
  have h1: "?h1 = (fst ?h1, Inr ?R1)"
    using inc by (simp add: handleInformationGathering_p1_def gatheringResult_p1_def world_def Let_def)
  have h2: "?h2 = (fst ?h2, Inr ?R2)"
    using inc by (simp add: handleInformationGathering_p2_def world_def Let_def)
  have s1: "?s1 = (fst ?s1, snd ?s1)" by simp
  have s2: "?s2 = (fst ?s2, snd ?s2)" by simp
  have l1: "last (snd ?s1) \<in> set (snd ?s1)" "r_isComplete (last (snd ?s1)) = Some True"
    "List.map_filter r_chunk (snd ?s1) = [''ok ## FINAL'', '' SUMMARY ## deck'']"
    using inc by (simp_all add: streamInformationGathering_p1_def world_def Let_def pump_eq List.map_filter_simps)
  have l2: "last (snd ?s2) \<in> set (snd ?s2)" "r_isComplete (last (snd ?s2)) = Some True"
    "List.map_filter r_chunk (snd ?s2) = [''ok ## FINAL'', '' SUMMARY ## deck'']"
    using inc by (simp_all add: streamInformationGathering_p2_def world_def Let_def pump_eq List.map_filter_simps)
  note t = projectInformation_invariant
    [of ?env "''wood''" ?h False "[]" "fst ?h1" ?R1 "fst ?h2" ?R2 "fst ?s1" "snd ?s1" "fst ?s2" "snd ?s2"]
  from t h1 h2 s1 s2 have
    a: "\<forall>r \<in> set (snd ?s1). r_isComplete r = Some True \<longrightarrow>
          r_projectInformation r = Some ([] @ concat (List.map_filter r_chunk (snd ?s1)))"
    and b: "\<forall>r \<in> set (snd ?s2). r_isComplete r = Some True \<longrightarrow>
          r_projectInformation r = Some (concat (List.map_filter r_chunk (snd ?s2)))"
    by simp_all
  from a l1 have "r_projectInformation (last (snd ?s1)) = Some ''ok ## FINAL SUMMARY ## deck''"
    by simp
  moreover from b l2 have "r_projectInformation (last (snd ?s2)) = Some ''ok ## FINAL SUMMARY ## deck''"
    by simp
  ultimately show ?thesis using h1 h2 l1(2) l2(2)
    by (metis snd_conv)
qed


section \<open>The sentinel of the first revision\<close>

lemma sentinel_guard_later_revisions:
  "r_isComplete (gatheringResult_p1 t hist cm) = Some True
     \<longleftrightarrow> (\<exists>pre post. t = pre @ ''## FINAL SUMMARY ##'' @ post)"
  "handleInformationGathering_p2 env u h = (effects, Inr r) \<Longrightarrow>
     \<exists>t. r_text r = Some t
       \<and> (r_isComplete r = Some True \<longleftrightarrow> (\<exists>pre post. t = pre @ ''## FINAL SUMMARY ##'' @ post))"
  by (auto simp: gatheringResult_p1_def handleInformationGathering_p2_def Let_def js_includes_iff
           split: if_splits sum.splits prod.splits option.splits)

text \<open>
  C3 (phase-completion guard). The first revision of \<^verbatim>\<open>handleInformationGathering\<close> tests
  the output for \<^verbatim>\<open>FINAL SUMMARY\<close>, without the hash marks its own prompt asks the model
  to write: an output that says \<^verbatim>\<open>FINAL SUMMARY\<close> and does not contain the sentinel
  \<^verbatim>\<open>## FINAL SUMMARY ##\<close> is reported complete.
\<close>

theorem sentinel_guard_first_revision:
  "handleInformationGathering_p0
     (world None (Inr []) ([], None) (Http True 200 (Data (Some [Text ''Your FINAL SUMMARY: a deck'']))))
     ''that is all'' ''User: hi'' =
     ([Gateway (Fetch ''User: hi\<newline>User: that is all\<newline>'')],
      Inr (blank\<lparr>r_text := Some ''Your FINAL SUMMARY: a deck'',
                 r_conversationContext :=
                   Some ''User: hi\<newline>User: that is all\<newline>\<newline>AI: Your FINAL SUMMARY: a deck\<newline>'',
                 r_isComplete := Some True,
                 r_projectInformation := Some ''Your FINAL SUMMARY: a deck''\<rparr>))
   \<and> \<not> js_includes ''Your FINAL SUMMARY: a deck'' ''## FINAL SUMMARY ##''"
  by (simp add: handleInformationGathering_p0_def fetchGeminiResponse_def world_def Let_def)


section \<open>The returned conversation history\<close>











section \<open>Catalog reads\<close>

lemma readCatalog_unavailable:
  "readFromFile env ''tool_information.txt'' = None \<or> readFromFile env ''product_urls.txt'' = None
   \<Longrightarrow> snd (readCatalog env) = None"
  by (auto simp: readCatalog_def split: option.splits)

lemma readCatalog_no_gateway: "Gateway call \<notin> set (fst (readCatalog env))"
  by (auto simp: readCatalog_def split: option.splits)

lemma recommendation_unavailable:
  assumes "snd (readCatalog env) = None"
  shows "handleToolRecommendation_p1 env info cm p =
           (fst (readCatalog env), Inr (blank\<lparr>r_text := Some catalogError, r_error := Some True\<rparr>))"
    and "streamToolRecommendation_p1 env info cm p =
           (fst (readCatalog env),
            [blank\<lparr>r_error := Some True, r_text := Some catalogError, r_done := Some True\<rparr>])"
    and "handleToolRecommendation_p2 env info pr =
           (fst (readCatalog env), Inr (blank\<lparr>r_text := Some catalogError, r_error := Some True\<rparr>))"
    and "streamToolRecommendation_p2 env info pr =
           (fst (readCatalog env),
            [blank\<lparr>r_error := Some True, r_text := Some catalogError, r_done := Some True\<rparr>])"
  using assms
  by (cases "readCatalog env";
      simp add: handleToolRecommendation_p1_def streamToolRecommendation_p1_def
        handleToolRecommendation_p2_def streamToolRecommendation_p2_def)+

lemma gathering_reads_nothing_p1:
  "ReadFile name \<notin> set (fst (handleInformationGathering_p1 env u h cm p))"
  "ReadFile name \<notin> set (fst (streamInformationGathering_p1 env u h cm p))"
  by (auto simp: handleInformationGathering_p1_def streamInformationGathering_p1_def Let_def
           split: if_splits sum.splits prod.splits option.splits)

lemma gathering_reads_nothing_p2:
  "ReadFile name \<notin> set (fst (handleInformationGathering_p2 env u h))"
  "ReadFile name \<notin> set (fst (streamInformationGathering_p2 env u h))"
  by (auto simp: handleInformationGathering_p2_def streamInformationGathering_p2_def Let_def
           split: if_splits sum.splits prod.splits option.splits)

lemma gathering_ignores_files_p1:
  "handleInformationGathering_p1 (env\<lparr>fs_readFile := files\<rparr>) u h cm p =
     handleInformationGathering_p1 env u h cm p"
  "streamInformationGathering_p1 (env\<lparr>fs_readFile := files\<rparr>) u h cm p =
     streamInformationGathering_p1 env u h cm p"
  by (simp_all add: handleInformationGathering_p1_def streamInformationGathering_p1_def Let_def
        cong: sum.case_cong option.case_cong prod.case_cong if_cong)

lemma gathering_ignores_files_p2:
  "handleInformationGathering_p2 (env\<lparr>fs_readFile := files\<rparr>) u h =
     handleInformationGathering_p2 env u h"
  "streamInformationGathering_p2 (env\<lparr>fs_readFile := files\<rparr>) u h =
     streamInformationGathering_p2 env u h"
  by (simp_all add: handleInformationGathering_p2_def streamInformationGathering_p2_def Let_def
        cong: sum.case_cong option.case_cong prod.case_cong if_cong)

lemma POST_gathering_p1:
  assumes "b_phase body = ''gathering''"
  shows "ReadFile name \<notin> set (fst (POST_p1 env body))"
    and "POST_p1 (env\<lparr>fs_readFile := files\<rparr>) body = POST_p1 env body"
  using assms gathering_reads_nothing_p1 [of name env "b_userInput body" "b_conversationHistory body"
      "b_continuationMode body" "b_partialResponse body"]
  by (auto simp: POST_p1_def gathering_ignores_files_p1 split: prod.splits sum.splits)

lemma POST_gathering_p2:
  assumes "b2_phase body = ''gathering''"
  shows "ReadFile name \<notin> set (fst (POST_p2 env body))"
    and "POST_p2 (env\<lparr>fs_readFile := files\<rparr>) body = POST_p2 env body"
  using assms gathering_reads_nothing_p2 [of name env "b2_userInput body" "b2_conversationHistory body"]
  by (auto simp: POST_p2_def gathering_ignores_files_p2 split: prod.splits sum.splits)

text \<open>
  C6 (catalog failure). In both revisions that read two catalog files: when either read
  fails, the recommendation handler returns the error object with the "try again later"
  text, and the recommendation stream consists of that one record (marked done); the
  only effects are the file reads, so the gateway is not called. A request in the
  gathering phase reads no file, and its whole response is the same whatever the file
  system holds.
\<close>

theorem catalog_failure_handling:
  "(readFromFile env ''tool_information.txt'' = None \<or> readFromFile env ''product_urls.txt'' = None
    \<longrightarrow> handleToolRecommendation_p2 env info pr =
          (fst (readCatalog env),
           Inr (blank\<lparr>r_text := Some ''Error: Unable to access tool information or product URLs. Please try again later.'',
                      r_error := Some True\<rparr>))
       \<and> streamToolRecommendation_p2 env info pr =
          (fst (readCatalog env),
           [blank\<lparr>r_error := Some True,
                  r_text := Some ''Error: Unable to access tool information or product URLs. Please try again later.'',
                  r_done := Some True\<rparr>])
       \<and> handleToolRecommendation_p1 env info cm p =
          (fst (readCatalog env),
           Inr (blank\<lparr>r_text := Some ''Error: Unable to access tool information or product URLs. Please try again later.'',
                      r_error := Some True\<rparr>))
       \<and> streamToolRecommendation_p1 env info cm p =
          (fst (readCatalog env),
           [blank\<lparr>r_error := Some True,
                  r_text := Some ''Error: Unable to access tool information or product URLs. Please try again later.'',
                  r_done := Some True\<rparr>])
       \<and> (\<forall>call. Gateway call \<notin> set (fst (readCatalog env))))
   \<and> (b2_phase body2 = ''gathering''
    \<longrightarrow> (\<forall>name. ReadFile name \<notin> set (fst (POST_p2 env body2)))
       \<and> (\<forall>files. POST_p2 (env\<lparr>fs_readFile := files\<rparr>) body2 = POST_p2 env body2))
   \<and> (b_phase body1 = ''gathering''
    \<longrightarrow> (\<forall>name. ReadFile name \<notin> set (fst (POST_p1 env body1)))
       \<and> (\<forall>files. POST_p1 (env\<lparr>fs_readFile := files\<rparr>) body1 = POST_p1 env body1))"
proof (intro conjI impI allI)
  assume "readFromFile env ''tool_information.txt'' = None \<or> readFromFile env ''product_urls.txt'' = None"
  then have n: "snd (readCatalog env) = None" by (rule readCatalog_unavailable)
  note r = recommendation_unavailable [OF n, unfolded catalogError_def]
  show "handleToolRecommendation_p2 env info pr =
          (fst (readCatalog env),
           Inr (blank\<lparr>r_text := Some ''Error: Unable to access tool information or product URLs. Please try again later.'',
                      r_error := Some True\<rparr>))" by (rule r)
  show "streamToolRecommendation_p2 env info pr =
          (fst (readCatalog env),
           [blank\<lparr>r_error := Some True,
                  r_text := Some ''Error: Unable to access tool information or product URLs. Please try again later.'',
                  r_done := Some True\<rparr>])" by (rule r)
  show "handleToolRecommendation_p1 env info cm p =
          (fst (readCatalog env),
           Inr (blank\<lparr>r_text := Some ''Error: Unable to access tool information or product URLs. Please try again later.'',
                      r_error := Some True\<rparr>))" by (rule r)
  show "streamToolRecommendation_p1 env info cm p =
          (fst (readCatalog env),
           [blank\<lparr>r_error := Some True,
                  r_text := Some ''Error: Unable to access tool information or product URLs. Please try again later.'',
                  r_done := Some True\<rparr>])" by (rule r)
next
  fix call show "Gateway call \<notin> set (fst (readCatalog env))" by (rule readCatalog_no_gateway)
next
  fix name assume "b2_phase body2 = ''gathering''"
  then show "ReadFile name \<notin> set (fst (POST_p2 env body2))" by (rule POST_gathering_p2)
next
  fix files assume "b2_phase body2 = ''gathering''"
  then show "POST_p2 (env\<lparr>fs_readFile := files\<rparr>) body2 = POST_p2 env body2" by (rule POST_gathering_p2)
next
  fix name assume "b_phase body1 = ''gathering''"
  then show "ReadFile name \<notin> set (fst (POST_p1 env body1))" by (rule POST_gathering_p1)
next
  fix files assume "b_phase body1 = ''gathering''"
  then show "POST_p1 (env\<lparr>fs_readFile := files\<rparr>) body1 = POST_p1 env body1" by (rule POST_gathering_p1)
qed

theorem catalog_failure_handling_witness:
  "handleToolRecommendation_p2 (world None (Inr ''x'') ([''x''], None) (Rejected [])) ''info'' None =
     ([ReadFile ''tool_information.txt''], Inr (blank\<lparr>r_text := Some ''Error: Unable to access tool information or product URLs. Please try again later.'', r_error := Some True\<rparr>))
   \<and> streamToolRecommendation_p2 (world None (Inr ''x'') ([''x''], None) (Rejected [])) ''info'' None =
     ([ReadFile ''tool_information.txt''],
      [blank\<lparr>r_error := Some True, r_text := Some ''Error: Unable to access tool information or product URLs. Please try again later.'', r_done := Some True\<rparr>])
   \<and> handleToolRecommendation_p1 (world None (Inr ''x'') ([''x''], None) (Rejected [])) ''info'' False [] =
     ([ReadFile ''tool_information.txt''], Inr (blank\<lparr>r_text := Some ''Error: Unable to access tool information or product URLs. Please try again later.'', r_error := Some True\<rparr>))
   \<and> streamToolRecommendation_p1 (world None (Inr ''x'') ([''x''], None) (Rejected [])) ''info'' False [] =
     ([ReadFile ''tool_information.txt''],
      [blank\<lparr>r_error := Some True, r_text := Some ''Error: Unable to access tool information or product URLs. Please try again later.'', r_done := Some True\<rparr>])
   \<and> ReadFile ''tool_information.txt'' \<notin> set (fst (POST_p2 (world None (Inr ''x'') ([''x''], None) (Rejected []))
         \<lparr>b2_phase = ''gathering'', b2_userInput = ''hi'',
          b2_conversationHistory = [\<lparr>role = ''user'', parts = [''q'']\<rparr>],
          b2_projectInformation = [], b2_streaming = True, b2_partialResponse = None\<rparr>))
   \<and> POST_p2 ((world None (Inr ''x'') ([''x''], None) (Rejected []))\<lparr>fs_readFile := (\<lambda>_. Some ''tools'')\<rparr>)
         \<lparr>b2_phase = ''gathering'', b2_userInput = ''hi'',
          b2_conversationHistory = [\<lparr>role = ''user'', parts = [''q'']\<rparr>],
          b2_projectInformation = [], b2_streaming = True, b2_partialResponse = None\<rparr> =
       POST_p2 (world None (Inr ''x'') ([''x''], None) (Rejected []))
         \<lparr>b2_phase = ''gathering'', b2_userInput = ''hi'',
          b2_conversationHistory = [\<lparr>role = ''user'', parts = [''q'']\<rparr>],
          b2_projectInformation = [], b2_streaming = True, b2_partialResponse = None\<rparr>
   \<and> ReadFile ''tool_information.txt'' \<notin> set (fst (POST_p1 (world None (Inr ''x'') ([''x''], None) (Rejected []))
         \<lparr>b_phase = ''gathering'', b_userInput = ''hi'', b_conversationHistory = [],
          b_projectInformation = [], b_streaming = False, b_continuationMode = False,
          b_partialResponse = []\<rparr>))
   \<and> POST_p1 ((world None (Inr ''x'') ([''x''], None) (Rejected []))\<lparr>fs_readFile := (\<lambda>_. Some ''tools'')\<rparr>)
         \<lparr>b_phase = ''gathering'', b_userInput = ''hi'', b_conversationHistory = [],
          b_projectInformation = [], b_streaming = False, b_continuationMode = False,
          b_partialResponse = []\<rparr> =
       POST_p1 (world None (Inr ''x'') ([''x''], None) (Rejected []))
         \<lparr>b_phase = ''gathering'', b_userInput = ''hi'', b_conversationHistory = [],
          b_projectInformation = [], b_streaming = False, b_continuationMode = False,
          b_partialResponse = []\<rparr>"
proof -
  let ?env = "world None (Inr ''x'') ([''x''], None) (Rejected [])"
  let ?b2 = "\<lparr>b2_phase = ''gathering'', b2_userInput = ''hi'',
          b2_conversationHistory = [\<lparr>role = ''user'', parts = [''q'']\<rparr>],
          b2_projectInformation = [], b2_streaming = True, b2_partialResponse = None\<rparr>"
  let ?b1 = "\<lparr>b_phase = ''gathering'', b_userInput = ''hi'', b_conversationHistory = [],
          b_projectInformation = [], b_streaming = False, b_continuationMode = False,
          b_partialResponse = []\<rparr>"
  have rf: "readFromFile ?env ''tool_information.txt'' = None
              \<or> readFromFile ?env ''product_urls.txt'' = None"
    by (simp add: readFromFile_def world_def)
  have rc: "fst (readCatalog ?env) = [ReadFile ''tool_information.txt'']"
    by (simp add: readCatalog_def readFromFile_def world_def)
  have p2: "b2_phase ?b2 = ''gathering''" and p1: "b_phase ?b1 = ''gathering''"
    by simp_all
  note t = catalog_failure_handling [of ?env "''info''" None False "[]" ?b2 ?b1]
  note t1 = t [THEN conjunct1, THEN mp, OF rf, unfolded rc]
  note t2 = t [THEN conjunct2, THEN conjunct1, THEN mp, OF p2]
  note t3 = t [THEN conjunct2, THEN conjunct2, THEN mp, OF p1]
  from t1 t2 t3 show ?thesis by blast
qed


section \<open>Failures of the gateway\<close>

subsection \<open>The first revision: failures are caught and answered as text\<close>

lemma fetchGeminiResponse_failure:
  "upstreamFailure (fetch env content) \<Longrightarrow>
   fetchGeminiResponse env content =
     ([Gateway (Fetch content)],
      if textless (fetch env content) then None
      else Some ''Error generating response. Please try again.'')"
  by (cases "fetch env content" rule: upstreamFailure.cases)
     (simp_all add: fetchGeminiResponse_def)

lemma fallback_not_summary:
  "\<not> js_includes ''Error generating response. Please try again.'' ''FINAL SUMMARY''"
  by simp

lemma fetchGeminiResponse_pair:
  "fetchGeminiResponse env content =
     ([Gateway (Fetch content)], snd (fetchGeminiResponse env content))"
  by (simp add: fetchGeminiResponse_def)

lemma effects_handle_p0:
  "fst (handleInformationGathering_p0 env u c) =
     [Gateway (Fetch
        (if c = [] then
           ''System:\<newline>'' @ IMPROVED_PROMPT_p0 @ ''\<newline>\<newline>'' @ ''User: ''
           @ (if u = [] then ''Hello! I'd like to discuss my project.'' else u) @ ''\<newline>''
         else c @ ''\<newline>User: '' @ u @ ''\<newline>''))]"
  unfolding handleInformationGathering_p0_def Let_def
  by (subst fetchGeminiResponse_pair) (simp split: option.splits)

lemma failure_handle_p0:
  assumes "Gateway (Fetch content) \<in> set (fst (handleInformationGathering_p0 env u c))"
    and "upstreamFailure (fetch env content)"
  shows "handleInformationGathering_p0 env u c =
     ([Gateway (Fetch content)],
      if textless (fetch env content) then
        Inl ''Cannot read properties of undefined (reading 'includes')''
      else
        Inr (blank\<lparr>r_text := Some ''Error generating response. Please try again.'',
                   r_conversationContext :=
                     Some (content @ ''\<newline>AI: '' @ ''Error generating response. Please try again.'' @ ''\<newline>''),
                   r_isComplete := Some False,
                   r_projectInformation := Some []\<rparr>))"
proof -
  define sent where "sent =
     (if c = [] then
        ''System:\<newline>'' @ IMPROVED_PROMPT_p0 @ ''\<newline>\<newline>'' @ ''User: ''
        @ (if u = [] then ''Hello! I'd like to discuss my project.'' else u) @ ''\<newline>''
      else c @ ''\<newline>User: '' @ u @ ''\<newline>'')"
  have "fst (handleInformationGathering_p0 env u c) = [Gateway (Fetch sent)]"
    unfolding sent_def by (rule effects_handle_p0)
  with assms(1) have eq: "content = sent" by simp
  with assms(2) have f: "fetchGeminiResponse env sent =
     ([Gateway (Fetch sent)],
      if textless (fetch env sent) then None
      else Some ''Error generating response. Please try again.'')"
    by (simp add: fetchGeminiResponse_failure)
  show ?thesis
    unfolding handleInformationGathering_p0_def sent_def [symmetric] Let_def eq
    using fallback_not_summary by (simp add: f)
qed

lemma failure_recommend_p0:
  assumes "Gateway (Fetch content) \<in> set (fst (handleToolRecommendation_p0 env info))"
    and "upstreamFailure (fetch env content)"
  shows "handleToolRecommendation_p0 env info =
     ([ReadFile ''tool_information.txt'', Gateway (Fetch content)],
      Inr (blank\<lparr>r_text := (if textless (fetch env content) then None
                              else Some ''Error generating response. Please try again.''),
                 r_error := Some False\<rparr>))"
proof (cases "readFromFile env ''tool_information.txt''")
  case None
  with assms(1) show ?thesis by (simp add: handleToolRecommendation_p0_def)
next
  case (Some toolInformation)
  define prompt where "prompt =
    js_replace (js_replace PROMPT_TEMPLATE_p0 ''{project_information}'' info)
      ''{tool_information}'' toolInformation"
  have h: "handleToolRecommendation_p0 env info =
      (ReadFile ''tool_information.txt'' # fst (fetchGeminiResponse env prompt),
       Inr (blank\<lparr>r_text := snd (fetchGeminiResponse env prompt), r_error := Some False\<rparr>))"
    by (simp add: handleToolRecommendation_p0_def Some prompt_def Let_def split: prod.splits)
  have "fst (fetchGeminiResponse env prompt) = [Gateway (Fetch prompt)]"
    by (simp add: fetchGeminiResponse_def)
  with assms(1) h have eq: "content = prompt" by simp
  with assms(2) have f: "fetchGeminiResponse env prompt =
     ([Gateway (Fetch prompt)],
      if textless (fetch env prompt) then None
      else Some ''Error generating response. Please try again.'')"
    by (simp add: fetchGeminiResponse_failure)
  show ?thesis unfolding h eq by (simp add: f)
qed

lemma failure_POST_p0:
  assumes "Gateway (Fetch content) \<in> set (fst (POST_p0 env body))"
    and "upstreamFailure (fetch env content)"
  shows "last (fst (POST_p0 env body)) = Gateway (Fetch content)"
    and "count_list (fst (POST_p0 env body)) (Gateway (Fetch content)) = 1"
    and "snd (POST_p0 env body) =
       (if b0_phase body = ''gathering'' then
          (if textless (fetch env content) then
             Json 500 (blank\<lparr>r_error := Some True,
                        r_text := Some ''An error occurred while processing your request.''\<rparr>)
           else
             Json 200 (blank\<lparr>r_text := Some ''Error generating response. Please try again.'',
                        r_conversationContext :=
                          Some (content @ ''\<newline>AI: '' @ ''Error generating response. Please try again.'' @ ''\<newline>''),
                        r_isComplete := Some False,
                        r_projectInformation := Some []\<rparr>))
        else
          Json 200 (blank\<lparr>r_text := (if textless (fetch env content) then None
                                       else Some ''Error generating response. Please try again.''),
                         r_error := Some False\<rparr>))"
proof -
  consider (g) "b0_phase body = ''gathering''"
    | (r) "b0_phase body \<noteq> ''gathering''" "b0_phase body = ''recommendation''"
    | (o) "b0_phase body \<noteq> ''gathering''" "b0_phase body \<noteq> ''recommendation''"
    by blast
  then have "last (fst (POST_p0 env body)) = Gateway (Fetch content)
    \<and> count_list (fst (POST_p0 env body)) (Gateway (Fetch content)) = 1
    \<and> snd (POST_p0 env body) =
       (if b0_phase body = ''gathering'' then
          (if textless (fetch env content) then
             Json 500 (blank\<lparr>r_error := Some True,
                        r_text := Some ''An error occurred while processing your request.''\<rparr>)
           else
             Json 200 (blank\<lparr>r_text := Some ''Error generating response. Please try again.'',
                        r_conversationContext :=
                          Some (content @ ''\<newline>AI: '' @ ''Error generating response. Please try again.'' @ ''\<newline>''),
                        r_isComplete := Some False,
                        r_projectInformation := Some []\<rparr>))
        else
          Json 200 (blank\<lparr>r_text := (if textless (fetch env content) then None
                                       else Some ''Error generating response. Please try again.''),
                         r_error := Some False\<rparr>))"
  proof cases
    case g
    have m: "Gateway (Fetch content) \<in> set (fst (handleInformationGathering_p0 env (b0_userInput body) (b0_conversationContext body)))"
      using assms(1) g by (simp add: POST_p0_def split: prod.splits sum.splits)
    show ?thesis
      using g by (simp add: POST_p0_def failure_handle_p0 [OF m assms(2)])
  next
    case r
    have m: "Gateway (Fetch content) \<in> set (fst (handleToolRecommendation_p0 env (b0_projectInformation body)))"
      using assms(1) r by (simp add: POST_p0_def split: prod.splits sum.splits)
    show ?thesis
      using r by (simp add: POST_p0_def failure_recommend_p0 [OF m assms(2)])
  next
    case o
    with assms(1) show ?thesis by (simp add: POST_p0_def)
  qed
  then show "last (fst (POST_p0 env body)) = Gateway (Fetch content)"
    and "count_list (fst (POST_p0 env body)) (Gateway (Fetch content)) = 1"
    and "snd (POST_p0 env body) =
       (if b0_phase body = ''gathering'' then
          (if textless (fetch env content) then
             Json 500 (blank\<lparr>r_error := Some True,
                        r_text := Some ''An error occurred while processing your request.''\<rparr>)
           else
             Json 200 (blank\<lparr>r_text := Some ''Error generating response. Please try again.'',
                        r_conversationContext :=
                          Some (content @ ''\<newline>AI: '' @ ''Error generating response. Please try again.'' @ ''\<newline>''),
                        r_isComplete := Some False,
                        r_projectInformation := Some []\<rparr>))
        else
          Json 200 (blank\<lparr>r_text := (if textless (fetch env content) then None
                                       else Some ''Error generating response. Please try again.''),
                         r_error := Some False\<rparr>))"
    by simp_all
qed

subsection \<open>The SDK revisions: failures are raised and answered as errors\<close>

lemma once_at_end: "x \<notin> set pre \<Longrightarrow> last (pre @ [x]) = x \<and> count_list (pre @ [x]) x = 1"
  by (simp add: count_list_0_iff)

lemma chunk_records:
  "list_all chunkOnly (map (\<lambda>chunkText. blank\<lparr>r_chunk := Some chunkText, r_done := Some False\<rparr>) fragments)"
  "list_all chunkOnly (map (\<lambda>chunkText. blank\<lparr>r_chunk := Some chunkText, r_done := Some False,
                                                r_continuation := Some cm\<rparr>) fragments)"
  by (simp_all add: list_all_iff chunkOnly_def)

lemma failure_handle_p1:
  assumes "Gateway call \<in> set (fst (handleInformationGathering_p1 env u h cm p))"
    and "gatewayFails env call e"
  shows "handleInformationGathering_p1 env u h cm p = ([Gateway call], Inl e)"
  using assms
  by (auto simp: handleInformationGathering_p1_def Let_def
           split: if_splits sum.splits prod.splits option.splits)

lemma failure_recommend_p1:
  assumes "Gateway call \<in> set (fst (handleToolRecommendation_p1 env info cm p))"
    and "gatewayFails env call e"
  shows "handleToolRecommendation_p1 env info cm p = (fst (readCatalog env) @ [Gateway call], Inl e)"
  using assms readCatalog_no_gateway [of call env]
  by (cases "readCatalog env")
     (auto simp: handleToolRecommendation_p1_def Let_def
           split: if_splits sum.splits prod.splits option.splits)

lemma failure_stream_p1:
  assumes "Gateway call \<in> set (fst (streamInformationGathering_p1 env u h cm p))"
    and "gatewayFails env call e"
  shows "\<exists>pre. streamInformationGathering_p1 env u h cm p = ([Gateway call], pre @ [streamError e])
           \<and> list_all chunkOnly pre"
  using assms chunk_records
  by (auto simp: streamInformationGathering_p1_def Let_def pump_eq
           split: if_splits sum.splits prod.splits option.splits)

lemma failure_stream_recommend_p1:
  assumes "Gateway call \<in> set (fst (streamToolRecommendation_p1 env info cm p))"
    and "gatewayFails env call e"
  shows "\<exists>pre. streamToolRecommendation_p1 env info cm p =
                 (fst (readCatalog env) @ [Gateway call], pre @ [streamError e])
           \<and> list_all chunkOnly pre"
  using assms readCatalog_no_gateway [of call env] chunk_records
  by (cases "readCatalog env")
     (auto simp: streamToolRecommendation_p1_def Let_def pump_eq
           split: if_splits sum.splits prod.splits option.splits)

lemma failure_POST_p1:
  assumes "Gateway call \<in> set (fst (POST_p1 env body))" and "gatewayFails env call e"
  shows "last (fst (POST_p1 env body)) = Gateway call
         \<and> count_list (fst (POST_p1 env body)) (Gateway call) = 1
         \<and> (if b_streaming body then
              (\<exists>pre. snd (POST_p1 env body) = Stream (pre @ [streamError e]) \<and> list_all chunkOnly pre)
            else snd (POST_p1 env body) = requestError e)"
proof -
  consider (sg) "b_streaming body" "b_phase body = ''gathering''"
    | (sr) "b_streaming body" "b_phase body \<noteq> ''gathering''" "b_phase body = ''recommendation''"
    | (g) "\<not> b_streaming body" "b_phase body = ''gathering''"
    | (r) "\<not> b_streaming body" "b_phase body \<noteq> ''gathering''" "b_phase body = ''recommendation''"
    | (o) "b_phase body \<noteq> ''gathering''" "b_phase body \<noteq> ''recommendation''"
    by blast
  then show ?thesis
  proof cases
    case sg
    have m: "Gateway call \<in> set (fst (streamInformationGathering_p1 env (b_userInput body)
        (b_conversationHistory body) (b_continuationMode body) (b_partialResponse body)))"
      using assms(1) sg by (simp add: POST_p1_def split: prod.splits)
    from failure_stream_p1 [OF m assms(2)] sg show ?thesis
      by (auto simp: POST_p1_def)
  next
    case sr
    have m: "Gateway call \<in> set (fst (streamToolRecommendation_p1 env (b_projectInformation body)
        (b_continuationMode body) (b_partialResponse body)))"
      using assms(1) sr by (simp add: POST_p1_def split: prod.splits)
    from failure_stream_recommend_p1 [OF m assms(2)] sr
      once_at_end [OF readCatalog_no_gateway [of call env]]
    show ?thesis by (auto simp: POST_p1_def)
  next
    case g
    have m: "Gateway call \<in> set (fst (handleInformationGathering_p1 env (b_userInput body)
        (b_conversationHistory body) (b_continuationMode body) (b_partialResponse body)))"
      using assms(1) g by (simp add: POST_p1_def split: prod.splits sum.splits)
    from failure_handle_p1 [OF m assms(2)] g show ?thesis
      by (simp add: POST_p1_def)
  next
    case r
    have m: "Gateway call \<in> set (fst (handleToolRecommendation_p1 env (b_projectInformation body)
        (b_continuationMode body) (b_partialResponse body)))"
      using assms(1) r by (simp add: POST_p1_def split: prod.splits sum.splits)
    from failure_recommend_p1 [OF m assms(2)] r
      once_at_end [OF readCatalog_no_gateway [of call env]]
    show ?thesis by (simp add: POST_p1_def)
  next
    case o
    with assms(1) show ?thesis by (cases "b_streaming body") (simp_all add: POST_p1_def)
  qed
qed

lemma failure_handle_p2:
  assumes "Gateway call \<in> set (fst (handleInformationGathering_p2 env u h))"
    and "gatewayFails env call e"
  shows "last (fst (handleInformationGathering_p2 env u h)) = Gateway call
         \<and> count_list (fst (handleInformationGathering_p2 env u h)) (Gateway call) = 1
         \<and> snd (handleInformationGathering_p2 env u h) = Inl e"
  using assms
  by (auto simp: handleInformationGathering_p2_def Let_def
           split: if_splits sum.splits prod.splits option.splits)

lemma failure_recommend_p2:
  assumes "Gateway call \<in> set (fst (handleToolRecommendation_p2 env info pr))"
    and "gatewayFails env call e"
  shows "handleToolRecommendation_p2 env info pr = (fst (readCatalog env) @ [Gateway call], Inl e)"
  using assms readCatalog_no_gateway [of call env]
  by (cases "readCatalog env")
     (auto simp: handleToolRecommendation_p2_def Let_def
           split: if_splits sum.splits prod.splits option.splits)

lemma failure_stream_p2:
  assumes "Gateway call \<in> set (fst (streamInformationGathering_p2 env u h))"
    and "gatewayFails env call e"
  shows "last (fst (streamInformationGathering_p2 env u h)) = Gateway call
         \<and> count_list (fst (streamInformationGathering_p2 env u h)) (Gateway call) = 1
         \<and> (\<exists>pre. snd (streamInformationGathering_p2 env u h) = pre @ [streamError e]
                \<and> list_all chunkOnly pre)"
  using assms chunk_records
  by (auto simp: streamInformationGathering_p2_def Let_def pump_eq
           split: if_splits sum.splits prod.splits option.splits)

lemma failure_stream_recommend_p2:
  assumes "Gateway call \<in> set (fst (streamToolRecommendation_p2 env info pr))"
    and "gatewayFails env call e"
  shows "\<exists>pre. streamToolRecommendation_p2 env info pr =
                 (fst (readCatalog env) @ [Gateway call], pre @ [streamError e])
           \<and> list_all chunkOnly pre"
  using assms readCatalog_no_gateway [of call env] chunk_records
  by (cases "readCatalog env")
     (auto simp: streamToolRecommendation_p2_def Let_def pump_eq
           split: if_splits sum.splits prod.splits option.splits)

lemma failure_POST_p2:
  assumes "Gateway call \<in> set (fst (POST_p2 env body))" and "gatewayFails env call e"
  shows "last (fst (POST_p2 env body)) = Gateway call
         \<and> count_list (fst (POST_p2 env body)) (Gateway call) = 1
         \<and> (if b2_streaming body then
              (\<exists>pre. snd (POST_p2 env body) = Stream (pre @ [streamError e]) \<and> list_all chunkOnly pre)
            else snd (POST_p2 env body) = requestError e)"
proof -
  consider (sg) "b2_streaming body" "b2_phase body = ''gathering''"
    | (sr) "b2_streaming body" "b2_phase body \<noteq> ''gathering''" "b2_phase body = ''recommendation''"
    | (g) "\<not> b2_streaming body" "b2_phase body = ''gathering''"
    | (r) "\<not> b2_streaming body" "b2_phase body \<noteq> ''gathering''" "b2_phase body = ''recommendation''"
    | (o) "b2_phase body \<noteq> ''gathering''" "b2_phase body \<noteq> ''recommendation''"
    by blast
  then show ?thesis
  proof cases
    case sg
    have m: "Gateway call \<in> set (fst (streamInformationGathering_p2 env (b2_userInput body)
        (b2_conversationHistory body)))"
      using assms(1) sg by (simp add: POST_p2_def split: prod.splits)
    from failure_stream_p2 [OF m assms(2)] sg show ?thesis
      by (auto simp: POST_p2_def split: prod.splits)
  next
    case sr
    have m: "Gateway call \<in> set (fst (streamToolRecommendation_p2 env (b2_projectInformation body)
        (b2_partialResponse body)))"
      using assms(1) sr by (simp add: POST_p2_def split: prod.splits)
    from failure_stream_recommend_p2 [OF m assms(2)] sr
      once_at_end [OF readCatalog_no_gateway [of call env]]
    show ?thesis by (auto simp: POST_p2_def)
  next
    case g
    have m: "Gateway call \<in> set (fst (handleInformationGathering_p2 env (b2_userInput body)
        (b2_conversationHistory body)))"
      using assms(1) g by (simp add: POST_p2_def split: prod.splits sum.splits)
    from failure_handle_p2 [OF m assms(2)] g show ?thesis
      by (auto simp: POST_p2_def split: prod.splits sum.splits)
  next
    case r
    have m: "Gateway call \<in> set (fst (handleToolRecommendation_p2 env (b2_projectInformation body)
        (b2_partialResponse body)))"
      using assms(1) r by (simp add: POST_p2_def split: prod.splits sum.splits)
    from failure_recommend_p2 [OF m assms(2)] r
      once_at_end [OF readCatalog_no_gateway [of call env]]
    show ?thesis by (simp add: POST_p2_def)
  next
    case o
    with assms(1) show ?thesis by (cases "b2_streaming body") (simp_all add: POST_p2_def)
  qed
qed

subsection \<open>The client on a failed stream\<close>

lemma updateResponseContent_fields [simp]:
  "c_phase (updateResponseContent k chunk st) = c_phase st"
  "c_conversationHistory (updateResponseContent k chunk st) = c_conversationHistory st"
  "c_projectInformation (updateResponseContent k chunk st) = c_projectInformation st"
  "c_requests (updateResponseContent k chunk st) = c_requests st"
  "c_scheduled (updateResponseContent k chunk st) = c_scheduled st"
  "c_isStreaming (updateResponseContent k chunk st) = c_isStreaming st"
  "c_currentRequest (updateResponseContent k chunk st) = c_currentRequest st"
  "c_rendered (updateResponseContent k chunk st) = c_rendered st"
  "c_stale (updateResponseContent k chunk st) = c_stale st"
  "c_response (updateResponseContent k chunk st) = c_response st @ chunk"
  "c_timer (updateResponseContent k chunk st) = (if c_isStreaming st then Some k else None)"
  by (simp_all add: updateResponseContent_def resetTimeoutTimer_def clearTimeoutTimer_def)

text \<open>
  Reading records touches two refs of the component only, the tracked text and the
  timer, and of the request the two locals.
\<close>

lemma forChunks_client:
  "c_phase (snd (forChunks chunks (q, st))) = c_phase st
   \<and> c_conversationHistory (snd (forChunks chunks (q, st))) = c_conversationHistory st
   \<and> c_projectInformation (snd (forChunks chunks (q, st))) = c_projectInformation st
   \<and> c_requests (snd (forChunks chunks (q, st))) = c_requests st
   \<and> c_scheduled (snd (forChunks chunks (q, st))) = c_scheduled st
   \<and> c_isStreaming (snd (forChunks chunks (q, st))) = c_isStreaming st
   \<and> c_currentRequest (snd (forChunks chunks (q, st))) = c_currentRequest st
   \<and> c_rendered (snd (forChunks chunks (q, st))) = c_rendered st
   \<and> c_stale (snd (forChunks chunks (q, st))) = c_stale st"
  by (induction chunks "(q, st)" arbitrary: q st rule: forChunks.induct)
     (simp_all add: Let_def)

lemma forChunks_request:
  "q_kind (fst (forChunks chunks (q, st))) = q_kind q
   \<and> q_captured (fst (forChunks chunks (q, st))) = q_captured q
   \<and> q_posted (fst (forChunks chunks (q, st))) = q_posted q
   \<and> q_stage (fst (forChunks chunks (q, st))) = q_stage q"
  by (induction chunks "(q, st)" arbitrary: q st rule: forChunks.induct)
     (simp_all add: Let_def)

lemma forChunks_timer:
  "c_isStreaming st \<Longrightarrow> c_timer st = Some (q_captured q)
   \<Longrightarrow> c_timer (snd (forChunks chunks (q, st))) = Some (q_captured q)"
  by (induction chunks "(q, st)" arbitrary: q st rule: forChunks.induct)
     (simp_all add: Let_def)

text \<open>Records that are not done, or are errors, leave \<^verbatim>\<open>completeData\<close> as it was.\<close>

lemma forChunks_no_final:
  "\<forall>r \<in> set chunks. \<forall>data. r = Some data \<longrightarrow> r_error data = Some True \<or> r_done data \<noteq> Some True
   \<Longrightarrow> q_completeData (fst (forChunks chunks (q, st))) = q_completeData q"
  by (induction chunks "(q, st)" arbitrary: q st rule: forChunks.induct)
     (auto simp: Let_def)

lemma Read_step:
  assumes "n < length (c_requests s)" and "q_stage (c_requests s ! n) = Reading"
  shows "client_step s (Read n chunks) =
     (snd (forChunks chunks (c_requests s ! n, s)))
       \<lparr>c_requests := (c_requests s)[n := fst (forChunks chunks (c_requests s ! n, s))]\<rparr>"
  using assms forChunks_client [of chunks "c_requests s ! n" s]
  by (simp add: case_prod_beta)

text \<open>
  While the request \<open>n\<close> is being read and no record that is done without being an error
  arrives, the state variables stay as they are, the request has no final record, and a
  timer that is armed for it stays armed.
\<close>

lemma reads_keep:
  assumes "\<forall>chunks \<in> set reads. \<forall>r \<in> set chunks. \<forall>data. r = Some data \<longrightarrow>
             r_error data = Some True \<or> r_done data \<noteq> Some True"
    and "n < length (c_requests s)" and "q_stage (c_requests s ! n) = Reading"
    and "q_completeData (c_requests s ! n) = None"
  shows "n < length (c_requests (foldl client_step s (map (Read n) reads)))
     \<and> q_stage (c_requests (foldl client_step s (map (Read n) reads)) ! n) = Reading
     \<and> q_completeData (c_requests (foldl client_step s (map (Read n) reads)) ! n) = None
     \<and> q_kind (c_requests (foldl client_step s (map (Read n) reads)) ! n) = q_kind (c_requests s ! n)
     \<and> q_captured (c_requests (foldl client_step s (map (Read n) reads)) ! n) = q_captured (c_requests s ! n)
     \<and> c_phase (foldl client_step s (map (Read n) reads)) = c_phase s
     \<and> c_conversationHistory (foldl client_step s (map (Read n) reads)) = c_conversationHistory s
     \<and> c_projectInformation (foldl client_step s (map (Read n) reads)) = c_projectInformation s
     \<and> c_scheduled (foldl client_step s (map (Read n) reads)) = c_scheduled s
     \<and> c_isStreaming (foldl client_step s (map (Read n) reads)) = c_isStreaming s
     \<and> c_currentRequest (foldl client_step s (map (Read n) reads)) = c_currentRequest s
     \<and> length (c_requests (foldl client_step s (map (Read n) reads))) = length (c_requests s)
     \<and> (c_isStreaming s \<and> c_timer s = Some (q_captured (c_requests s ! n)) \<longrightarrow>
          c_timer (foldl client_step s (map (Read n) reads)) = Some (q_captured (c_requests s ! n)))"
  using assms
proof (induction reads arbitrary: s)
  case Nil
  then show ?case by simp
next
  case (Cons chunks reads)
  let ?F = "forChunks chunks (c_requests s ! n, s)"
  let ?s = "client_step s (Read n chunks)"
  have nf: "\<forall>r \<in> set chunks. \<forall>data. r = Some data \<longrightarrow>
             r_error data = Some True \<or> r_done data \<noteq> Some True"
    using Cons.prems(1) by simp
  have st: "?s = (snd ?F)\<lparr>c_requests := (c_requests s)[n := fst ?F]\<rparr>"
    using Cons.prems(2,3) by (rule Read_step)
  note fc = forChunks_client [of chunks "c_requests s ! n" s]
  note fr = forChunks_request [of chunks "c_requests s ! n" s]
  note fn = forChunks_no_final [OF nf, of "c_requests s ! n" s]
  have a: "n < length (c_requests ?s)" "length (c_requests ?s) = length (c_requests s)"
    using Cons.prems(2) by (simp_all add: st del: client_step.simps)
  have q: "c_requests ?s ! n = fst ?F"
    using Cons.prems(2) by (simp add: st del: client_step.simps)
  have b: "q_stage (c_requests ?s ! n) = Reading" "q_completeData (c_requests ?s ! n) = None"
    "q_kind (c_requests ?s ! n) = q_kind (c_requests s ! n)"
    "q_captured (c_requests ?s ! n) = q_captured (c_requests s ! n)"
    using fr fn Cons.prems(3,4) by (simp_all add: q del: client_step.simps)
  have c: "c_phase ?s = c_phase s" "c_conversationHistory ?s = c_conversationHistory s"
    "c_projectInformation ?s = c_projectInformation s" "c_scheduled ?s = c_scheduled s"
    "c_isStreaming ?s = c_isStreaming s" "c_currentRequest ?s = c_currentRequest s"
    using fc by (simp_all add: st del: client_step.simps)
  have t: "c_isStreaming s \<and> c_timer s = Some (q_captured (c_requests s ! n)) \<longrightarrow>
           c_timer ?s = Some (q_captured (c_requests s ! n))"
    using forChunks_timer [of s "c_requests s ! n" chunks] by (simp add: st del: client_step.simps)
  have rest: "\<forall>chunks \<in> set reads. \<forall>r \<in> set chunks. \<forall>data. r = Some data \<longrightarrow>
             r_error data = Some True \<or> r_done data \<noteq> Some True"
    using Cons.prems(1) by simp
  note ih = Cons.IH [OF rest a(1) b(1) b(2)]
  have f: "foldl client_step s (map (Read n) (chunks # reads)) = foldl client_step ?s (map (Read n) reads)"
    by simp
  show ?case unfolding f using ih a b c t by (simp del: client_step.simps)
qed

lemma reads_of_nothing:
  "\<not> n < length (c_requests s) \<Longrightarrow> foldl client_step s (map (Read n) reads) = s"
  by (induction reads) simp_all

lemma error_stream_no_final:
  assumes "list_all chunkOnly pre" and "concat reads = map Some (pre @ [streamError e])"
  shows "\<forall>chunks \<in> set reads. \<forall>r \<in> set chunks. \<forall>data. r = Some data \<longrightarrow>
           r_error data = Some True \<or> r_done data \<noteq> Some True"
proof (intro ballI allI impI)
  fix chunks r data
  assume "chunks \<in> set reads" "r \<in> set chunks" "r = Some data"
  then have "Some data \<in> set (concat reads)" by auto
  with assms(2) have "data \<in> set pre \<or> data = streamError e" by auto
  with assms(1) show "r_error data = Some True \<or> r_done data \<noteq> Some True"
    by (auto simp: list_all_iff chunkOnly_def streamError_def)
qed

text \<open>
  A message is sent and the response is a stream that ends in the error record. At its
  end the state variables are as before the message. The watchdog, though, armed when
  the message was sent, is still armed: nothing on this path stops the tracking.
\<close>

lemma error_stream_client:
  assumes "list_all chunkOnly pre" and "concat reads = map Some (pre @ [streamError e])"
  shows "c_phase (run st ([UserSends m, Responded (length (c_requests st))]
                          @ map (Read (length (c_requests st))) reads
                          @ [Closed (length (c_requests st))])) = c_phase st
     \<and> c_conversationHistory (run st ([UserSends m, Responded (length (c_requests st))]
                          @ map (Read (length (c_requests st))) reads
                          @ [Closed (length (c_requests st))])) = c_conversationHistory st
     \<and> c_projectInformation (run st ([UserSends m, Responded (length (c_requests st))]
                          @ map (Read (length (c_requests st))) reads
                          @ [Closed (length (c_requests st))])) = c_projectInformation st
     \<and> (\<not> list_all isSpace m \<longrightarrow>
          c_timer (run st ([UserSends m, Responded (length (c_requests st))]
                          @ map (Read (length (c_requests st))) reads
                          @ [Closed (length (c_requests st))])) = Some (c_rendered st)
          \<and> c_currentRequest (run st ([UserSends m, Responded (length (c_requests st))]
                          @ map (Read (length (c_requests st))) reads
                          @ [Closed (length (c_requests st))])) =
              \<lparr>t_phase = k_phase (c_rendered st), t_userInput = Some m,
               t_projectInformation = k_projectInformation (c_rendered st)\<rparr>)"
proof (cases "list_all isSpace m")
  case True
  then have "run st ([UserSends m, Responded (length (c_requests st))]
                          @ map (Read (length (c_requests st))) reads
                          @ [Closed (length (c_requests st))]) = st"
    by (simp add: run_def handleSendMessage_def reads_of_nothing)
  with True show ?thesis by simp
next
  case False
  let ?n = "length (c_requests st)"
  let ?k = "c_rendered st"
  let ?s1 = "client_step st (UserSends m)"
  let ?s2 = "client_step ?s1 (Responded ?n)"
  let ?s3 = "foldl client_step ?s2 (map (Read ?n) reads)"
  have r: "run st ([UserSends m, Responded ?n] @ map (Read ?n) reads @ [Closed ?n])
           = client_step ?s3 (Closed ?n)"
    by (simp add: run_def del: client_step.simps)
  have s2: "?n < length (c_requests ?s2)" "q_stage (c_requests ?s2 ! ?n) = Reading"
    "q_completeData (c_requests ?s2 ! ?n) = None" "q_captured (c_requests ?s2 ! ?n) = ?k"
    "q_kind (c_requests ?s2 ! ?n) = Sending"
    "c_phase ?s2 = c_phase st" "c_conversationHistory ?s2 = c_conversationHistory st"
    "c_projectInformation ?s2 = c_projectInformation st"
    "c_isStreaming ?s2" "c_timer ?s2 = Some ?k"
    "c_currentRequest ?s2 = \<lparr>t_phase = k_phase ?k, t_userInput = Some m,
               t_projectInformation = k_projectInformation ?k\<rparr>"
    using False
    by (simp_all add: handleSendMessage_def startStreamTracking_def resetTimeoutTimer_def
          clearTimeoutTimer_def newRequest_def responded_def Let_def nth_append)
  note k = reads_keep [OF error_stream_no_final [OF assms] s2(1,2,3)]
  have c: "client_step ?s3 (Closed ?n) =
             ?s3\<lparr>c_requests := (c_requests ?s3)[?n := (c_requests ?s3 ! ?n)\<lparr>q_stage := Over\<rparr>]\<rparr>"
    using k by (simp add: endOfStream_def Let_def del: foldl_map)
  show ?thesis unfolding r c using k s2 False by (simp del: client_step.simps foldl_map)
qed

text \<open>
  When that timer goes off, \<^verbatim>\<open>handleTimeout\<close> posts the same user input again as a
  continuation request, with the text received so far as the partial response.
\<close>

lemma watchdog_resends_after_error:
  assumes "list_all chunkOnly pre" and "concat reads = map Some (pre @ [streamError e])"
    and "\<not> list_all isSpace m" and "k_phase (c_rendered st) = ''gathering''"
  shows "c_requests (run st ([UserSends m, Responded (length (c_requests st))]
                          @ map (Read (length (c_requests st))) reads
                          @ [Closed (length (c_requests st)), WatchdogFires])) =
         c_requests (run st ([UserSends m, Responded (length (c_requests st))]
                          @ map (Read (length (c_requests st))) reads
                          @ [Closed (length (c_requests st))]))
         @ [newRequest ContinuingGathering (c_rendered st)
              \<lparr>p_phase = ''gathering'', p_userInput = Some m,
               p_conversationHistory = Some (k_conversationHistory (c_rendered st)),
               p_projectInformation = None, p_continuationMode = True,
               p_partialResponse =
                 Some (c_response (run st ([UserSends m, Responded (length (c_requests st))]
                          @ map (Read (length (c_requests st))) reads
                          @ [Closed (length (c_requests st))])))\<rparr>]"
proof -
  let ?ev = "[UserSends m, Responded (length (c_requests st))]
                          @ map (Read (length (c_requests st))) reads
                          @ [Closed (length (c_requests st))]"
  have a: "run st ([UserSends m, Responded (length (c_requests st))]
                          @ map (Read (length (c_requests st))) reads
                          @ [Closed (length (c_requests st)), WatchdogFires])
           = client_step (run st ?ev) WatchdogFires"
    by (simp add: run_def del: client_step.simps)
  from error_stream_client [OF assms(1,2), of st m] assms(3)
  have t: "c_timer (run st ?ev) = Some (c_rendered st)"
    and c: "c_currentRequest (run st ?ev) =
              \<lparr>t_phase = k_phase (c_rendered st), t_userInput = Some m,
               t_projectInformation = k_projectInformation (c_rendered st)\<rparr>"
    by simp_all
  show ?thesis unfolding a
    using t c assms(4)
    by (simp add: watchdogFires_def handleTimeout_def handleContinuationForGathering_def)
qed

lemma refused_client:
  "c_phase (run st [UserSends m, Failed (length (c_requests st))]) = c_phase st
   \<and> c_conversationHistory (run st [UserSends m, Failed (length (c_requests st))]) = c_conversationHistory st
   \<and> c_projectInformation (run st [UserSends m, Failed (length (c_requests st))]) = c_projectInformation st"
  by (simp add: run_def handleSendMessage_def startStreamTracking_def resetTimeoutTimer_def
        clearTimeoutTimer_def newRequest_def Let_def)

text \<open>
  The same holds when the request is refused (a status that is not ok, as for a
  non-streaming failure): the \<^verbatim>\<open>catch\<close> of \<^verbatim>\<open>handleSendMessage\<close> does not stop the tracking
  that was started before the \<^verbatim>\<open>fetch\<close>, and the timer posts a continuation with an empty
  partial response.
\<close>

lemma watchdog_resends_after_refusal:
  assumes "\<not> list_all isSpace m" and "k_phase (c_rendered st) = ''gathering''"
  shows "c_requests (run st [UserSends m, Failed (length (c_requests st)), WatchdogFires]) =
         c_requests (run st [UserSends m, Failed (length (c_requests st))])
         @ [newRequest ContinuingGathering (c_rendered st)
              \<lparr>p_phase = ''gathering'', p_userInput = Some m,
               p_conversationHistory = Some (k_conversationHistory (c_rendered st)),
               p_projectInformation = None, p_continuationMode = True,
               p_partialResponse = Some []\<rparr>]"
  using assms
  by (simp add: run_def handleSendMessage_def startStreamTracking_def resetTimeoutTimer_def
        clearTimeoutTimer_def newRequest_def Let_def watchdogFires_def handleTimeout_def
        handleContinuationForGathering_def)

subsection \<open>The claim\<close>

text \<open>
  C7 as stated fails on the first revision: with the gateway answering status 500 the
  request succeeds with status 200, the body has no error flag, and the returned
  conversation context is not the one that came in.
\<close>

theorem upstream_error_counterexample:
  "upstreamFailure (Http False 500 NotJson)
   \<and> POST_p0 (world None (Inr []) ([], None) (Http False 500 NotJson))
        \<lparr>b0_phase = ''gathering'', b0_userInput = ''deck'', b0_conversationContext = ''User: hi'',
         b0_projectInformation = []\<rparr> =
       ([Gateway (Fetch ''User: hi\<newline>User: deck\<newline>'')],
        Json 200 (blank\<lparr>r_text := Some ''Error generating response. Please try again.'',
                       r_conversationContext :=
                         Some ''User: hi\<newline>User: deck\<newline>\<newline>AI: Error generating response. Please try again.\<newline>'',
                       r_isComplete := Some False,
                       r_projectInformation := Some []\<rparr>))
   \<and> r_error (blank\<lparr>r_text := Some ''Error generating response. Please try again.'',
                       r_conversationContext :=
                         Some ''User: hi\<newline>User: deck\<newline>\<newline>AI: Error generating response. Please try again.\<newline>'',
                       r_isComplete := Some False,
                       r_projectInformation := Some []\<rparr>) = None
   \<and> ''User: hi\<newline>User: deck\<newline>\<newline>AI: Error generating response. Please try again.\<newline>'' \<noteq> ''User: hi''"
  by (simp add: POST_p0_def handleInformationGathering_p0_def fetchGeminiResponse_def world_def Let_def)

text \<open>
  C7, amended. A request makes a gateway call that fails at most once, as its last
  effect: no handler of any revision repeats it. What the request answers depends on the
  revision. In the first revision a failure of the gateway is not raised:
  \<^verbatim>\<open>fetchGeminiResponse\<close> catches it and both handlers answer status 200 with the fixed
  text \<^verbatim>\<open>Error generating response. Please try again.\<close> as an ordinary reply, the
  gathering handler with the conversation context extended by that reply and not
  complete; only a first candidate without text under an ok status escapes the catch,
  and then gathering answers status 500 with the uniform error body and recommendation
  answers status 200 with no text. In the two SDK revisions a failed generation surfaces
  as an error: a non-streaming request answers status 500 with the uniform error body
  carrying the message; a streaming request answers the fragments received so far, each
  as a record that carries a fragment only, and then the error record carrying the
  message, so that no record brings a conversation history, a completion flag or project
  information. The client that has sent a message and reads such a stream, however the
  records are framed into reads, has at the end of the stream the phase, the conversation
  history and the project information it had before; so it has when the request is
  refused. What the watchdog does after that moment is no part of this statement: it is
  the subject of the two preceding lemmas.
\<close>

theorem upstream_error_handling:
  "(Gateway (Fetch content) \<in> set (fst (POST_p0 env body0)) \<and> upstreamFailure (fetch env content)
    \<longrightarrow> last (fst (POST_p0 env body0)) = Gateway (Fetch content)
        \<and> count_list (fst (POST_p0 env body0)) (Gateway (Fetch content)) = 1
        \<and> snd (POST_p0 env body0) =
            (if b0_phase body0 = ''gathering'' then
               (if textless (fetch env content) then
                  Json 500 (blank\<lparr>r_error := Some True,
                             r_text := Some ''An error occurred while processing your request.''\<rparr>)
                else
                  Json 200 (blank\<lparr>r_text := Some ''Error generating response. Please try again.'',
                             r_conversationContext :=
                               Some (content @ ''\<newline>AI: '' @ ''Error generating response. Please try again.'' @ ''\<newline>''),
                             r_isComplete := Some False,
                             r_projectInformation := Some []\<rparr>))
             else
               Json 200 (blank\<lparr>r_text := (if textless (fetch env content) then None
                                            else Some ''Error generating response. Please try again.''),
                              r_error := Some False\<rparr>)))
   \<and> (Gateway call1 \<in> set (fst (POST_p1 env body1)) \<and> gatewayFails env call1 e1
    \<longrightarrow> last (fst (POST_p1 env body1)) = Gateway call1
        \<and> count_list (fst (POST_p1 env body1)) (Gateway call1) = 1
        \<and> (if b_streaming body1 then
             (\<exists>sent. snd (POST_p1 env body1) = Stream (sent @ [streamError e1])
                     \<and> list_all chunkOnly sent)
           else snd (POST_p1 env body1) = requestError e1))
   \<and> (Gateway call2 \<in> set (fst (POST_p2 env body2)) \<and> gatewayFails env call2 e2
    \<longrightarrow> last (fst (POST_p2 env body2)) = Gateway call2
        \<and> count_list (fst (POST_p2 env body2)) (Gateway call2) = 1
        \<and> (if b2_streaming body2 then
             (\<exists>sent. snd (POST_p2 env body2) = Stream (sent @ [streamError e2])
                     \<and> list_all chunkOnly sent)
           else snd (POST_p2 env body2) = requestError e2))
   \<and> (list_all chunkOnly pre \<and> concat reads = map Some (pre @ [streamError e])
    \<longrightarrow> c_phase (run st ([UserSends m, Responded (length (c_requests st))]
                           @ map (Read (length (c_requests st))) reads
                           @ [Closed (length (c_requests st))])) = c_phase st
        \<and> c_conversationHistory (run st ([UserSends m, Responded (length (c_requests st))]
                           @ map (Read (length (c_requests st))) reads
                           @ [Closed (length (c_requests st))])) = c_conversationHistory st
        \<and> c_projectInformation (run st ([UserSends m, Responded (length (c_requests st))]
                           @ map (Read (length (c_requests st))) reads
                           @ [Closed (length (c_requests st))])) = c_projectInformation st)
   \<and> c_phase (run st [UserSends m, Failed (length (c_requests st))]) = c_phase st
   \<and> c_conversationHistory (run st [UserSends m, Failed (length (c_requests st))]) = c_conversationHistory st
   \<and> c_projectInformation (run st [UserSends m, Failed (length (c_requests st))]) = c_projectInformation st"
proof (intro conjI impI)
  assume a: "Gateway (Fetch content) \<in> set (fst (POST_p0 env body0)) \<and> upstreamFailure (fetch env content)"
  then have m: "Gateway (Fetch content) \<in> set (fst (POST_p0 env body0))"
    and f: "upstreamFailure (fetch env content)" by simp_all
  show "last (fst (POST_p0 env body0)) = Gateway (Fetch content)"
    by (rule failure_POST_p0(1) [OF m f])
  show "count_list (fst (POST_p0 env body0)) (Gateway (Fetch content)) = 1"
    by (rule failure_POST_p0(2) [OF m f])
  show "snd (POST_p0 env body0) =
            (if b0_phase body0 = ''gathering'' then
               (if textless (fetch env content) then
                  Json 500 (blank\<lparr>r_error := Some True,
                             r_text := Some ''An error occurred while processing your request.''\<rparr>)
                else
                  Json 200 (blank\<lparr>r_text := Some ''Error generating response. Please try again.'',
                             r_conversationContext :=
                               Some (content @ ''\<newline>AI: '' @ ''Error generating response. Please try again.'' @ ''\<newline>''),
                             r_isComplete := Some False,
                             r_projectInformation := Some []\<rparr>))
             else
               Json 200 (blank\<lparr>r_text := (if textless (fetch env content) then None
                                            else Some ''Error generating response. Please try again.''),
                              r_error := Some False\<rparr>))"
    by (rule failure_POST_p0(3) [OF m f])
next
  assume a: "Gateway call1 \<in> set (fst (POST_p1 env body1)) \<and> gatewayFails env call1 e1"
  then have r: "last (fst (POST_p1 env body1)) = Gateway call1
         \<and> count_list (fst (POST_p1 env body1)) (Gateway call1) = 1
         \<and> (if b_streaming body1 then
              (\<exists>pre. snd (POST_p1 env body1) = Stream (pre @ [streamError e1]) \<and> list_all chunkOnly pre)
            else snd (POST_p1 env body1) = requestError e1)"
    using failure_POST_p1 by blast
  from r show "last (fst (POST_p1 env body1)) = Gateway call1" by (rule conjunct1)
  from r show "count_list (fst (POST_p1 env body1)) (Gateway call1) = 1" by blast
  from r show "if b_streaming body1 then
             (\<exists>sent. snd (POST_p1 env body1) = Stream (sent @ [streamError e1])
                     \<and> list_all chunkOnly sent)
           else snd (POST_p1 env body1) = requestError e1" by blast
next
  assume a: "Gateway call2 \<in> set (fst (POST_p2 env body2)) \<and> gatewayFails env call2 e2"
  then have r: "last (fst (POST_p2 env body2)) = Gateway call2
         \<and> count_list (fst (POST_p2 env body2)) (Gateway call2) = 1
         \<and> (if b2_streaming body2 then
              (\<exists>pre. snd (POST_p2 env body2) = Stream (pre @ [streamError e2]) \<and> list_all chunkOnly pre)
            else snd (POST_p2 env body2) = requestError e2)"
    using failure_POST_p2 by blast
  from r show "last (fst (POST_p2 env body2)) = Gateway call2" by (rule conjunct1)
  from r show "count_list (fst (POST_p2 env body2)) (Gateway call2) = 1" by blast
  from r show "if b2_streaming body2 then
             (\<exists>sent. snd (POST_p2 env body2) = Stream (sent @ [streamError e2])
                     \<and> list_all chunkOnly sent)
           else snd (POST_p2 env body2) = requestError e2" by blast
next
  assume a: "list_all chunkOnly pre \<and> concat reads = map Some (pre @ [streamError e])"
  then have p: "list_all chunkOnly pre" and c: "concat reads = map Some (pre @ [streamError e])"
    by simp_all
  note k = error_stream_client [OF p c, of st m]
  from k show "c_phase (run st ([UserSends m, Responded (length (c_requests st))]
                           @ map (Read (length (c_requests st))) reads
                           @ [Closed (length (c_requests st))])) = c_phase st" by (rule conjunct1)
  from k show "c_conversationHistory (run st ([UserSends m, Responded (length (c_requests st))]
                           @ map (Read (length (c_requests st))) reads
                           @ [Closed (length (c_requests st))])) = c_conversationHistory st" by blast
  from k show "c_projectInformation (run st ([UserSends m, Responded (length (c_requests st))]
                           @ map (Read (length (c_requests st))) reads
                           @ [Closed (length (c_requests st))])) = c_projectInformation st" by blast
next
  show "c_phase (run st [UserSends m, Failed (length (c_requests st))]) = c_phase st"
    using refused_client [of st m] by (rule conjunct1)
  show "c_conversationHistory (run st [UserSends m, Failed (length (c_requests st))]) = c_conversationHistory st"
    using refused_client [of st m] by blast
  show "c_projectInformation (run st [UserSends m, Failed (length (c_requests st))]) = c_projectInformation st"
    using refused_client [of st m] by blast
qed

theorem upstream_error_handling_witness:
  "Gateway (Fetch ''User: hi\<newline>User: deck\<newline>'')
     \<in> set (fst (POST_p0 (world None (Inl ''quota'') ([''par''], Some ''quota'') (Http False 500 NotJson))
                  \<lparr>b0_phase = ''gathering'', b0_userInput = ''deck'',
                   b0_conversationContext = ''User: hi'', b0_projectInformation = []\<rparr>))
   \<and> upstreamFailure (fetch (world None (Inl ''quota'') ([''par''], Some ''quota'') (Http False 500 NotJson))
                         ''User: hi\<newline>User: deck\<newline>'')
   \<and> snd (POST_p0 (world None (Inl ''quota'') ([''par''], Some ''quota'') (Http False 500 NotJson))
             \<lparr>b0_phase = ''gathering'', b0_userInput = ''deck'',
              b0_conversationContext = ''User: hi'', b0_projectInformation = []\<rparr>) =
       Json 200 (blank\<lparr>r_text := Some ''Error generating response. Please try again.'',
                  r_conversationContext :=
                    Some ''User: hi\<newline>User: deck\<newline>\<newline>AI: Error generating response. Please try again.\<newline>'',
                  r_isComplete := Some False,
                  r_projectInformation := Some []\<rparr>)
   \<and> Gateway (SendMessageStream [] ''deck'')
       \<in> set (fst (POST_p1 (world None (Inl ''quota'') ([''par''], Some ''quota'') (Http False 500 NotJson))
                    \<lparr>b_phase = ''gathering'', b_userInput = ''deck'', b_conversationHistory = [],
                     b_projectInformation = [], b_streaming = True, b_continuationMode = False,
                     b_partialResponse = []\<rparr>))
   \<and> gatewayFails (world None (Inl ''quota'') ([''par''], Some ''quota'') (Http False 500 NotJson))
        (SendMessageStream [] ''deck'') ''quota''
   \<and> (\<exists>sent. snd (POST_p1 (world None (Inl ''quota'') ([''par''], Some ''quota'') (Http False 500 NotJson))
                    \<lparr>b_phase = ''gathering'', b_userInput = ''deck'', b_conversationHistory = [],
                     b_projectInformation = [], b_streaming = True, b_continuationMode = False,
                     b_partialResponse = []\<rparr>) = Stream (sent @ [streamError ''quota''])
             \<and> list_all chunkOnly sent)
   \<and> Gateway (SendMessage [\<lparr>role = ''user'', parts = [''hi'']\<rparr>] ''deck'')
       \<in> set (fst (POST_p2 (world None (Inl ''quota'') ([''par''], Some ''quota'') (Http False 500 NotJson))
                    \<lparr>b2_phase = ''gathering'', b2_userInput = ''deck'',
                     b2_conversationHistory = [\<lparr>role = ''user'', parts = [''hi'']\<rparr>],
                     b2_projectInformation = [], b2_streaming = False, b2_partialResponse = None\<rparr>))
   \<and> gatewayFails (world None (Inl ''quota'') ([''par''], Some ''quota'') (Http False 500 NotJson))
        (SendMessage [\<lparr>role = ''user'', parts = [''hi'']\<rparr>] ''deck'') ''quota''
   \<and> snd (POST_p2 (world None (Inl ''quota'') ([''par''], Some ''quota'') (Http False 500 NotJson))
             \<lparr>b2_phase = ''gathering'', b2_userInput = ''deck'',
              b2_conversationHistory = [\<lparr>role = ''user'', parts = [''hi'']\<rparr>],
              b2_projectInformation = [], b2_streaming = False, b2_partialResponse = None\<rparr>) =
       requestError ''quota''
   \<and> list_all chunkOnly [blank\<lparr>r_chunk := Some ''par'', r_done := Some False\<rparr>]
   \<and> concat [[Some (blank\<lparr>r_chunk := Some ''par'', r_done := Some False\<rparr>)], [Some (streamError ''quota'')]] =
       map Some ([blank\<lparr>r_chunk := Some ''par'', r_done := Some False\<rparr>] @ [streamError ''quota''])
   \<and> c_conversationHistory
        (run (atRest [\<lparr>role = ''user'', parts = [''hi'']\<rparr>])
           [UserSends ''deck'', Responded 0,
            Read 0 [Some (blank\<lparr>r_chunk := Some ''par'', r_done := Some False\<rparr>)],
            Read 0 [Some (streamError ''quota'')], Closed 0]) =
       [\<lparr>role = ''user'', parts = [''hi'']\<rparr>]"
proof -
  let ?W = "world None (Inl ''quota'') ([''par''], Some ''quota'') (Http False 500 NotJson)"
  let ?B0 = "\<lparr>b0_phase = ''gathering'', b0_userInput = ''deck'',
              b0_conversationContext = ''User: hi'', b0_projectInformation = []\<rparr>"
  let ?B1 = "\<lparr>b_phase = ''gathering'', b_userInput = ''deck'', b_conversationHistory = [],
             b_projectInformation = [], b_streaming = True, b_continuationMode = False,
             b_partialResponse = []\<rparr>"
  let ?B2 = "\<lparr>b2_phase = ''gathering'', b2_userInput = ''deck'',
             b2_conversationHistory = [\<lparr>role = ''user'', parts = [''hi'']\<rparr>],
             b2_projectInformation = [], b2_streaming = False, b2_partialResponse = None\<rparr>"
  let ?sent = "''User: hi\<newline>User: deck\<newline>''"
  let ?c1 = "SendMessageStream [] ''deck''"
  let ?c2 = "SendMessage [\<lparr>role = ''user'', parts = [''hi'']\<rparr>] ''deck''"
  let ?CH = "blank\<lparr>r_chunk := Some ''par'', r_done := Some False\<rparr>"
  let ?reads = "[[Some ?CH], [Some (streamError ''quota'')]]"
  let ?st = "atRest [\<lparr>role = ''user'', parts = [''hi'']\<rparr>]"
  have m0: "Gateway (Fetch ?sent) \<in> set (fst (POST_p0 ?W ?B0))"
    by (simp add: POST_p0_def handleInformationGathering_p0_def fetchGeminiResponse_def world_def Let_def)
  have f0: "upstreamFailure (fetch ?W ?sent)"
    by (simp add: world_def)
  have b0: "b0_phase ?B0 = ''gathering''" "\<not> textless (fetch ?W ?sent)"
    by (simp_all add: world_def)
  have m1: "Gateway ?c1 \<in> set (fst (POST_p1 ?W ?B1))"
    by (simp add: POST_p1_def streamInformationGathering_p1_def world_def Let_def)
  have f1: "gatewayFails ?W ?c1 ''quota''"
    by (simp add: world_def)
  have b1: "b_streaming ?B1" by simp
  have m2: "Gateway ?c2 \<in> set (fst (POST_p2 ?W ?B2))"
    by (simp add: POST_p2_def handleInformationGathering_p2_def world_def Let_def)
  have f2: "gatewayFails ?W ?c2 ''quota''"
    by (simp add: world_def)
  have b2: "\<not> b2_streaming ?B2" by simp
  have p: "list_all chunkOnly [?CH]"
    by (simp add: chunkOnly_def)
  have c: "concat ?reads = map Some ([?CH] @ [streamError ''quota''])"
    by simp
  have ev: "[UserSends ''deck'', Responded (length (c_requests ?st))]
              @ map (Read (length (c_requests ?st))) ?reads @ [Closed (length (c_requests ?st))]
            = [UserSends ''deck'', Responded 0, Read 0 [Some ?CH],
               Read 0 [Some (streamError ''quota'')], Closed 0]"
    and h: "c_conversationHistory ?st = [\<lparr>role = ''user'', parts = [''hi'']\<rparr>]"
    by (simp_all add: atRest_def)
  note t = upstream_error_handling
    [of ?sent ?W ?B0 ?c1 ?B1 "''quota''" ?c2 ?B2 "''quota''" "[?CH]" ?reads "''quota''" ?st "''deck''"]
  note t1 = t [THEN conjunct1, THEN mp, OF conjI [OF m0 f0]]
  note t2 = t [THEN conjunct2, THEN conjunct1, THEN mp, OF conjI [OF m1 f1]]
  note t3 = t [THEN conjunct2, THEN conjunct2, THEN conjunct1, THEN mp, OF conjI [OF m2 f2]]
  note t4 = t [THEN conjunct2, THEN conjunct2, THEN conjunct2, THEN conjunct1, THEN mp,
               OF conjI [OF p c]]
  from t1 b0 have r0: "snd (POST_p0 ?W ?B0) =
       Json 200 (blank\<lparr>r_text := Some ''Error generating response. Please try again.'',
                  r_conversationContext :=
                    Some ''User: hi\<newline>User: deck\<newline>\<newline>AI: Error generating response. Please try again.\<newline>'',
                  r_isComplete := Some False,
                  r_projectInformation := Some []\<rparr>)"
    by simp
  from t2 b1 have r1: "\<exists>sent. snd (POST_p1 ?W ?B1) = Stream (sent @ [streamError ''quota''])
             \<and> list_all chunkOnly sent"
    by simp
  from t3 b2 have r2: "snd (POST_p2 ?W ?B2) = requestError ''quota''"
    by simp
  from t4 have "c_conversationHistory
        (run ?st ([UserSends ''deck'', Responded (length (c_requests ?st))]
              @ map (Read (length (c_requests ?st))) ?reads @ [Closed (length (c_requests ?st))]))
        = c_conversationHistory ?st"
    by blast
  then have r4: "c_conversationHistory
        (run ?st [UserSends ''deck'', Responded 0, Read 0 [Some ?CH],
               Read 0 [Some (streamError ''quota'')], Closed 0])
        = [\<lparr>role = ''user'', parts = [''hi'']\<rparr>]"
    unfolding ev h .
  from m0 f0 r0 m1 f1 r1 m2 f2 r2 p c r4 show ?thesis by blast
qed


section \<open>The records of a stream\<close>

lemma oneTerminal_stream [simp]:
  "\<forall>c. chunkOnly (mk c) \<Longrightarrow> oneTerminal (map mk cs @ [final]) = (r_done final = Some True)"
proof -
  assume a: "\<forall>c. chunkOnly (mk c)"
  then have "filter (\<lambda>r. r_done r = Some True) (map mk cs) = []"
    by (auto simp: filter_empty_conv chunkOnly_def)
  moreover from a have "list_all chunkOnly (map mk cs)"
    by (simp add: list_all_iff)
  ultimately show ?thesis
    by (auto simp: oneTerminal_def)
qed

lemma oneTerminal_single [simp]: "oneTerminal [final] = (r_done final = Some True)"
  by (auto simp: oneTerminal_def)

lemma streamedText_stream [simp]:
  "\<forall>c. r_chunk (mk c) = Some c \<Longrightarrow> r_chunk final = None \<Longrightarrow>
   streamedText (map mk cs @ [final]) = concat cs"
  by (simp add: streamedText_def chunks_of_stream)

lemma streamedText_single [simp]: "r_chunk final = None \<Longrightarrow> streamedText [final] = []"
  by (simp add: streamedText_def List.map_filter_simps)









section \<open>The phase transition of the client\<close>

subsection \<open>Recommendation answers carry no completion flag, and their handlers run no transition\<close>

lemma recommendation_stream_no_flag_p1:
  "r \<in> set (snd (streamToolRecommendation_p1 env info cm p)) \<Longrightarrow> r_isComplete r = None"
proof (cases "readCatalog env")
  case (Pair reads catalog)
  assume r: "r \<in> set (snd (streamToolRecommendation_p1 env info cm p))"
  show ?thesis
  proof (cases catalog)
    case None
    with Pair r show ?thesis
      by (simp add: streamToolRecommendation_p1_unavailable)
  next
    case (Some c)
    obtain toolInformation productUrls where c: "c = (toolInformation, productUrls)"
      by (cases c)
    obtain cs failure where g: "generateStream env (GenerateContentStream
           (if cm \<and> p \<noteq> [] then recommendationContinuation_p1 p
            else recommendationPrompt_p1 info toolInformation productUrls)) = (cs, failure)"
      by (cases "generateStream env (GenerateContentStream
           (if cm \<and> p \<noteq> [] then recommendationContinuation_p1 p
            else recommendationPrompt_p1 info toolInformation productUrls))")
    note eq = streamToolRecommendation_p1_ok [OF Pair [unfolded Some c] g]
    from r show ?thesis
      by (cases failure) (auto simp: eq)
  qed
qed

lemma recommendation_stream_no_flag_p2:
  "r \<in> set (snd (streamToolRecommendation_p2 env info pr)) \<Longrightarrow> r_isComplete r = None"
proof (cases "readCatalog env")
  case (Pair reads catalog)
  assume r: "r \<in> set (snd (streamToolRecommendation_p2 env info pr))"
  show ?thesis
  proof (cases catalog)
    case None
    with Pair r show ?thesis
      by (simp add: streamToolRecommendation_p2_unavailable)
  next
    case (Some c)
    obtain toolInformation productUrls where c: "c = (toolInformation, productUrls)"
      by (cases c)
    obtain cs failure where g: "generateStream env (GenerateContentStream
           (case pr of
              Some x \<Rightarrow> continuePrompt_p2 (previousOutput_of x)
            | None \<Rightarrow> recommendationPrompt_p2 info toolInformation productUrls)) = (cs, failure)"
      by (cases "generateStream env (GenerateContentStream
           (case pr of
              Some x \<Rightarrow> continuePrompt_p2 (previousOutput_of x)
            | None \<Rightarrow> recommendationPrompt_p2 info toolInformation productUrls))")
    note eq = streamToolRecommendation_p2_ok [OF Pair [unfolded Some c] g]
    from r show ?thesis
      by (cases failure) (auto simp: eq)
  qed
qed

lemma recommendation_result_no_flag:
  "handleToolRecommendation_p1 env info cm p = (effects, Inr result) \<Longrightarrow> r_isComplete result = None"
  "handleToolRecommendation_p2 env info pr = (effects, Inr result) \<Longrightarrow> r_isComplete result = None"
  by (auto simp: handleToolRecommendation_p1_def handleToolRecommendation_p2_def Let_def
           split: if_splits sum.splits prod.splits option.splits)

lemma recommendation_never_transitions:
  assumes "q_kind q = Recommending \<or> q_kind q = ContinuingRecommendation"
  shows "c_phase (endOfStream q st) = c_phase st
     \<and> c_projectInformation (endOfStream q st) = c_projectInformation st
     \<and> c_conversationHistory (endOfStream q st) = c_conversationHistory st
     \<and> c_scheduled (endOfStream q st) = c_scheduled st"
  using assms
  by (auto simp: endOfStream_def finishStreamTracking_def clearTimeoutTimer_def
           split: option.splits)

subsection \<open>The guard of the transition block reads the phase of the handler's closure\<close>

text \<open>
  The transition block (project information, phase, scheduled recommendation) runs at
  the end of a gathering stream whose done record says complete, when the phase
  \<^emph>\<open>captured by the handler\<close> is gathering. The phase the component has at that moment is
  not consulted.
\<close>

lemma transition_guard:
  "c_scheduled (endOfStream q st) =
     (if (q_kind q = Sending \<or> q_kind q = ContinuingGathering)
         \<and> (\<exists>completeData. q_completeData q = Some completeData
                \<and> r_isComplete completeData = Some True)
         \<and> k_phase (q_captured q) = ''gathering''
      then c_scheduled st
           @ [(r_projectInformation (the (q_completeData q)), q_captured q)]
      else c_scheduled st)"
  by (auto simp: endOfStream_def finishStreamTracking_def clearTimeoutTimer_def
        setConversationHistory_def setProjectInformation_def setPhase_def schedule_def Let_def
           split: option.splits)

subsection \<open>A continuation that overlaps the request it continues\<close>

lemma first_answer:
  "POST_p1 twoAnswers
       \<lparr>b_phase = ''gathering'', b_userInput = ''a deck'', b_conversationHistory = openingHistory,
        b_projectInformation = [], b_streaming = True, b_continuationMode = False,
        b_partialResponse = []\<rparr> =
     ([Gateway (SendMessageStream openingHistory ''a deck'')], Stream firstAnswer)"
  by (simp add: POST_p1_def streamInformationGathering_p1_def twoAnswers_def openingHistory_def
        firstAnswer_def Let_def)

lemma second_answer:
  "POST_p1 twoAnswers
       \<lparr>b_phase = ''gathering'', b_userInput = ''a deck'', b_conversationHistory = openingHistory,
        b_projectInformation = [], b_streaming = True, b_continuationMode = True,
        b_partialResponse = ''## FINAL SUMMARY ##''\<rparr> =
     ([Gateway (SendMessageStream openingHistory (gatheringContinuation_p1 ''## FINAL SUMMARY ##''))],
      Stream secondAnswer)"
  by (simp add: POST_p1_def streamInformationGathering_p1_def twoAnswers_def openingHistory_def
        secondAnswer_def gatheringContinuation_p1_def popPartial_def Let_def)

lemmas client_defs =
  run_def atRest_def overlap_def firstAnswer_def secondAnswer_def openingHistory_def
  handleSendMessage_def handleRecommendationPhase_def handleContinuationForGathering_def
  handleContinuationForRecommendation_def handleTimeout_def watchdogFires_def responded_def
  endOfStream_def renders_def schedule_def newRequest_def isSpace_def
  startStreamTracking_def updateResponseContent_def finishStreamTracking_def
  resetTimeoutTimer_def clearTimeoutTimer_def
  setConversationHistory_def setProjectInformation_def setPhase_def Let_def

lemma posted_by_overlap:
  "map q_posted (c_requests (run (atRest openingHistory) (take 4 overlap))) =
     [\<lparr>p_phase = ''gathering'', p_userInput = Some ''a deck'',
       p_conversationHistory = Some openingHistory, p_projectInformation = Some [],
       p_continuationMode = False, p_partialResponse = None\<rparr>,
      \<lparr>p_phase = ''gathering'', p_userInput = Some ''a deck'',
       p_conversationHistory = Some openingHistory, p_projectInformation = None,
       p_continuationMode = True, p_partialResponse = Some ''## FINAL SUMMARY ##''\<rparr>]"
  by (simp add: client_defs)

lemma before_second_end:
  "c_phase (run (atRest openingHistory) overlap) = ''recommendation''"
  "c_projectInformation (run (atRest openingHistory) overlap) = Some ''## FINAL SUMMARY ## a deck''"
  "c_scheduled (run (atRest openingHistory) overlap) = []"
  "map (\<lambda>q. (q_kind q, p_projectInformation (q_posted q)))
       (c_requests (run (atRest openingHistory) overlap)) =
     [(Sending, Some []), (ContinuingGathering, None),
      (Recommending, Some ''## FINAL SUMMARY ## a deck'')]"
  by (simp_all add: client_defs)

lemma after_second_end:
  "c_phase (run (atRest openingHistory) (overlap @ [Closed 1])) = ''recommendation''"
  "c_projectInformation (run (atRest openingHistory) (overlap @ [Closed 1])) =
     Some ''## FINAL SUMMARY ## a deck of 12 m2''"
  "map fst (c_scheduled (run (atRest openingHistory) (overlap @ [Closed 1]))) =
     [Some ''## FINAL SUMMARY ## a deck of 12 m2'']"
  "map (\<lambda>q. (q_kind q, p_projectInformation (q_posted q)))
       (c_requests (run (atRest openingHistory) (overlap @ [Closed 1, Renders, RecommendationStarts]))) =
     [(Sending, Some []), (ContinuingGathering, None),
      (Recommending, Some ''## FINAL SUMMARY ## a deck''),
      (Recommending, Some ''## FINAL SUMMARY ## a deck of 12 m2'')]"
  by (simp_all add: client_defs)

text \<open>
  C9 (idempotent phase transition). The transition block is guarded by
  \<^verbatim>\<open>phase === "gathering"\<close>, but the phase it reads is the one captured by the handler,
  and the continuation handler that the watchdog starts belongs to the render in which
  the message was sent. In the run \<open>overlap\<close> the watchdog fires while the first answer is
  arriving; the request is not aborted, and both it and the continuation end with a done
  record that says complete, as the route answers them. The first end runs the
  transition; the second, although the component is in the recommendation phase by
  then, runs it again: the project information is overwritten and a second
  recommendation is requested.
\<close>

theorem phase_transition_fires_twice:
  "snd (POST_p1 twoAnswers
          \<lparr>b_phase = ''gathering'', b_userInput = ''a deck'', b_conversationHistory = openingHistory,
           b_projectInformation = [], b_streaming = True, b_continuationMode = False,
           b_partialResponse = []\<rparr>) = Stream firstAnswer
   \<and> map q_posted (c_requests (run (atRest openingHistory) (take 4 overlap))) =
       [\<lparr>p_phase = ''gathering'', p_userInput = Some ''a deck'',
         p_conversationHistory = Some openingHistory, p_projectInformation = Some [],
         p_continuationMode = False, p_partialResponse = None\<rparr>,
        \<lparr>p_phase = ''gathering'', p_userInput = Some ''a deck'',
         p_conversationHistory = Some openingHistory, p_projectInformation = None,
         p_continuationMode = True, p_partialResponse = Some ''## FINAL SUMMARY ##''\<rparr>]
   \<and> snd (POST_p1 twoAnswers
          \<lparr>b_phase = ''gathering'', b_userInput = ''a deck'', b_conversationHistory = openingHistory,
           b_projectInformation = [], b_streaming = True, b_continuationMode = True,
           b_partialResponse = ''## FINAL SUMMARY ##''\<rparr>) = Stream secondAnswer
   \<and> c_phase (run (atRest openingHistory) overlap) = ''recommendation''
   \<and> c_projectInformation (run (atRest openingHistory) overlap) = Some ''## FINAL SUMMARY ## a deck''
   \<and> map (\<lambda>q. (q_kind q, p_projectInformation (q_posted q)))
         (c_requests (run (atRest openingHistory) overlap)) =
       [(Sending, Some []), (ContinuingGathering, None),
        (Recommending, Some ''## FINAL SUMMARY ## a deck'')]
   \<and> c_scheduled (run (atRest openingHistory) overlap) = []
   \<and> c_phase (run (atRest openingHistory) (overlap @ [Closed 1])) = ''recommendation''
   \<and> c_projectInformation (run (atRest openingHistory) (overlap @ [Closed 1])) =
       Some ''## FINAL SUMMARY ## a deck of 12 m2''
   \<and> map fst (c_scheduled (run (atRest openingHistory) (overlap @ [Closed 1]))) =
       [Some ''## FINAL SUMMARY ## a deck of 12 m2'']
   \<and> map (\<lambda>q. (q_kind q, p_projectInformation (q_posted q)))
         (c_requests (run (atRest openingHistory) (overlap @ [Closed 1, Renders, RecommendationStarts]))) =
       [(Sending, Some []), (ContinuingGathering, None),
        (Recommending, Some ''## FINAL SUMMARY ## a deck''),
        (Recommending, Some ''## FINAL SUMMARY ## a deck of 12 m2'')]"
  using first_answer second_answer posted_by_overlap before_second_end after_second_end
  by simp


section \<open>Continuation requests and the catalog\<close>

lemma readCatalog_eq:
  "readCatalog env =
     (if readFromFile env ''tool_information.txt'' = None then ([ReadFile ''tool_information.txt''], None)
      else if readFromFile env ''product_urls.txt'' = None then ([ReadFile ''tool_information.txt'', ReadFile ''product_urls.txt''], None)
      else ([ReadFile ''tool_information.txt'', ReadFile ''product_urls.txt''],
            Some (the (readFromFile env ''tool_information.txt''), the (readFromFile env ''product_urls.txt''))))"
  by (auto simp: readCatalog_def split: option.splits)

lemma continuation_unreadable:
  assumes "readFromFile env ''tool_information.txt'' = None \<or> readFromFile env ''product_urls.txt'' = None"
  shows "streamToolRecommendation_p1 env info cm p =
           (if readFromFile env ''tool_information.txt'' = None then [ReadFile ''tool_information.txt''] else [ReadFile ''tool_information.txt'', ReadFile ''product_urls.txt''],
            [blank\<lparr>r_error := Some True, r_text := Some ''Error: Unable to access tool information or product URLs. Please try again later.'', r_done := Some True\<rparr>])"
    and "handleToolRecommendation_p1 env info cm p =
           (if readFromFile env ''tool_information.txt'' = None then [ReadFile ''tool_information.txt''] else [ReadFile ''tool_information.txt'', ReadFile ''product_urls.txt''],
            Inr (blank\<lparr>r_text := Some ''Error: Unable to access tool information or product URLs. Please try again later.'', r_error := Some True\<rparr>))"
    and "streamToolRecommendation_p2 env info pr =
           (if readFromFile env ''tool_information.txt'' = None then [ReadFile ''tool_information.txt''] else [ReadFile ''tool_information.txt'', ReadFile ''product_urls.txt''],
            [blank\<lparr>r_error := Some True, r_text := Some ''Error: Unable to access tool information or product URLs. Please try again later.'', r_done := Some True\<rparr>])"
    and "handleToolRecommendation_p2 env info pr =
           (if readFromFile env ''tool_information.txt'' = None then [ReadFile ''tool_information.txt''] else [ReadFile ''tool_information.txt'', ReadFile ''product_urls.txt''],
            Inr (blank\<lparr>r_text := Some ''Error: Unable to access tool information or product URLs. Please try again later.'', r_error := Some True\<rparr>))"
proof -
  have n: "snd (readCatalog env) = None" using assms by (rule readCatalog_unavailable)
  have f: "fst (readCatalog env) =
      (if readFromFile env ''tool_information.txt'' = None then [ReadFile ''tool_information.txt''] else [ReadFile ''tool_information.txt'', ReadFile ''product_urls.txt''])"
    by (simp add: readCatalog_eq)
  note r = recommendation_unavailable [OF n, unfolded catalogError_def f]
  show "streamToolRecommendation_p1 env info cm p =
           (if readFromFile env ''tool_information.txt'' = None then [ReadFile ''tool_information.txt''] else [ReadFile ''tool_information.txt'', ReadFile ''product_urls.txt''],
            [blank\<lparr>r_error := Some True, r_text := Some ''Error: Unable to access tool information or product URLs. Please try again later.'', r_done := Some True\<rparr>])"
    by (rule r)
  show "handleToolRecommendation_p1 env info cm p =
           (if readFromFile env ''tool_information.txt'' = None then [ReadFile ''tool_information.txt''] else [ReadFile ''tool_information.txt'', ReadFile ''product_urls.txt''],
            Inr (blank\<lparr>r_text := Some ''Error: Unable to access tool information or product URLs. Please try again later.'', r_error := Some True\<rparr>))"
    by (rule r)
  show "streamToolRecommendation_p2 env info pr =
           (if readFromFile env ''tool_information.txt'' = None then [ReadFile ''tool_information.txt''] else [ReadFile ''tool_information.txt'', ReadFile ''product_urls.txt''],
            [blank\<lparr>r_error := Some True, r_text := Some ''Error: Unable to access tool information or product URLs. Please try again later.'', r_done := Some True\<rparr>])"
    by (rule r)
  show "handleToolRecommendation_p2 env info pr =
           (if readFromFile env ''tool_information.txt'' = None then [ReadFile ''tool_information.txt''] else [ReadFile ''tool_information.txt'', ReadFile ''product_urls.txt''],
            Inr (blank\<lparr>r_text := Some ''Error: Unable to access tool information or product URLs. Please try again later.'', r_error := Some True\<rparr>))"
    by (rule r)
qed

lemma continuation_readable_p1:
  assumes "p \<noteq> []" and "readFromFile env ''tool_information.txt'' = Some a" and "readFromFile env ''product_urls.txt'' = Some b"
  shows "fst (streamToolRecommendation_p1 env info True p) =
           [ReadFile ''tool_information.txt'', ReadFile ''product_urls.txt'',
            Gateway (GenerateContentStream (recommendationContinuation_p1 p))]"
    and "fst (handleToolRecommendation_p1 env info True p) =
           [ReadFile ''tool_information.txt'', ReadFile ''product_urls.txt'',
            Gateway (GenerateContent (recommendationContinuation_p1 p))]"
proof -
  have rc: "readCatalog env = ([ReadFile ''tool_information.txt'', ReadFile ''product_urls.txt''], Some (a, b))"
    using assms by (simp add: readCatalog_def)
  obtain cs failure where g: "generateStream env (GenerateContentStream
           (if True \<and> p \<noteq> [] then recommendationContinuation_p1 p
            else recommendationPrompt_p1 info a b)) = (cs, failure)"
    by (cases "generateStream env (GenerateContentStream
           (if True \<and> p \<noteq> [] then recommendationContinuation_p1 p
            else recommendationPrompt_p1 info a b))")
  from streamToolRecommendation_p1_ok [OF rc g] assms(1)
  show "fst (streamToolRecommendation_p1 env info True p) =
           [ReadFile ''tool_information.txt'', ReadFile ''product_urls.txt'',
            Gateway (GenerateContentStream (recommendationContinuation_p1 p))]"
    by simp
  from assms(1) show "fst (handleToolRecommendation_p1 env info True p) =
           [ReadFile ''tool_information.txt'', ReadFile ''product_urls.txt'',
            Gateway (GenerateContent (recommendationContinuation_p1 p))]"
    by (cases "generate env (GenerateContent (recommendationContinuation_p1 p))")
       (simp_all add: handleToolRecommendation_p1_def rc Let_def)
qed

lemma continuation_readable_p2:
  assumes "readFromFile env ''tool_information.txt'' = Some a" and "readFromFile env ''product_urls.txt'' = Some b"
  shows "fst (streamToolRecommendation_p2 env info (Some pr)) =
           [ReadFile ''tool_information.txt'', ReadFile ''product_urls.txt'',
            Gateway (GenerateContentStream (continuePrompt_p2 (previousOutput_of pr)))]"
    and "fst (handleToolRecommendation_p2 env info (Some pr)) =
           [ReadFile ''tool_information.txt'', ReadFile ''product_urls.txt'',
            Gateway (GenerateContent (continuePrompt_p2 (previousOutput_of pr)))]"
proof -
  have rc: "readCatalog env = ([ReadFile ''tool_information.txt'', ReadFile ''product_urls.txt''], Some (a, b))"
    using assms by (simp add: readCatalog_def)
  obtain cs failure where g: "generateStream env (GenerateContentStream
           (case Some pr of
              Some x \<Rightarrow> continuePrompt_p2 (previousOutput_of x)
            | None \<Rightarrow> recommendationPrompt_p2 info a b)) = (cs, failure)"
    by (cases "generateStream env (GenerateContentStream
           (case Some pr of
              Some x \<Rightarrow> continuePrompt_p2 (previousOutput_of x)
            | None \<Rightarrow> recommendationPrompt_p2 info a b))")
  from streamToolRecommendation_p2_ok [OF rc g]
  show "fst (streamToolRecommendation_p2 env info (Some pr)) =
           [ReadFile ''tool_information.txt'', ReadFile ''product_urls.txt'',
            Gateway (GenerateContentStream (continuePrompt_p2 (previousOutput_of pr)))]"
    by simp
  show "fst (handleToolRecommendation_p2 env info (Some pr)) =
           [ReadFile ''tool_information.txt'', ReadFile ''product_urls.txt'',
            Gateway (GenerateContent (continuePrompt_p2 (previousOutput_of pr)))]"
    by (cases "generate env (GenerateContent (continuePrompt_p2 (previousOutput_of pr)))")
       (simp_all add: handleToolRecommendation_p2_def rc Let_def)
qed

text \<open>
  C10 (a continuation still needs the catalog). A recommendation request in continuation
  mode (continuation mode on with a non-empty partial text, or a partial response
  object) reads the tool information first and then the product URLs, before anything
  else. When either read fails the request ends with the catalog error, and the gateway
  is not called (the effects are the reads alone). When both succeed, the one call to
  the gateway that follows carries the continuation prompt, which is built from the
  partial text only: nothing that was read is in it.
\<close>

theorem continuation_reads_catalog:
  "(p \<noteq> [] \<and> (readFromFile env ''tool_information.txt'' = None \<or> readFromFile env ''product_urls.txt'' = None) \<longrightarrow>
      streamToolRecommendation_p1 env info True p =
        (if readFromFile env ''tool_information.txt'' = None then [ReadFile ''tool_information.txt''] else [ReadFile ''tool_information.txt'', ReadFile ''product_urls.txt''],
         [blank\<lparr>r_error := Some True, r_text := Some ''Error: Unable to access tool information or product URLs. Please try again later.'', r_done := Some True\<rparr>])
      \<and> handleToolRecommendation_p1 env info True p =
        (if readFromFile env ''tool_information.txt'' = None then [ReadFile ''tool_information.txt''] else [ReadFile ''tool_information.txt'', ReadFile ''product_urls.txt''],
         Inr (blank\<lparr>r_text := Some ''Error: Unable to access tool information or product URLs. Please try again later.'', r_error := Some True\<rparr>)))
   \<and> (p \<noteq> [] \<and> readFromFile env2 ''tool_information.txt'' = Some a
        \<and> readFromFile env2 ''product_urls.txt'' = Some b \<longrightarrow>
      fst (streamToolRecommendation_p1 env2 info True p) =
        [ReadFile ''tool_information.txt'', ReadFile ''product_urls.txt'', Gateway (GenerateContentStream (recommendationContinuation_p1 p))]
      \<and> fst (handleToolRecommendation_p1 env2 info True p) =
        [ReadFile ''tool_information.txt'', ReadFile ''product_urls.txt'', Gateway (GenerateContent (recommendationContinuation_p1 p))])
   \<and> (readFromFile env ''tool_information.txt'' = None \<or> readFromFile env ''product_urls.txt'' = None \<longrightarrow>
      streamToolRecommendation_p2 env info (Some pr) =
        (if readFromFile env ''tool_information.txt'' = None then [ReadFile ''tool_information.txt''] else [ReadFile ''tool_information.txt'', ReadFile ''product_urls.txt''],
         [blank\<lparr>r_error := Some True, r_text := Some ''Error: Unable to access tool information or product URLs. Please try again later.'', r_done := Some True\<rparr>])
      \<and> handleToolRecommendation_p2 env info (Some pr) =
        (if readFromFile env ''tool_information.txt'' = None then [ReadFile ''tool_information.txt''] else [ReadFile ''tool_information.txt'', ReadFile ''product_urls.txt''],
         Inr (blank\<lparr>r_text := Some ''Error: Unable to access tool information or product URLs. Please try again later.'', r_error := Some True\<rparr>)))
   \<and> (readFromFile env2 ''tool_information.txt'' = Some a
        \<and> readFromFile env2 ''product_urls.txt'' = Some b \<longrightarrow>
      fst (streamToolRecommendation_p2 env2 info (Some pr)) =
        [ReadFile ''tool_information.txt'', ReadFile ''product_urls.txt'',
         Gateway (GenerateContentStream (continuePrompt_p2 (previousOutput_of pr)))]
      \<and> fst (handleToolRecommendation_p2 env2 info (Some pr)) =
        [ReadFile ''tool_information.txt'', ReadFile ''product_urls.txt'',
         Gateway (GenerateContent (continuePrompt_p2 (previousOutput_of pr)))])"
  using continuation_unreadable(1) [of env info True p]
        continuation_unreadable(2) [of env info True p]
        continuation_unreadable(3) [of env info "Some pr"]
        continuation_unreadable(4) [of env info "Some pr"]
        continuation_readable_p1 [of p env2 a b info]
        continuation_readable_p2 [of env2 a b info pr]
  by blast

theorem continuation_reads_catalog_witness:
  "streamToolRecommendation_p1 (world None (Inr ''more'') ([''more''], None) (Rejected [])) ''deck'' True ''Hire a'' =
     ([ReadFile ''tool_information.txt''],
      [blank\<lparr>r_error := Some True, r_text := Some ''Error: Unable to access tool information or product URLs. Please try again later.'', r_done := Some True\<rparr>])
   \<and> handleToolRecommendation_p1 (world None (Inr ''more'') ([''more''], None) (Rejected [])) ''deck'' True ''Hire a'' =
     ([ReadFile ''tool_information.txt''], Inr (blank\<lparr>r_text := Some ''Error: Unable to access tool information or product URLs. Please try again later.'', r_error := Some True\<rparr>))
   \<and> streamToolRecommendation_p2 (world None (Inr ''more'') ([''more''], None) (Rejected [])) ''deck'' (Some \<lparr>pr_text = Some ''Hire a'', pr_phase = ''recommendation''\<rparr>) =
     ([ReadFile ''tool_information.txt''],
      [blank\<lparr>r_error := Some True, r_text := Some ''Error: Unable to access tool information or product URLs. Please try again later.'', r_done := Some True\<rparr>])
   \<and> fst (streamToolRecommendation_p1 (world (Some ''SECRET'') (Inr ''more'') ([''more''], None) (Rejected [])) ''deck'' True ''Hire a'') =
     [ReadFile ''tool_information.txt'', ReadFile ''product_urls.txt'',
      Gateway (GenerateContentStream
        (''The previous response was cut off. Here was the partial response: '' @ [CHR 0x22] @ ''Hire a''
         @ [CHR 0x22] @ ''. Please continue from where you left off without repeating any content.''))]
   \<and> fst (handleToolRecommendation_p2 (world (Some ''SECRET'') (Inr ''more'') ([''more''], None) (Rejected [])) ''deck'' (Some \<lparr>pr_text = Some ''Hire a'', pr_phase = ''recommendation''\<rparr>)) =
     [ReadFile ''tool_information.txt'', ReadFile ''product_urls.txt'',
      Gateway (GenerateContent
        (''\<newline>The following is a partially completed response that was cut off due to a timeout.\<newline>Please continue the response from where it was cut off, maintaining the same format and quality.\<newline>\<newline>Partial response:\<newline>Hire a\<newline>\<newline>Continue from where the response was cut off:''))]"
proof -
  let ?W1 = "(world None (Inr ''more'') ([''more''], None) (Rejected []))"
  let ?W2 = "(world (Some ''SECRET'') (Inr ''more'') ([''more''], None) (Rejected []))"
  have n: "(''Hire a'' :: string) \<noteq> []" by simp
  have u: "readFromFile ?W1 ''tool_information.txt'' = None \<or> readFromFile ?W1 ''product_urls.txt'' = None"
    and u1: "readFromFile ?W1 ''tool_information.txt'' = None"
    by (simp_all add: readFromFile_def world_def)
  have r1: "readFromFile ?W2 ''tool_information.txt'' = Some ''SECRET''" and r2: "readFromFile ?W2 ''product_urls.txt'' = Some ''SECRET''"
    by (simp_all add: readFromFile_def world_def)
  note t = continuation_reads_catalog
    [of "''Hire a''" ?W1 "''deck''" ?W2 "''SECRET''" "''SECRET''"
        "\<lparr>pr_text = Some ''Hire a'', pr_phase = ''recommendation''\<rparr>"]
  note t1 = t [THEN conjunct1, THEN mp, OF conjI [OF n u]]
  note t2 = t [THEN conjunct2, THEN conjunct1, THEN mp, OF conjI [OF n conjI [OF r1 r2]]]
  note t3 = t [THEN conjunct2, THEN conjunct2, THEN conjunct1, THEN mp, OF u]
  note t4 = t [THEN conjunct2, THEN conjunct2, THEN conjunct2, THEN mp, OF conjI [OF r1 r2]]
  from t1 t2 t3 t4 u1 show ?thesis
    by (simp add: recommendationContinuation_p1_def continuePrompt_p2_def previousOutput_of_def)
qed


end
